theory Spec2Isabelle
  imports Complex_Main "HOL-Library.AList"
begin

section \<open>Numbers\<close>

text \<open>
  Every JavaScript number of the simulation is modelled as an exact real: positions,
  sizes, velocities, times and hit points are \<open>real\<close>, entity ids, group ids and flags are
  \<open>nat\<close>, cell coordinates (results of \<open>Math.floor\<close>) are \<open>int\<close>. The sign of zero is not part
  of the model. Rounding is modelled for the physics tick, which is given a second time
  with every arithmetic operation rounded; \<open>double\<close> below is the rounding of IEEE doubles. The only place where the source relies
  on the non-finite doubles is \<open>raycast\<close>, which divides by a direction component that may
  be zero; there the values are \<open>jsnum\<close>, a real or one of the three non-finite doubles.
\<close>

datatype jsnum = Fin real | PosInf | NegInf | NaN

text \<open>\<open>a / b\<close> for finite doubles \<open>a\<close> and \<open>b\<close>.\<close>

definition js_div :: "real \<Rightarrow> real \<Rightarrow> jsnum" where
  "js_div a b =
     (if b = 0 then (if a = 0 then NaN else if 0 < a then PosInf else NegInf)
      else Fin (a / b))"

fun js_add :: "jsnum \<Rightarrow> jsnum \<Rightarrow> jsnum" where
  "js_add NaN _ = NaN"
| "js_add _ NaN = NaN"
| "js_add (Fin a) (Fin b) = Fin (a + b)"
| "js_add PosInf NegInf = NaN"
| "js_add NegInf PosInf = NaN"
| "js_add PosInf _ = PosInf"
| "js_add _ PosInf = PosInf"
| "js_add NegInf _ = NegInf"
| "js_add _ NegInf = NegInf"

text \<open>The sign of an infinite product; a zero factor gives \<open>NaN\<close>.\<close>

definition inf_times :: "bool \<Rightarrow> real \<Rightarrow> jsnum" where
  "inf_times positive a =
     (if a = 0 then NaN else if (0 < a) = positive then PosInf else NegInf)"

fun js_mul :: "jsnum \<Rightarrow> jsnum \<Rightarrow> jsnum" where
  "js_mul NaN _ = NaN"
| "js_mul _ NaN = NaN"
| "js_mul (Fin a) (Fin b) = Fin (a * b)"
| "js_mul (Fin a) PosInf = inf_times True a"
| "js_mul (Fin a) NegInf = inf_times False a"
| "js_mul PosInf (Fin b) = inf_times True b"
| "js_mul NegInf (Fin b) = inf_times False b"
| "js_mul PosInf PosInf = PosInf"
| "js_mul NegInf NegInf = PosInf"
| "js_mul PosInf NegInf = NegInf"
| "js_mul NegInf PosInf = NegInf"

fun js_sqrt :: "jsnum \<Rightarrow> jsnum" where
  "js_sqrt (Fin a) = (if a < 0 then NaN else Fin (sqrt a))"
| "js_sqrt PosInf = PosInf"
| "js_sqrt NegInf = NaN"
| "js_sqrt NaN = NaN"

text \<open>\<open>a < b\<close>: false as soon as one side is \<open>NaN\<close>.\<close>

fun js_less :: "jsnum \<Rightarrow> jsnum \<Rightarrow> bool" where
  "js_less NaN _ = False"
| "js_less _ NaN = False"
| "js_less (Fin a) (Fin b) = (a < b)"
| "js_less _ NegInf = False"
| "js_less NegInf _ = True"
| "js_less PosInf _ = False"
| "js_less (Fin a) PosInf = True"

text \<open>
  \<open>double x\<close> is the IEEE 754 double nearest to the real \<open>x\<close>, a tie going to the even
  significand. For \<open>0 < x\<close>, \<open>expo x\<close> is the exponent \<open>e\<close> with \<open>2 ^ e \<le> x < 2 ^ (e + 1)\<close>;
  the doubles around \<open>x\<close> are the multiples of \<open>2 ^ (e - 52)\<close>, and of \<open>2 ^ (- 1074)\<close> in the
  subnormal range. Overflow to an infinity is not modelled.
\<close>

function expo_up :: "real \<Rightarrow> int" where
  "expo_up x = (if 2 \<le> x then expo_up (x / 2) + 1 else 0)"
  by auto
termination
proof (relation "measure (\<lambda>x. nat \<lfloor>x\<rfloor>)")
  show "wf (measure (\<lambda>x::real. nat \<lfloor>x\<rfloor>))" by simp
next
  fix x :: real
  assume "2 \<le> x"
  then have "x / 2 \<le> x - 1" by simp
  then have "\<lfloor>x / 2\<rfloor> \<le> \<lfloor>x - 1\<rfloor>" by (rule floor_mono)
  moreover have "\<lfloor>x - 1\<rfloor> = \<lfloor>x\<rfloor> - 1" by simp
  moreover have "2 \<le> \<lfloor>x\<rfloor>" using \<open>2 \<le> x\<close> by (simp add: le_floor_iff)
  ultimately show "(x / 2, x) \<in> measure (\<lambda>x. nat \<lfloor>x\<rfloor>)" by simp
qed

function expo_down :: "real \<Rightarrow> int" where
  "expo_down x = (if 0 < x \<and> x < 1 then expo_down (2 * x) - 1 else 0)"
  by auto
termination
proof (relation "measure (\<lambda>x. nat \<lfloor>1 / x\<rfloor>)")
  show "wf (measure (\<lambda>x::real. nat \<lfloor>1 / x\<rfloor>))" by simp
next
  fix x :: real
  assume a: "0 < x \<and> x < 1"
  define y where "y = 1 / x"
  have y: "1 < y" using a by (simp add: y_def)
  then have f: "1 \<le> \<lfloor>y\<rfloor>" by (simp add: le_floor_iff)
  have "y < of_int \<lfloor>y\<rfloor> + 1" by linarith
  with f have "y / 2 < of_int \<lfloor>y\<rfloor>" by linarith
  then have "\<lfloor>y / 2\<rfloor> < \<lfloor>y\<rfloor>" by (simp add: floor_less_iff)
  moreover have "1 / (2 * x) = y / 2" by (simp add: y_def)
  ultimately show "(2 * x, x) \<in> measure (\<lambda>x. nat \<lfloor>1 / x\<rfloor>)"
    using f by (simp add: y_def mult.commute)
qed

declare expo_up.simps [simp del] expo_down.simps [simp del]

definition expo :: "real \<Rightarrow> int" where
  "expo x = (if 1 \<le> x then expo_up x else expo_down x)"

definition pow2 :: "int \<Rightarrow> real" where
  "pow2 e = (if 0 \<le> e then 2 ^ nat e else 1 / 2 ^ nat (- e))"

definition round_even :: "real \<Rightarrow> int" where
  "round_even x =
     (let f = \<lfloor>x\<rfloor>
      in if x - of_int f < 1 / 2 then f
         else if 1 / 2 < x - of_int f then f + 1
         else if even f then f else f + 1)"

definition double :: "real \<Rightarrow> real" where
  "double x =
     (if x = 0 then 0
      else (let u = pow2 (max (expo \<bar>x\<bar>) (- 1022) - 52)
            in of_int (round_even (x / u)) * u))"

section \<open>Helpers of the source\<close>

text \<open>\<open>idx(x, y, w)\<close>: an X,Y coordinate as a grid index.\<close>

definition idx :: "int \<Rightarrow> int \<Rightarrow> int \<Rightarrow> int" where
  "idx x y w = y * w + x"

text \<open>\<open>sign(n)\<close>.\<close>

definition sign :: "real \<Rightarrow> real" where
  "sign n = (if 0 < n then 1 else if n = 0 then 0 else - 1)"

text \<open>
  \<open>hash_ids(a, b)\<close>: \<open>a < b ? idx(a, b, 100) : idx(b, a, 100)\<close>. Ids are the naturals
  handed out by \<open>next_entity_id++\<close>, group ids are 1, 2 and 3.
\<close>

definition hash_ids :: "nat \<Rightarrow> nat \<Rightarrow> int" where
  "hash_ids a b = (if a < b then idx (int a) (int b) 100 else idx (int b) (int a) 100)"

section \<open>Rectangles\<close>

record rect =
  rect_x :: real
  rect_y :: real
  rect_w :: real
  rect_h :: real

definition rect_overlap :: "rect \<Rightarrow> rect \<Rightarrow> bool" where
  "rect_overlap a b \<longleftrightarrow>
     rect_x a < rect_x b + rect_w b \<and> rect_x a + rect_w a > rect_x b \<and>
     rect_y a < rect_y b + rect_h b \<and> rect_y a + rect_h a > rect_y b"

text \<open>
  \<open>rect_intersection(a, b, out)\<close> writes the four fields of \<open>out\<close> and returns it; the
  callers pass the scratch rectangle \<open>temp_rect\<close>, which is neither \<open>a\<close> nor \<open>b\<close>, so the
  model returns the rectangle written.
\<close>

definition rect_intersection :: "rect \<Rightarrow> rect \<Rightarrow> rect" where
  "rect_intersection a b =
     (let x1 = min (rect_x a + rect_w a) (rect_x b + rect_w b);
          x2 = max (rect_x a) (rect_x b);
          y1 = min (rect_y a + rect_h a) (rect_y b + rect_h b);
          y2 = max (rect_y a) (rect_y b)
      in \<lparr> rect_x = min x1 x2, rect_y = min y1 y2,
           rect_w = max 0 (x1 - x2), rect_h = max 0 (y1 - y2) \<rparr>)"

section \<open>Components\<close>

text \<open>
  The component records of the source, one record per kind, fields prefixed by the kind
  (\<open>pos.x\<close> is \<open>pos_x\<close>). A field that the prefab literals leave out, or that is only
  written later, is an \<open>option\<close>: \<open>None\<close> is JavaScript's \<open>undefined\<close>.

  \<open>body.c\<close> is an array object. \<open>spawn_prefab_entity\<close> copies a component with
  \<open>Object.assign({}, ...)\<close>, which copies the reference, not the array, so the model keeps
  the arrays in a store (\<open>arrays\<close>, from address to contents) and \<open>body_c\<close> is an address.
\<close>

record pos =
  pos_x :: real
  pos_y :: real
  pos_f :: real

record body =
  body_w :: real
  body_h :: real
  body_vx :: real
  body_vy :: real
  body_b :: real
  body_g :: nat
  body_t :: "nat option"
  body_c :: nat
  body_e :: "nat option"
  body_bb :: "rect option"

record ttl =
  ttl_d :: real

record mor =
  mor_h :: real

record haz =
  haz_d :: real
  haz_o :: nat

record pla =
  pla_w :: string
  pla_c :: real

record sprite =
  sprite_i :: nat

record ani =
  ani_f :: "nat list list"
  ani_a :: nat
  ani_i :: nat
  ani_d :: real
  ani_e :: real

record sig =
  sig_n :: nat
  sig_f :: nat

text \<open>The behavior states are objects compared by identity; the model names them.\<close>

datatype bstate = state_idle | state_wander | state_chase | state_attack_windup | state_attack

text \<open>
  \<open>beh.e\<close> is absent from the prefab literals and set to 0 together with \<open>beh.s\<close> before
  its first read, so it is a plain number here.
\<close>

record beh =
  beh_m :: string
  beh_s :: "bstate option"
  beh_e :: real

text \<open>
  A component group is a JavaScript \<open>Map\<close> from entity id to record, iterated in insertion
  order: an association list. \<open>components[key]\<close> is \<open>undefined\<close> until the first component
  of that kind is added: \<open>None\<close>.
\<close>

type_synonym 'a group = "(nat \<times> 'a) list option"

record world =
  c_pos :: "pos group"
  c_body :: "body group"
  c_pla :: "pla group"
  c_mor :: "mor group"
  c_sprite :: "sprite group"
  c_sig :: "sig group"
  c_tar :: "unit group"
  c_beh :: "beh group"
  c_ani :: "ani group"
  c_haz :: "haz group"
  c_ttl :: "ttl group"
  arrays :: "nat \<Rightarrow> nat list"
  next_entity_id :: nat
  player_id :: nat
  map_width :: int
  map_height :: int
  map_tiles :: "nat list"
  spatial_width :: int
  spatial_height :: int
  spatial_tiles :: "nat list list"
  camera_x :: real
  camera_y :: real
  camera_facing_x :: real
  camera_facing_y :: real
  camera_plane_x :: real
  camera_plane_y :: real
  game_state :: string
  game_timer :: real
  last_frame :: real

definition CAMERA_PLANE_LENGTH :: real where
  "CAMERA_PLANE_LENGTH = 8 / 10"

definition SPATIAL_TILE_SIZE :: real where
  "SPATIAL_TILE_SIZE = 2"

text \<open>The values the globals of the source are declared with.\<close>

definition initial_world :: world where
  "initial_world =
     \<lparr> c_pos = None, c_body = None, c_pla = None, c_mor = None, c_sprite = None,
       c_sig = None, c_tar = None, c_beh = None, c_ani = None, c_haz = None, c_ttl = None,
       arrays = (\<lambda>_. []), next_entity_id = 1, player_id = 0,
       map_width = 0, map_height = 0, map_tiles = [],
       spatial_width = 0, spatial_height = 0, spatial_tiles = [],
       camera_x = 0, camera_y = 0, camera_facing_x = 1, camera_facing_y = 0,
       camera_plane_x = 0, camera_plane_y = CAMERA_PLANE_LENGTH,
       game_state = ''load'', game_timer = 0, last_frame = 0 \<rparr>"

text \<open>\<open>get_entity_component(id, key)\<close>, \<open>add_entity_component(id, key, data)\<close> on one group.\<close>

definition group_get :: "'a group \<Rightarrow> nat \<Rightarrow> 'a option" where
  "group_get g i = (case g of None \<Rightarrow> None | Some m \<Rightarrow> map_of m i)"

definition group_set :: "'a group \<Rightarrow> nat \<Rightarrow> 'a \<Rightarrow> 'a group" where
  "group_set g i d = Some (AList.update i d (case g of None \<Rightarrow> [] | Some m \<Rightarrow> m))"

definition group_delete :: "'a group \<Rightarrow> nat \<Rightarrow> 'a group" where
  "group_delete g i = map_option (AList.delete i) g"

text \<open>\<open>remove_entity(id)\<close>: delete the id from every group that exists.\<close>

definition remove_entity :: "nat \<Rightarrow> world \<Rightarrow> world" where
  "remove_entity i w =
     w\<lparr> c_pos := group_delete (c_pos w) i, c_body := group_delete (c_body w) i,
        c_pla := group_delete (c_pla w) i, c_mor := group_delete (c_mor w) i,
        c_sprite := group_delete (c_sprite w) i, c_sig := group_delete (c_sig w) i,
        c_tar := group_delete (c_tar w) i, c_beh := group_delete (c_beh w) i,
        c_ani := group_delete (c_ani w) i, c_haz := group_delete (c_haz w) i,
        c_ttl := group_delete (c_ttl w) i \<rparr>"

definition clear_entities :: "world \<Rightarrow> world" where
  "clear_entities w =
     w\<lparr> c_pos := None, c_body := None, c_pla := None, c_mor := None, c_sprite := None,
        c_sig := None, c_tar := None, c_beh := None, c_ani := None, c_haz := None,
        c_ttl := None \<rparr>"

section \<open>Prefabs and spawning\<close>

record prefab =
  p_pos :: "pos option"
  p_body :: "body option"
  p_pla :: "pla option"
  p_mor :: "mor option"
  p_sprite :: "sprite option"
  p_sig :: "sig option"
  p_tar :: "unit option"
  p_beh :: "beh option"
  p_ani :: "ani option"
  p_haz :: "haz option"
  p_ttl :: "ttl option"

definition no_components :: prefab where
  "no_components =
     \<lparr> p_pos = None, p_body = None, p_pla = None, p_mor = None, p_sprite = None,
       p_sig = None, p_tar = None, p_beh = None, p_ani = None, p_haz = None, p_ttl = None \<rparr>"

definition GROUP_PLAYER :: nat where "GROUP_PLAYER = 1"
definition GROUP_ENEMY :: nat where "GROUP_ENEMY = 2"
definition GROUP_ENVIRONMENT :: nat where "GROUP_ENVIRONMENT = 3"

definition origin :: pos where
  "origin = \<lparr> pos_x = 0, pos_y = 0, pos_f = 0 \<rparr>"

text \<open>A body literal of \<open>PREFABS\<close>; its array literal \<open>c: []\<close> lives at address \<open>a\<close>.\<close>

definition body_lit :: "real \<Rightarrow> real \<Rightarrow> nat \<Rightarrow> nat option \<Rightarrow> nat \<Rightarrow> body" where
  "body_lit sz b g t a =
     \<lparr> body_w = sz, body_h = sz, body_vx = 0, body_vy = 0, body_b = b, body_g = g,
       body_t = t, body_c = a, body_e = None, body_bb = None \<rparr>"

text \<open>\<open>PREFABS\<close>; the seven array literals are at the addresses 0 to 6.\<close>

definition PREFABS :: "string \<Rightarrow> prefab option" where
  "PREFABS k =
    (if k = ''player'' then Some (no_components\<lparr>
        p_pos := Some origin,
        p_body := Some (body_lit (4 / 10) 0 GROUP_PLAYER None 0),
        p_pla := Some \<lparr> pla_w = ''pistol'', pla_c = 0 \<rparr>,
        p_mor := Some \<lparr> mor_h = 3 \<rparr> \<rparr>)
     else if k = ''dummy'' then Some (no_components\<lparr>
        p_pos := Some origin,
        p_body := Some (body_lit (5 / 10) 1 GROUP_ENEMY None 1),
        p_mor := Some \<lparr> mor_h = 3 \<rparr>,
        p_sprite := Some \<lparr> sprite_i = 1 \<rparr>,
        p_sig := Some \<lparr> sig_n = 3, sig_f = 7 \<rparr>,
        p_tar := Some (),
        p_beh := Some \<lparr> beh_m = ''dummy'', beh_s = None, beh_e = 0 \<rparr> \<rparr>)
     else if k = ''slime'' then Some (no_components\<lparr>
        p_pos := Some origin,
        p_body := Some (body_lit (8 / 10) 1 GROUP_ENEMY None 2),
        p_mor := Some \<lparr> mor_h = 6 \<rparr>,
        p_sprite := Some \<lparr> sprite_i = 6 \<rparr>,
        p_ani := Some \<lparr> ani_f = [[6, 7], [10], [7]], ani_a = 0, ani_i = 0,
                        ani_d = 25 / 100, ani_e = 0 \<rparr>,
        p_beh := Some \<lparr> beh_m = ''slime'', beh_s = None, beh_e = 0 \<rparr> \<rparr>)
     else if k = ''slime2'' then Some (no_components\<lparr>
        p_pos := Some origin,
        p_body := Some (body_lit (8 / 10) 1 GROUP_ENEMY None 3),
        p_mor := Some \<lparr> mor_h = 6 \<rparr>,
        p_sprite := Some \<lparr> sprite_i = 6 \<rparr>,
        p_ani := Some \<lparr> ani_f = [[11, 12], [13], [12]], ani_a = 0, ani_i = 0,
                        ani_d = 25 / 100, ani_e = 0 \<rparr>,
        p_beh := Some \<lparr> beh_m = ''slime'', beh_s = None, beh_e = 0 \<rparr> \<rparr>)
     else if k = ''bullet'' then Some (no_components\<lparr>
        p_pos := Some origin,
        p_body := Some (body_lit (25 / 100) 0 GROUP_PLAYER (Some 1) 4),
        p_haz := Some \<lparr> haz_d = 1, haz_o = 1 \<rparr>,
        p_sprite := Some \<lparr> sprite_i = 2 \<rparr> \<rparr>)
     else if k = ''boom'' then Some (no_components\<lparr>
        p_pos := Some origin,
        p_sprite := Some \<lparr> sprite_i = 3 \<rparr>,
        p_ani := Some \<lparr> ani_f = [[3, 4, 5]], ani_a = 0, ani_i = 0,
                        ani_d = 1 / 10, ani_e = 0 \<rparr>,
        p_ttl := Some \<lparr> ttl_d = 3 / 10 \<rparr> \<rparr>)
     else if k = ''rift'' then Some (no_components\<lparr>
        p_pos := Some origin,
        p_sprite := Some \<lparr> sprite_i = 8 \<rparr>,
        p_ani := Some \<lparr> ani_f = [[8, 9]], ani_a = 0, ani_i = 0,
                        ani_d = 25 / 100, ani_e = 0 \<rparr> \<rparr>)
     else if k = ''tnt'' then Some (no_components\<lparr>
        p_pos := Some origin,
        p_body := Some (body_lit (5 / 10) 0 GROUP_ENVIRONMENT None 5),
        p_mor := Some \<lparr> mor_h = 2 \<rparr>,
        p_sprite := Some \<lparr> sprite_i = 1 \<rparr> \<rparr>)
     else if k = ''dmg_enemy'' then Some (no_components\<lparr>
        p_pos := Some origin,
        p_body := Some (body_lit 1 0 GROUP_ENEMY (Some 1) 6),
        p_haz := Some \<lparr> haz_d = 1, haz_o = 1 \<rparr>,
        p_ttl := Some \<lparr> ttl_d = 25 / 100 \<rparr> \<rparr>)
     else None)"

text \<open>Copy one component of the prefab, when the prefab has it, into its group.\<close>

definition add_from :: "'a option \<Rightarrow> nat \<Rightarrow> 'a group \<Rightarrow> 'a group" where
  "add_from d i g = (case d of None \<Rightarrow> g | Some v \<Rightarrow> group_set g i v)"

text \<open>
  \<open>x || pos.x\<close>: the left operand when it is truthy, else the right one. The argument is
  \<open>None\<close> when the caller leaves it out (\<open>undefined\<close>); \<open>undefined\<close> and 0 are falsy.
\<close>

definition js_or :: "real option \<Rightarrow> real \<Rightarrow> real" where
  "js_or a d = (case a of None \<Rightarrow> d | Some v \<Rightarrow> if v \<noteq> 0 then v else d)"

text \<open>
  \<open>spawn_prefab_entity(prefabKey, x, y, facing)\<close>, returning the new id with the world. A
  key that is not in the table gives an entity without components (\<open>for ... in undefined\<close>
  runs no iteration).
\<close>

definition spawn_prefab_entity ::
  "(string \<Rightarrow> prefab option) \<Rightarrow> string \<Rightarrow> real option \<Rightarrow> real option \<Rightarrow> real option \<Rightarrow>
   world \<Rightarrow> nat \<times> world" where
  "spawn_prefab_entity prefabs prefabKey x y facing w =
     (let i = next_entity_id w;
          p = (case prefabs prefabKey of None \<Rightarrow> no_components | Some q \<Rightarrow> q);
          w1 = w\<lparr> next_entity_id := i + 1,
                  c_pos := add_from (p_pos p) i (c_pos w),
                  c_body := add_from (p_body p) i (c_body w),
                  c_pla := add_from (p_pla p) i (c_pla w),
                  c_mor := add_from (p_mor p) i (c_mor w),
                  c_sprite := add_from (p_sprite p) i (c_sprite w),
                  c_sig := add_from (p_sig p) i (c_sig w),
                  c_tar := add_from (p_tar p) i (c_tar w),
                  c_beh := add_from (p_beh p) i (c_beh w),
                  c_ani := add_from (p_ani p) i (c_ani w),
                  c_haz := add_from (p_haz p) i (c_haz w),
                  c_ttl := add_from (p_ttl p) i (c_ttl w) \<rparr>
      in case group_get (c_pos w1) i of
           None \<Rightarrow> (i, w1)
         | Some q \<Rightarrow>
             (i, w1\<lparr> c_pos := group_set (c_pos w1) i
                      \<lparr> pos_x = js_or x (pos_x q), pos_y = js_or y (pos_y q),
                        pos_f = js_or facing (pos_f q) \<rparr> \<rparr>))"

section \<open>The frame handler\<close>

text \<open>
  A system takes the time step and the world; a JavaScript exception (a \<open>TypeError\<close> on a
  missing component) is \<open>None\<close> and ends the frame. The list \<open>systems\<close> is filled by \<open>main\<close>;
  the rendering systems draw on the canvas and are not modelled, so the list is a
  parameter. \<open>requestAnimationFrame\<close> only schedules the next call.
\<close>

type_synonym system = "real \<Rightarrow> world \<Rightarrow> world option"

fun run_systems :: "system list \<Rightarrow> real \<Rightarrow> world \<Rightarrow> world option" where
  "run_systems [] dt w = Some w"
| "run_systems (sys # rest) dt w =
     (case sys dt w of None \<Rightarrow> None | Some w' \<Rightarrow> run_systems rest dt w')"

definition frame :: "system list \<Rightarrow> real \<Rightarrow> world \<Rightarrow> world option" where
  "frame systems time w =
     (let dt = (time - last_frame w) / 1000;
          w1 = w\<lparr> last_frame := time \<rparr>
      in if dt < 2 / 10 then run_systems systems dt w1 else Some w1)"

section \<open>The behavior engine\<close>

text \<open>
  A state object has optional hooks \<open>e\<close> (enter), \<open>u\<close> (update) and \<open>x\<close> (exit). The hooks of
  the source draw random numbers and call \<open>Math.cos\<close>, \<open>Math.sin\<close> and \<open>Math.atan2\<close>, so the
  table from state to hooks is a parameter of the engine: a hook is any function on the
  world that may throw (\<open>None\<close>). A transition has a source state \<open>f\<close>, a target state \<open>t\<close>,
  and a duration \<open>d\<close> or a condition \<open>c\<close>; a model has an initial state \<open>i\<close> and
  optionally a list of transitions \<open>t\<close>.

  The hooks and conditions of the source read and write \<open>pos\<close>, \<open>body\<close> and \<open>ani\<close> components
  and spawn a prefab that has no \<open>beh\<close> component; the \<open>beh\<close> group is written by the engine
  alone. So the engine works on the \<open>beh\<close> record of the entity as a value and stores it
  when the entity's turn ends.
\<close>

record state_obj =
  st_e :: "(nat \<Rightarrow> world \<Rightarrow> world option) option"
  st_u :: "(nat \<Rightarrow> real \<Rightarrow> world \<Rightarrow> world option) option"
  st_x :: "(nat \<Rightarrow> world \<Rightarrow> world option) option"

record transition =
  tr_f :: bstate
  tr_d :: "real option"
  tr_c :: "(nat \<Rightarrow> world \<Rightarrow> bool) option"
  tr_t :: bstate

record model =
  m_i :: bstate
  m_t :: "transition list option"

text \<open>\<open>distance\<close>, \<open>entity_distance\<close> and \<open>player_distance\<close>.\<close>

definition distance :: "real \<Rightarrow> real \<Rightarrow> real \<Rightarrow> real \<Rightarrow> real" where
  "distance x1 y1 x2 y2 = sqrt ((x2 - x1)\<^sup>2 + (y2 - y1)\<^sup>2)"

definition entity_distance :: "nat \<Rightarrow> nat \<Rightarrow> world \<Rightarrow> jsnum" where
  "entity_distance a b w =
     (case (group_get (c_pos w) a, group_get (c_pos w) b) of
        (Some pos_a, Some pos_b) \<Rightarrow>
          Fin (distance (pos_x pos_a) (pos_y pos_a) (pos_x pos_b) (pos_y pos_b))
      | _ \<Rightarrow> PosInf)"

definition player_distance :: "nat \<Rightarrow> world \<Rightarrow> jsnum" where
  "player_distance i w = entity_distance (player_id w) i w"

definition timed :: "bstate \<Rightarrow> real \<Rightarrow> bstate \<Rightarrow> transition" where
  "timed f d t = \<lparr> tr_f = f, tr_d = Some d, tr_c = None, tr_t = t \<rparr>"

definition conditional :: "bstate \<Rightarrow> (nat \<Rightarrow> world \<Rightarrow> bool) \<Rightarrow> bstate \<Rightarrow> transition" where
  "conditional f c t = \<lparr> tr_f = f, tr_d = None, tr_c = Some c, tr_t = t \<rparr>"

text \<open>\<open>BEHAVIORS\<close>.\<close>

definition BEHAVIORS :: "string \<Rightarrow> model option" where
  "BEHAVIORS k =
    (if k = ''dummy'' then Some \<lparr> m_i = state_wander, m_t = None \<rparr>
     else if k = ''slime'' then Some \<lparr> m_i = state_wander, m_t = Some
       [ timed state_wander 3 state_wander,
         conditional state_wander (\<lambda>i w. js_less (player_distance i w) (Fin 5)) state_chase,
         timed state_chase (2 / 10) state_chase,
         conditional state_chase (\<lambda>i w. js_less (Fin 9) (player_distance i w)) state_wander,
         conditional state_chase (\<lambda>i w. js_less (player_distance i w) (Fin 1))
           state_attack_windup,
         timed state_attack_windup (5 / 10) state_attack,
         timed state_attack (5 / 10) state_idle,
         timed state_idle (5 / 10) state_chase ] \<rparr>
     else None)"

text \<open>Call a hook when the state has it.\<close>

definition run_hook :: "(nat \<Rightarrow> world \<Rightarrow> world option) option \<Rightarrow> nat \<Rightarrow> world \<Rightarrow> world option" where
  "run_hook h i w = (case h of None \<Rightarrow> Some w | Some g \<Rightarrow> g i w)"

text \<open>
  \<open>(transition.d !== undefined && behavior.e >= transition.d) ||
   (transition.c !== undefined && transition.c(id))\<close>.
\<close>

definition condition_holds :: "transition \<Rightarrow> nat \<Rightarrow> beh \<Rightarrow> world \<Rightarrow> bool" where
  "condition_holds tr i bh w \<longleftrightarrow>
     (case tr_d tr of None \<Rightarrow> False | Some d \<Rightarrow> beh_e bh \<ge> d) \<or>
     (case tr_c tr of None \<Rightarrow> False | Some c \<Rightarrow> c i w)"

text \<open>
  The body of \<open>if (...) { ... break; }\<close>: exit hook of the old state, new state, elapsed
  time 0, enter hook of the new state. \<open>behavior.s\<close> is a state here, since it has just
  been compared with \<open>transition.f\<close>.
\<close>

definition fire :: "(bstate \<Rightarrow> state_obj) \<Rightarrow> transition \<Rightarrow> nat \<Rightarrow> beh \<Rightarrow> world \<Rightarrow>
    (beh \<times> world) option" where
  "fire states tr i bh w =
     (case run_hook (st_x (states (tr_f tr))) i w of
        None \<Rightarrow> None
      | Some w1 \<Rightarrow>
          (case run_hook (st_e (states (tr_t tr))) i w1 of
             None \<Rightarrow> None
           | Some w2 \<Rightarrow> Some (bh\<lparr> beh_s := Some (tr_t tr), beh_e := 0 \<rparr>, w2)))"

text \<open>\<open>for (const transition of model.t)\<close> with its \<open>continue\<close> and \<open>break\<close>.\<close>

fun eval_transitions :: "(bstate \<Rightarrow> state_obj) \<Rightarrow> transition list \<Rightarrow> nat \<Rightarrow> beh \<Rightarrow> world \<Rightarrow>
    (beh \<times> world) option" where
  "eval_transitions states [] i bh w = Some (bh, w)"
| "eval_transitions states (tr # rest) i bh w =
     (if Some (tr_f tr) \<noteq> beh_s bh then eval_transitions states rest i bh w
      else if condition_holds tr i bh w then fire states tr i bh w
      else eval_transitions states rest i bh w)"

text \<open>
  One turn of the loop of \<open>system_behavior\<close>, for the entity \<open>i\<close> with the record \<open>bh\<close>.
  A model key that is not in \<open>BEHAVIORS\<close> makes \<open>model.i\<close> or \<open>model.t\<close> throw.
\<close>

definition enter_initial :: "(bstate \<Rightarrow> state_obj) \<Rightarrow> model \<Rightarrow> nat \<Rightarrow> beh \<Rightarrow> world \<Rightarrow>
    (beh \<times> world) option" where
  "enter_initial states model i bh w =
     (if beh_s bh = None
      then map_option (Pair (bh\<lparr> beh_s := Some (m_i model), beh_e := 0 \<rparr>))
             (run_hook (st_e (states (m_i model))) i w)
      else Some (bh, w))"

definition run_update :: "(bstate \<Rightarrow> state_obj) \<Rightarrow> real \<Rightarrow> nat \<Rightarrow> beh \<Rightarrow> world \<Rightarrow>
    (beh \<times> world) option" where
  "run_update states dt i bh w =
     (case beh_s bh of
        None \<Rightarrow> None
      | Some s \<Rightarrow>
          (case st_u (states s) of
             None \<Rightarrow> Some (bh, w)
           | Some u \<Rightarrow> map_option (Pair bh) (u i dt w)))"

definition behavior_entity :: "(bstate \<Rightarrow> state_obj) \<Rightarrow> (string \<Rightarrow> model option) \<Rightarrow> real \<Rightarrow>
    nat \<Rightarrow> beh \<Rightarrow> world \<Rightarrow> (beh \<times> world) option" where
  "behavior_entity states behaviors dt i bh w =
     (case behaviors (beh_m bh) of
        None \<Rightarrow> None
      | Some model \<Rightarrow>
          (case enter_initial states model i bh w of
             None \<Rightarrow> None
           | Some (bh1, w1) \<Rightarrow>
               (case (case m_t model of
                        None \<Rightarrow> Some (bh1\<lparr> beh_e := beh_e bh1 + dt \<rparr>, w1)
                      | Some ts \<Rightarrow>
                          eval_transitions states ts i (bh1\<lparr> beh_e := beh_e bh1 + dt \<rparr>) w1) of
                  None \<Rightarrow> None
                | Some (bh2, w2) \<Rightarrow> run_update states dt i bh2 w2)))"

text \<open>Store the record of entity \<open>i\<close> when the entity still has one.\<close>

definition group_store :: "'a group \<Rightarrow> nat \<Rightarrow> 'a \<Rightarrow> 'a group" where
  "group_store g i d = (case group_get g i of None \<Rightarrow> g | Some _ \<Rightarrow> group_set g i d)"

fun behavior_loop :: "(bstate \<Rightarrow> state_obj) \<Rightarrow> (string \<Rightarrow> model option) \<Rightarrow> real \<Rightarrow>
    nat list \<Rightarrow> world \<Rightarrow> world option" where
  "behavior_loop states behaviors dt [] w = Some w"
| "behavior_loop states behaviors dt (i # rest) w =
     (case group_get (c_beh w) i of
        None \<Rightarrow> behavior_loop states behaviors dt rest w
      | Some bh \<Rightarrow>
          (case behavior_entity states behaviors dt i bh w of
             None \<Rightarrow> None
           | Some (bh', w') \<Rightarrow>
               behavior_loop states behaviors dt rest
                 (w'\<lparr> c_beh := group_store (c_beh w') i bh' \<rparr>)))"

definition system_behavior :: "(bstate \<Rightarrow> state_obj) \<Rightarrow> (string \<Rightarrow> model option) \<Rightarrow> system" where
  "system_behavior states behaviors dt w =
     (case c_beh w of
        None \<Rightarrow> Some w
      | Some behaviors_map \<Rightarrow> behavior_loop states behaviors dt (map fst behaviors_map) w)"

section \<open>Hazards\<close>

text \<open>
  One turn of the loop of \<open>system_hazard\<close>. A hazard without a body makes \<open>body.c\<close> throw.
  The contact list is the array that \<open>body.c\<close> refers to.
\<close>

definition hazard_entity :: "nat \<Rightarrow> haz \<Rightarrow> world \<Rightarrow> world option" where
  "hazard_entity i hazard w =
     (case group_get (c_body w) i of
        None \<Rightarrow> None
      | Some body \<Rightarrow>
          (let contacts = arrays w (body_c body);
               w1 = (if length contacts > 0
                     then (let contact_id = hd contacts
                           in case group_get (c_mor w) contact_id of
                                None \<Rightarrow> w
                              | Some mortal \<Rightarrow>
                                  w\<lparr> c_mor := group_set (c_mor w) contact_id
                                       (mortal\<lparr> mor_h := mor_h mortal - haz_d hazard \<rparr>) \<rparr>)
                     else w)
           in Some (if haz_o hazard = 1 \<and> (body_e body = Some 1 \<or> length contacts > 0)
                    then remove_entity i w1 else w1)))"

text \<open>
  The loop over the \<open>haz\<close> group. The loop deletes only the entry it is visiting; an entry
  that is no longer in the group is not visited.
\<close>

fun hazard_loop :: "nat list \<Rightarrow> world \<Rightarrow> world option" where
  "hazard_loop [] w = Some w"
| "hazard_loop (i # rest) w =
     (case group_get (c_haz w) i of
        None \<Rightarrow> hazard_loop rest w
      | Some hazard \<Rightarrow>
          (case hazard_entity i hazard w of
             None \<Rightarrow> None
           | Some w' \<Rightarrow> hazard_loop rest w'))"

definition system_hazard :: "world \<Rightarrow> world option" where
  "system_hazard w =
     (case c_haz w of None \<Rightarrow> Some w | Some hazards \<Rightarrow> hazard_loop (map fst hazards) w)"

section \<open>The map\<close>

text \<open>
  \<open>map_tiles[i]\<close>: the tile, or \<open>undefined\<close> (\<open>None\<close>) outside the typed array. The index is
  always an integer, since it is computed from cell coordinates.
\<close>

definition tile_get :: "nat list \<Rightarrow> int \<Rightarrow> nat option" where
  "tile_get tiles i = (if 0 \<le> i \<and> i < int (length tiles) then Some (tiles ! nat i) else None)"

text \<open>\<open>init_map(width, height)\<close>; \<open>Math.ceil(width / SPATIAL_TILE_SIZE)\<close> on whole numbers.\<close>

definition init_map :: "int \<Rightarrow> int \<Rightarrow> world \<Rightarrow> world" where
  "init_map width height w =
     (let sw = \<lceil>of_int width / SPATIAL_TILE_SIZE\<rceil>;
          sh = \<lceil>of_int height / SPATIAL_TILE_SIZE\<rceil>
      in w\<lparr> map_width := width, map_height := height,
            map_tiles := replicate (nat (width * height)) 0,
            spatial_width := sw, spatial_height := sh,
            spatial_tiles := replicate (nat (sw * sh)) [] \<rparr>)"

section \<open>Raycasting\<close>

record ray_result =
  res_d :: jsnum
  res_s :: nat
  res_v :: "nat option"

text \<open>
  The loop \<open>while (!hit)\<close> of \<open>raycast\<close>. The loop state is the cell and the two side
  distances; the loop ends with the cell, the side flag \<open>result.s\<close> and the value
  \<open>result.v\<close>. A loop that does not end is \<open>None\<close>.
\<close>

partial_function (option) dda ::
  "int \<Rightarrow> int \<Rightarrow> nat list \<Rightarrow> jsnum \<Rightarrow> jsnum \<Rightarrow> int \<Rightarrow> int \<Rightarrow> int \<Rightarrow> int \<Rightarrow> jsnum \<Rightarrow> jsnum \<Rightarrow>
   (int \<times> int \<times> nat \<times> nat option) option" where
  "dda mw mh tiles delta_dist_x delta_dist_y step_x step_y x y side_dist_x side_dist_y =
     (if js_less side_dist_x side_dist_y
      then (if 0 \<le> x + step_x \<and> x + step_x < mw \<and> 0 \<le> y \<and> y < mh
            then (if tile_get tiles (y * mw + (x + step_x)) \<noteq> Some 0
                  then Some (x + step_x, y, 0, tile_get tiles (y * mw + (x + step_x)))
                  else dda mw mh tiles delta_dist_x delta_dist_y step_x step_y
                         (x + step_x) y (js_add side_dist_x delta_dist_x) side_dist_y)
            else Some (x + step_x, y, 0, Some 1))
      else (if 0 \<le> x \<and> x < mw \<and> 0 \<le> y + step_y \<and> y + step_y < mh
            then (if tile_get tiles ((y + step_y) * mw + x) \<noteq> Some 0
                  then Some (x, y + step_y, 1, tile_get tiles ((y + step_y) * mw + x))
                  else dda mw mh tiles delta_dist_x delta_dist_y step_x step_y
                         x (y + step_y) side_dist_x (js_add side_dist_y delta_dist_y))
            else Some (x, y + step_y, 1, Some 1)))"

text \<open>
  The set-up of \<open>raycast\<close>: the distance along the ray between two grid lines of one axis
  (\<open>delta_dist_x\<close> is \<open>delta_dist dx dy\<close>), the step and the first side distance of one axis.
\<close>

definition delta_dist :: "real \<Rightarrow> real \<Rightarrow> jsnum" where
  "delta_dist da db = js_sqrt (js_add (Fin 1) (js_div (db * db) (da * da)))"

definition step_of :: "real \<Rightarrow> int" where
  "step_of da = (if da < 0 then - 1 else 1)"

definition side_dist :: "real \<Rightarrow> real \<Rightarrow> jsnum \<Rightarrow> jsnum" where
  "side_dist oa da dd =
     (if da < 0 then js_mul (Fin (oa - of_int \<lfloor>oa\<rfloor>)) dd
      else js_mul (Fin (of_int \<lfloor>oa\<rfloor> + 1 - oa)) dd)"

text \<open>``Calculate distance projected on camera direction'', from the outcome of the loop.\<close>

definition hit_result :: "real \<Rightarrow> real \<Rightarrow> real \<Rightarrow> real \<Rightarrow> int \<times> int \<times> nat \<times> nat option \<Rightarrow>
    ray_result" where
  "hit_result ox oy dx dy r =
     (case r of (x, y, s, v) \<Rightarrow>
        \<lparr> res_d = (if s = 0
                   then js_div (of_int x - ox + (1 - of_int (step_of dx)) / 2) dx
                   else js_div (of_int y - oy + (1 - of_int (step_of dy)) / 2) dy),
          res_s = s, res_v = v \<rparr>)"

definition raycast :: "world \<Rightarrow> real \<Rightarrow> real \<Rightarrow> real \<Rightarrow> real \<Rightarrow> ray_result option" where
  "raycast w ox oy dx dy =
     map_option (hit_result ox oy dx dy)
       (dda (map_width w) (map_height w) (map_tiles w)
          (delta_dist dx dy) (delta_dist dy dx) (step_of dx) (step_of dy) \<lfloor>ox\<rfloor> \<lfloor>oy\<rfloor>
          (side_dist ox dx (delta_dist dx dy)) (side_dist oy dy (delta_dist dy dx)))"

section \<open>The spatial map\<close>

definition clear_spatial_map :: "world \<Rightarrow> world" where
  "clear_spatial_map w = w\<lparr> spatial_tiles := map (\<lambda>_. []) (spatial_tiles w) \<rparr>"

text \<open>
  The cells \<open>(x, y)\<close> that the two nested loops of \<open>insert_spatial_bounds\<close> and
  \<open>get_spatial_neighbors\<close> visit, in the order of the loops.
\<close>

definition cells :: "int \<Rightarrow> int \<Rightarrow> int \<Rightarrow> int \<Rightarrow> (int \<times> int) list" where
  "cells ox oy tx ty = concat (map (\<lambda>y. map (\<lambda>x. (x, y)) [ox..tx]) [oy..ty])"

definition spatial_cells :: "rect \<Rightarrow> (int \<times> int) list" where
  "spatial_cells bb =
     cells \<lfloor>rect_x bb / SPATIAL_TILE_SIZE\<rfloor> \<lfloor>rect_y bb / SPATIAL_TILE_SIZE\<rfloor>
           \<lfloor>(rect_x bb + rect_w bb) / SPATIAL_TILE_SIZE\<rfloor>
           \<lfloor>(rect_y bb + rect_h bb) / SPATIAL_TILE_SIZE\<rfloor>"

text \<open>
  \<open>if (index < spatial_tiles.length) spatial_tiles[index].push(id)\<close>: a negative index
  passes the test and reads \<open>undefined\<close>, whose \<open>push\<close> throws.
\<close>

fun insert_cells :: "nat \<Rightarrow> int \<Rightarrow> (int \<times> int) list \<Rightarrow> nat list list \<Rightarrow> nat list list option" where
  "insert_cells i sw [] buckets = Some buckets"
| "insert_cells i sw ((x, y) # rest) buckets =
     (let index = idx x y sw
      in if index < int (length buckets)
         then (if index < 0 then None
               else insert_cells i sw rest
                      (buckets[nat index := buckets ! nat index @ [i]]))
         else insert_cells i sw rest buckets)"

definition insert_spatial_bounds :: "nat \<Rightarrow> rect \<Rightarrow> world \<Rightarrow> world option" where
  "insert_spatial_bounds i bb w =
     map_option (\<lambda>buckets. w\<lparr> spatial_tiles := buckets \<rparr>)
       (insert_cells i (spatial_width w) (spatial_cells bb) (spatial_tiles w))"

fun neighbor_cells :: "int \<Rightarrow> nat list list \<Rightarrow> (int \<times> int) list \<Rightarrow> nat list \<Rightarrow> nat list option" where
  "neighbor_cells sw buckets [] neighbors = Some neighbors"
| "neighbor_cells sw buckets ((x, y) # rest) neighbors =
     (let index = idx x y sw
      in if index < int (length buckets)
         then (if index < 0 then None
               else neighbor_cells sw buckets rest (neighbors @ buckets ! nat index))
         else neighbor_cells sw buckets rest neighbors)"

definition get_spatial_neighbors :: "rect \<Rightarrow> world \<Rightarrow> nat list option" where
  "get_spatial_neighbors bb w =
     neighbor_cells (spatial_width w) (spatial_tiles w) (spatial_cells bb) []"

section \<open>Physics\<close>

text \<open>The rectangle that \<open>update_bounding_box\<close> writes into \<open>body.bb\<close>.\<close>

definition bounding_box :: "pos \<Rightarrow> body \<Rightarrow> rect" where
  "bounding_box p b =
     \<lparr> rect_x = pos_x p - body_w b / 2, rect_y = pos_y p - body_h b / 2,
       rect_w = body_w b, rect_h = body_h b \<rparr>"

definition update_bounding_box :: "pos \<Rightarrow> body \<Rightarrow> body" where
  "update_bounding_box p b = b\<lparr> body_bb := Some (bounding_box p b) \<rparr>"

text \<open>
  Inside a turn of the first loop the model carries \<open>body.bb\<close> beside the body, as a pair
  \<open>(bb, body)\<close>, and stores it into the body when the turn ends.

  ``Constrain physical bodies to the map'', first the X axis, then the Y axis.
\<close>

definition constrain_x :: "int \<Rightarrow> rect \<times> body \<Rightarrow> rect \<times> body" where
  "constrain_x mw s =
     (case s of (bb, b) \<Rightarrow>
        if rect_x bb < 0
        then (bb\<lparr> rect_x := 0 \<rparr>, b\<lparr> body_vx := body_vx b * - body_b b, body_e := Some 1 \<rparr>)
        else if rect_x bb + rect_w bb \<ge> of_int mw
        then (bb\<lparr> rect_x := of_int mw - rect_w bb \<rparr>,
              b\<lparr> body_vx := body_vx b * - body_b b, body_e := Some 1 \<rparr>)
        else (bb, b))"

definition constrain_y :: "int \<Rightarrow> rect \<times> body \<Rightarrow> rect \<times> body" where
  "constrain_y mh s =
     (case s of (bb, b) \<Rightarrow>
        if rect_y bb < 0
        then (bb\<lparr> rect_y := 0 \<rparr>, b\<lparr> body_vy := body_vy b * - body_b b, body_e := Some 1 \<rparr>)
        else if rect_y bb + rect_h bb \<ge> of_int mh
        then (bb\<lparr> rect_y := of_int mh - rect_h bb \<rparr>,
              b\<lparr> body_vy := body_vy b * - body_b b, body_e := Some 1 \<rparr>)
        else (bb, b))"

text \<open>The scratch rectangle \<open>tile_bb\<close>: width and height stay 1.\<close>

definition tile_bb :: "int \<Rightarrow> int \<Rightarrow> rect" where
  "tile_bb x y = \<lparr> rect_x = of_int x, rect_y = of_int y, rect_w = 1, rect_h = 1 \<rparr>"

record tile_hit =
  tile_x :: int
  tile_y :: int
  tile_a :: real

text \<open>\<open>map_tiles[index] > 0\<close>; \<open>undefined > 0\<close> is false.\<close>

definition is_wall :: "nat list \<Rightarrow> int \<Rightarrow> bool" where
  "is_wall tiles index = (case tile_get tiles index of None \<Rightarrow> False | Some v \<Rightarrow> v > 0)"

text \<open>``Detect tile map collisions'': the list \<open>tiles\<close>.\<close>

definition detect_tiles :: "int \<Rightarrow> nat list \<Rightarrow> rect \<Rightarrow> tile_hit list" where
  "detect_tiles mw tiles bb =
     concat (map (\<lambda>(x, y).
         if is_wall tiles (idx x y mw)
         then [\<lparr> tile_x = x, tile_y = y,
                 tile_a = rect_w (rect_intersection bb (tile_bb x y)) *
                          rect_h (rect_intersection bb (tile_bb x y)) \<rparr>]
         else [])
       (cells \<lfloor>rect_x bb\<rfloor> \<lfloor>rect_y bb\<rfloor> \<lfloor>rect_x bb + rect_w bb\<rfloor> \<lfloor>rect_y bb + rect_h bb\<rfloor>))"

text \<open>
  \<open>tiles.sort((a, b) => b.a - a.a)\<close>: a stable sort, largest area first.
\<close>

definition sort_tiles :: "tile_hit list \<Rightarrow> tile_hit list" where
  "sort_tiles tiles = (if length tiles > 1 then sort_key (\<lambda>t. - tile_a t) tiles else tiles)"

text \<open>One turn of ``Iterate over tiles and adjust body bounding box''.\<close>

definition resolve_tile :: "tile_hit \<Rightarrow> rect \<times> body \<Rightarrow> rect \<times> body" where
  "resolve_tile tile s =
     (case s of (bb, b) \<Rightarrow>
        let temp_rect = rect_intersection bb (tile_bb (tile_x tile) (tile_y tile))
        in if rect_w temp_rect * rect_h temp_rect > 0
           then (if rect_w temp_rect < rect_h temp_rect
                 then (let sx = sign (rect_x bb + rect_w bb / 2 -
                                      (rect_x temp_rect + rect_w temp_rect / 2))
                       in (bb\<lparr> rect_x := rect_x bb + rect_w temp_rect * sx \<rparr>,
                           b\<lparr> body_vx := body_vx b * - body_b b \<rparr>))
                 else (let sy = sign (rect_y bb + rect_h bb / 2 -
                                      (rect_y temp_rect + rect_h temp_rect / 2))
                       in (bb\<lparr> rect_y := rect_y bb + rect_h temp_rect * sy \<rparr>,
                           b\<lparr> body_vy := body_vy b * - body_b b \<rparr>)))
           else (bb, b))"

fun resolve_tiles :: "tile_hit list \<Rightarrow> rect \<times> body \<Rightarrow> rect \<times> body" where
  "resolve_tiles [] s = s"
| "resolve_tiles (tile # rest) s = resolve_tiles rest (resolve_tile tile s)"

text \<open>``Detect'' and ``Resolve tile map collisions''.\<close>

definition tile_collisions :: "int \<Rightarrow> nat list \<Rightarrow> rect \<times> body \<Rightarrow> rect \<times> body" where
  "tile_collisions mw tiles s =
     (case s of (bb, b) \<Rightarrow>
        let hits = detect_tiles mw tiles bb
        in if length hits > 0
           then resolve_tiles (sort_tiles hits) (bb, b\<lparr> body_e := Some 1 \<rparr>)
           else (bb, b))"

text \<open>``Update body's position''.\<close>

definition integrate :: "real \<Rightarrow> body \<Rightarrow> pos \<Rightarrow> pos" where
  "integrate dt b p = p\<lparr> pos_x := pos_x p + body_vx b * dt, pos_y := pos_y p + body_vy b * dt \<rparr>"

text \<open>From \<open>update_bounding_box(pos, body)\<close> to the end of the tile resolution.\<close>

definition collide :: "world \<Rightarrow> pos \<Rightarrow> body \<Rightarrow> rect \<times> body" where
  "collide w p b =
     tile_collisions (map_width w) (map_tiles w)
       (constrain_y (map_height w) (constrain_x (map_width w) (bounding_box p b, b)))"

text \<open>``Sync position to bounding box'', and the body with its \<open>bb\<close>.\<close>

definition store_body :: "nat \<Rightarrow> pos \<Rightarrow> rect \<times> body \<Rightarrow> world \<Rightarrow> world" where
  "store_body i p s w =
     (case s of (bb, b) \<Rightarrow>
        w\<lparr> c_pos := group_set (c_pos w) i
                (p\<lparr> pos_x := rect_x bb + body_w b / 2, pos_y := rect_y bb + body_h b / 2 \<rparr>),
           c_body := group_set (c_body w) i (b\<lparr> body_bb := Some bb \<rparr>) \<rparr>)"

text \<open>
  One turn of the first loop of \<open>system_physics\<close>, for the body \<open>b\<close> of entity \<open>i\<close>: reset
  the flag and the contact array, move, constrain, collide with the tiles, store, insert
  into the spatial map. A body without a position makes \<open>pos.x\<close> throw.
\<close>

definition move_body :: "real \<Rightarrow> nat \<Rightarrow> body \<Rightarrow> world \<Rightarrow> world option" where
  "move_body dt i b w =
     (case group_get (c_pos w) i of
        None \<Rightarrow> None
      | Some p \<Rightarrow>
          (let w1 = w\<lparr> arrays := (arrays w)(body_c b := []) \<rparr>;
               b1 = b\<lparr> body_e := Some 0 \<rparr>;
               p1 = integrate dt b1 p;
               s = collide w1 p1 b1
           in insert_spatial_bounds i (fst s) (store_body i p1 s w1)))"

fun move_bodies :: "real \<Rightarrow> nat list \<Rightarrow> world \<Rightarrow> world option" where
  "move_bodies dt [] w = Some w"
| "move_bodies dt (i # rest) w =
     (case group_get (c_body w) i of
        None \<Rightarrow> move_bodies dt rest w
      | Some b \<Rightarrow>
          (case move_body dt i b w of
             None \<Rightarrow> None
           | Some w' \<Rightarrow> move_bodies dt rest w'))"

text \<open>\<open>COLLISION_GROUPS\<close>: the keys of the map.\<close>

definition COLLISION_GROUPS :: "int list" where
  "COLLISION_GROUPS =
     [hash_ids GROUP_PLAYER GROUP_ENEMY, hash_ids GROUP_ENEMY GROUP_ENEMY,
      hash_ids GROUP_PLAYER GROUP_ENVIRONMENT, hash_ids GROUP_ENEMY GROUP_ENVIRONMENT,
      hash_ids GROUP_ENVIRONMENT GROUP_ENVIRONMENT]"

text \<open>
  ``Find colliding pairs''. The two nested loops write the list \<open>pairs\<close>, the list
  \<open>checked\<close> and the contact arrays, and only read the rest of the world \<open>w\<close>; their state
  is these three. One turn of the inner loop, for the body \<open>b\<close> of entity \<open>i\<close> and a
  neighbor:
\<close>

type_synonym pair_state = "(nat \<times> nat) list \<times> int list \<times> (nat \<Rightarrow> nat list)"

definition check_neighbor :: "world \<Rightarrow> nat \<Rightarrow> body \<Rightarrow> nat \<Rightarrow> pair_state \<Rightarrow> pair_state option" where
  "check_neighbor w i b neighbor_id s =
     (case s of (pairs, checked, arrs) \<Rightarrow>
        if neighbor_id = i then Some s
        else if hash_ids i neighbor_id \<in> set checked then Some s
        else (case group_get (c_body w) neighbor_id of
                None \<Rightarrow> None
              | Some neighbor_body \<Rightarrow>
                  if hash_ids (body_g b) (body_g neighbor_body) \<in> set COLLISION_GROUPS
                  then (case (body_bb b, body_bb neighbor_body) of
                          (Some bb, Some neighbor_bb) \<Rightarrow>
                            if rect_overlap bb neighbor_bb
                            then (let a1 = arrs(body_c b := arrs (body_c b) @ [neighbor_id]);
                                      a2 = a1(body_c neighbor_body :=
                                                a1 (body_c neighbor_body) @ [i])
                                  in Some ((if body_t b \<noteq> Some 1 \<and> body_t neighbor_body \<noteq> Some 1
                                            then pairs @ [(i, neighbor_id)] else pairs),
                                           checked @ [hash_ids i neighbor_id], a2))
                            else Some (pairs, checked @ [hash_ids i neighbor_id], arrs)
                        | _ \<Rightarrow> None)
                  else Some (pairs, checked @ [hash_ids i neighbor_id], arrs)))"

fun check_neighbors :: "world \<Rightarrow> nat \<Rightarrow> body \<Rightarrow> nat list \<Rightarrow> pair_state \<Rightarrow> pair_state option" where
  "check_neighbors w i b [] s = Some s"
| "check_neighbors w i b (neighbor_id # rest) s =
     (case check_neighbor w i b neighbor_id s of
        None \<Rightarrow> None
      | Some s' \<Rightarrow> check_neighbors w i b rest s')"

fun find_pairs :: "world \<Rightarrow> nat list \<Rightarrow> pair_state \<Rightarrow> pair_state option" where
  "find_pairs w [] s = Some s"
| "find_pairs w (i # rest) s =
     (case group_get (c_body w) i of
        None \<Rightarrow> find_pairs w rest s
      | Some b \<Rightarrow>
          (case body_bb b of
             None \<Rightarrow> None
           | Some bb \<Rightarrow>
               (case get_spatial_neighbors bb w of
                  None \<Rightarrow> None
                | Some neighbors \<Rightarrow>
                    (case check_neighbors w i b neighbors s of
                       None \<Rightarrow> None
                     | Some s' \<Rightarrow> find_pairs w rest s'))))"

text \<open>
  ``Resolve colliding pairs'', one pair. The four components are objects of the store:
  each statement of the source reads and writes the store in turn.
\<close>

definition pos_upd :: "nat \<Rightarrow> (pos \<Rightarrow> pos) \<Rightarrow> world \<Rightarrow> world" where
  "pos_upd i f w =
     (case group_get (c_pos w) i of
        None \<Rightarrow> w
      | Some p \<Rightarrow> w\<lparr> c_pos := group_set (c_pos w) i (f p) \<rparr>)"

definition body_upd :: "nat \<Rightarrow> (body \<Rightarrow> body) \<Rightarrow> world \<Rightarrow> world" where
  "body_upd i f w =
     (case group_get (c_body w) i of
        None \<Rightarrow> w
      | Some b \<Rightarrow> w\<lparr> c_body := group_set (c_body w) i (f b) \<rparr>)"

definition sync_bounding_box :: "nat \<Rightarrow> world \<Rightarrow> world" where
  "sync_bounding_box i w =
     (case group_get (c_pos w) i of
        None \<Rightarrow> w
      | Some p \<Rightarrow> body_upd i (update_bounding_box p) w)"

definition separate_x :: "nat \<Rightarrow> nat \<Rightarrow> rect \<Rightarrow> world \<Rightarrow> world" where
  "separate_x a b temp_rect w =
     (let hw = rect_w temp_rect / 2;
          ix = rect_x temp_rect + hw;
          w1 = pos_upd a (\<lambda>p. p\<lparr> pos_x := pos_x p + hw * sign (pos_x p - ix) \<rparr>) w;
          w2 = pos_upd b (\<lambda>p. p\<lparr> pos_x := pos_x p + hw * sign (pos_x p - ix) \<rparr>) w1;
          w3 = body_upd a (\<lambda>q. q\<lparr> body_vx := body_vx q * - body_b q \<rparr>) w2
      in body_upd b (\<lambda>q. q\<lparr> body_vx := body_vx q * - body_b q \<rparr>) w3)"

definition separate_y :: "nat \<Rightarrow> nat \<Rightarrow> rect \<Rightarrow> world \<Rightarrow> world" where
  "separate_y a b temp_rect w =
     (let hh = rect_h temp_rect / 2;
          iy = rect_y temp_rect + hh;
          w1 = pos_upd a (\<lambda>p. p\<lparr> pos_y := pos_y p + hh * sign (pos_y p - iy) \<rparr>) w;
          w2 = pos_upd b (\<lambda>p. p\<lparr> pos_y := pos_y p + hh * sign (pos_y p - iy) \<rparr>) w1;
          w3 = body_upd a (\<lambda>q. q\<lparr> body_vy := body_vy q * - body_b q \<rparr>) w2
      in body_upd b (\<lambda>q. q\<lparr> body_vy := body_vy q * - body_b q \<rparr>) w3)"

definition resolve_pair :: "nat \<times> nat \<Rightarrow> world \<Rightarrow> world option" where
  "resolve_pair pr w =
     (case pr of (a, b) \<Rightarrow>
        (case (group_get (c_body w) a, group_get (c_body w) b,
               group_get (c_pos w) a, group_get (c_pos w) b) of
           (Some bod_a, Some bod_b, Some pos_a, Some pos_b) \<Rightarrow>
             (case (body_bb bod_a, body_bb bod_b) of
                (Some bb_a, Some bb_b) \<Rightarrow>
                  (let temp_rect = rect_intersection bb_a bb_b;
                       w1 = (if rect_w temp_rect < rect_h temp_rect
                             then separate_x a b temp_rect w
                             else separate_y a b temp_rect w)
                   in Some (sync_bounding_box b (sync_bounding_box a w1)))
              | _ \<Rightarrow> None)
         | _ \<Rightarrow> None))"

fun resolve_pairs :: "(nat \<times> nat) list \<Rightarrow> world \<Rightarrow> world option" where
  "resolve_pairs [] w = Some w"
| "resolve_pairs (pr # rest) w =
     (case resolve_pair pr w of None \<Rightarrow> None | Some w' \<Rightarrow> resolve_pairs rest w')"

definition system_physics :: system where
  "system_physics dt w =
     (case c_body w of
        None \<Rightarrow> Some w
      | Some bodies \<Rightarrow>
          (case move_bodies dt (map fst bodies) (clear_spatial_map w) of
             None \<Rightarrow> None
           | Some w1 \<Rightarrow>
               (case find_pairs w1 (map fst bodies) ([], [], arrays w1) of
                  None \<Rightarrow> None
                | Some (pairs, checked, arrs) \<Rightarrow>
                    resolve_pairs pairs (w1\<lparr> arrays := arrs \<rparr>))))"

section \<open>Physics in rounded arithmetic\<close>

text \<open>
  \<open>system_physics\<close> and the functions it calls once more, with the result of every \<open>+\<close>, \<open>-\<close>,
  \<open>*\<close> and \<open>/\<close> of the source passed through a rounding \<open>r\<close>, the first argument of each
  definition. With the identity for \<open>r\<close> this is the tick of the section above, with
  \<open>double\<close> it is the arithmetic of the program. \<open>Math.floor\<close>, \<open>Math.min\<close>, \<open>Math.max\<close>,
  \<open>sign\<close>, the negation and the comparisons are exact on doubles, and so is the integer
  arithmetic of \<open>idx\<close> and \<open>hash_ids\<close>; the comparator of \<open>tiles.sort\<close> is the sign of a
  difference of two doubles, which is the sign of the exact difference.
\<close>

definition rect_overlap_r :: "(real \<Rightarrow> real) \<Rightarrow> rect \<Rightarrow> rect \<Rightarrow> bool" where
  "rect_overlap_r r a b \<longleftrightarrow>
     rect_x a < r (rect_x b + rect_w b) \<and> r (rect_x a + rect_w a) > rect_x b \<and>
     rect_y a < r (rect_y b + rect_h b) \<and> r (rect_y a + rect_h a) > rect_y b"

definition rect_intersection_r :: "(real \<Rightarrow> real) \<Rightarrow> rect \<Rightarrow> rect \<Rightarrow> rect" where
  "rect_intersection_r r a b =
     (let x1 = min (r (rect_x a + rect_w a)) (r (rect_x b + rect_w b));
          x2 = max (rect_x a) (rect_x b);
          y1 = min (r (rect_y a + rect_h a)) (r (rect_y b + rect_h b));
          y2 = max (rect_y a) (rect_y b)
      in \<lparr> rect_x = min x1 x2, rect_y = min y1 y2,
           rect_w = max 0 (r (x1 - x2)), rect_h = max 0 (r (y1 - y2)) \<rparr>)"

definition spatial_cells_r :: "(real \<Rightarrow> real) \<Rightarrow> rect \<Rightarrow> (int \<times> int) list" where
  "spatial_cells_r r bb =
     cells \<lfloor>r (rect_x bb / SPATIAL_TILE_SIZE)\<rfloor> \<lfloor>r (rect_y bb / SPATIAL_TILE_SIZE)\<rfloor>
           \<lfloor>r (r (rect_x bb + rect_w bb) / SPATIAL_TILE_SIZE)\<rfloor>
           \<lfloor>r (r (rect_y bb + rect_h bb) / SPATIAL_TILE_SIZE)\<rfloor>"

definition insert_spatial_bounds_r :: "(real \<Rightarrow> real) \<Rightarrow> nat \<Rightarrow> rect \<Rightarrow> world \<Rightarrow> world option" where
  "insert_spatial_bounds_r r i bb w =
     map_option (\<lambda>buckets. w\<lparr> spatial_tiles := buckets \<rparr>)
       (insert_cells i (spatial_width w) (spatial_cells_r r bb) (spatial_tiles w))"

definition get_spatial_neighbors_r :: "(real \<Rightarrow> real) \<Rightarrow> rect \<Rightarrow> world \<Rightarrow> nat list option" where
  "get_spatial_neighbors_r r bb w =
     neighbor_cells (spatial_width w) (spatial_tiles w) (spatial_cells_r r bb) []"

definition bounding_box_r :: "(real \<Rightarrow> real) \<Rightarrow> pos \<Rightarrow> body \<Rightarrow> rect" where
  "bounding_box_r r p b =
     \<lparr> rect_x = r (pos_x p - r (body_w b / 2)), rect_y = r (pos_y p - r (body_h b / 2)),
       rect_w = body_w b, rect_h = body_h b \<rparr>"

definition update_bounding_box_r :: "(real \<Rightarrow> real) \<Rightarrow> pos \<Rightarrow> body \<Rightarrow> body" where
  "update_bounding_box_r r p b = b\<lparr> body_bb := Some (bounding_box_r r p b) \<rparr>"

definition constrain_x_r :: "(real \<Rightarrow> real) \<Rightarrow> int \<Rightarrow> rect \<times> body \<Rightarrow> rect \<times> body" where
  "constrain_x_r r mw s =
     (case s of (bb, b) \<Rightarrow>
        if rect_x bb < 0
        then (bb\<lparr> rect_x := 0 \<rparr>,
              b\<lparr> body_vx := r (body_vx b * - body_b b), body_e := Some 1 \<rparr>)
        else if r (rect_x bb + rect_w bb) \<ge> of_int mw
        then (bb\<lparr> rect_x := r (of_int mw - rect_w bb) \<rparr>,
              b\<lparr> body_vx := r (body_vx b * - body_b b), body_e := Some 1 \<rparr>)
        else (bb, b))"

definition constrain_y_r :: "(real \<Rightarrow> real) \<Rightarrow> int \<Rightarrow> rect \<times> body \<Rightarrow> rect \<times> body" where
  "constrain_y_r r mh s =
     (case s of (bb, b) \<Rightarrow>
        if rect_y bb < 0
        then (bb\<lparr> rect_y := 0 \<rparr>,
              b\<lparr> body_vy := r (body_vy b * - body_b b), body_e := Some 1 \<rparr>)
        else if r (rect_y bb + rect_h bb) \<ge> of_int mh
        then (bb\<lparr> rect_y := r (of_int mh - rect_h bb) \<rparr>,
              b\<lparr> body_vy := r (body_vy b * - body_b b), body_e := Some 1 \<rparr>)
        else (bb, b))"

definition detect_tiles_r :: "(real \<Rightarrow> real) \<Rightarrow> int \<Rightarrow> nat list \<Rightarrow> rect \<Rightarrow> tile_hit list" where
  "detect_tiles_r r mw tiles bb =
     concat (map (\<lambda>(x, y).
         if is_wall tiles (idx x y mw)
         then [\<lparr> tile_x = x, tile_y = y,
                 tile_a = r (rect_w (rect_intersection_r r bb (tile_bb x y)) *
                             rect_h (rect_intersection_r r bb (tile_bb x y))) \<rparr>]
         else [])
       (cells \<lfloor>rect_x bb\<rfloor> \<lfloor>rect_y bb\<rfloor>
              \<lfloor>r (rect_x bb + rect_w bb)\<rfloor> \<lfloor>r (rect_y bb + rect_h bb)\<rfloor>))"

definition resolve_tile_r :: "(real \<Rightarrow> real) \<Rightarrow> tile_hit \<Rightarrow> rect \<times> body \<Rightarrow> rect \<times> body" where
  "resolve_tile_r r tile s =
     (case s of (bb, b) \<Rightarrow>
        let temp_rect = rect_intersection_r r bb (tile_bb (tile_x tile) (tile_y tile))
        in if r (rect_w temp_rect * rect_h temp_rect) > 0
           then (if rect_w temp_rect < rect_h temp_rect
                 then (let sx = sign (r (r (rect_x bb + r (rect_w bb / 2)) -
                                         r (rect_x temp_rect + r (rect_w temp_rect / 2))))
                       in (bb\<lparr> rect_x := r (rect_x bb + r (rect_w temp_rect * sx)) \<rparr>,
                           b\<lparr> body_vx := r (body_vx b * - body_b b) \<rparr>))
                 else (let sy = sign (r (r (rect_y bb + r (rect_h bb / 2)) -
                                         r (rect_y temp_rect + r (rect_h temp_rect / 2))))
                       in (bb\<lparr> rect_y := r (rect_y bb + r (rect_h temp_rect * sy)) \<rparr>,
                           b\<lparr> body_vy := r (body_vy b * - body_b b) \<rparr>)))
           else (bb, b))"

fun resolve_tiles_r :: "(real \<Rightarrow> real) \<Rightarrow> tile_hit list \<Rightarrow> rect \<times> body \<Rightarrow> rect \<times> body" where
  "resolve_tiles_r r [] s = s"
| "resolve_tiles_r r (tile # rest) s = resolve_tiles_r r rest (resolve_tile_r r tile s)"

definition tile_collisions_r :: "(real \<Rightarrow> real) \<Rightarrow> int \<Rightarrow> nat list \<Rightarrow> rect \<times> body \<Rightarrow>
    rect \<times> body" where
  "tile_collisions_r r mw tiles s =
     (case s of (bb, b) \<Rightarrow>
        let hits = detect_tiles_r r mw tiles bb
        in if length hits > 0
           then resolve_tiles_r r (sort_tiles hits) (bb, b\<lparr> body_e := Some 1 \<rparr>)
           else (bb, b))"

definition integrate_r :: "(real \<Rightarrow> real) \<Rightarrow> real \<Rightarrow> body \<Rightarrow> pos \<Rightarrow> pos" where
  "integrate_r r dt b p =
     p\<lparr> pos_x := r (pos_x p + r (body_vx b * dt)), pos_y := r (pos_y p + r (body_vy b * dt)) \<rparr>"

definition collide_r :: "(real \<Rightarrow> real) \<Rightarrow> world \<Rightarrow> pos \<Rightarrow> body \<Rightarrow> rect \<times> body" where
  "collide_r r w p b =
     tile_collisions_r r (map_width w) (map_tiles w)
       (constrain_y_r r (map_height w)
          (constrain_x_r r (map_width w) (bounding_box_r r p b, b)))"

definition store_body_r :: "(real \<Rightarrow> real) \<Rightarrow> nat \<Rightarrow> pos \<Rightarrow> rect \<times> body \<Rightarrow> world \<Rightarrow> world" where
  "store_body_r r i p s w =
     (case s of (bb, b) \<Rightarrow>
        w\<lparr> c_pos := group_set (c_pos w) i
                (p\<lparr> pos_x := r (rect_x bb + r (body_w b / 2)),
                    pos_y := r (rect_y bb + r (body_h b / 2)) \<rparr>),
           c_body := group_set (c_body w) i (b\<lparr> body_bb := Some bb \<rparr>) \<rparr>)"

definition move_body_r :: "(real \<Rightarrow> real) \<Rightarrow> real \<Rightarrow> nat \<Rightarrow> body \<Rightarrow> world \<Rightarrow> world option" where
  "move_body_r r dt i b w =
     (case group_get (c_pos w) i of
        None \<Rightarrow> None
      | Some p \<Rightarrow>
          (let w1 = w\<lparr> arrays := (arrays w)(body_c b := []) \<rparr>;
               b1 = b\<lparr> body_e := Some 0 \<rparr>;
               p1 = integrate_r r dt b1 p;
               s = collide_r r w1 p1 b1
           in insert_spatial_bounds_r r i (fst s) (store_body_r r i p1 s w1)))"

fun move_bodies_r :: "(real \<Rightarrow> real) \<Rightarrow> real \<Rightarrow> nat list \<Rightarrow> world \<Rightarrow> world option" where
  "move_bodies_r r dt [] w = Some w"
| "move_bodies_r r dt (i # rest) w =
     (case group_get (c_body w) i of
        None \<Rightarrow> move_bodies_r r dt rest w
      | Some b \<Rightarrow>
          (case move_body_r r dt i b w of
             None \<Rightarrow> None
           | Some w' \<Rightarrow> move_bodies_r r dt rest w'))"

definition check_neighbor_r :: "(real \<Rightarrow> real) \<Rightarrow> world \<Rightarrow> nat \<Rightarrow> body \<Rightarrow> nat \<Rightarrow> pair_state \<Rightarrow>
    pair_state option" where
  "check_neighbor_r r w i b neighbor_id s =
     (case s of (pairs, checked, arrs) \<Rightarrow>
        if neighbor_id = i then Some s
        else if hash_ids i neighbor_id \<in> set checked then Some s
        else (case group_get (c_body w) neighbor_id of
                None \<Rightarrow> None
              | Some neighbor_body \<Rightarrow>
                  if hash_ids (body_g b) (body_g neighbor_body) \<in> set COLLISION_GROUPS
                  then (case (body_bb b, body_bb neighbor_body) of
                          (Some bb, Some neighbor_bb) \<Rightarrow>
                            if rect_overlap_r r bb neighbor_bb
                            then (let a1 = arrs(body_c b := arrs (body_c b) @ [neighbor_id]);
                                      a2 = a1(body_c neighbor_body :=
                                                a1 (body_c neighbor_body) @ [i])
                                  in Some ((if body_t b \<noteq> Some 1 \<and> body_t neighbor_body \<noteq> Some 1
                                            then pairs @ [(i, neighbor_id)] else pairs),
                                           checked @ [hash_ids i neighbor_id], a2))
                            else Some (pairs, checked @ [hash_ids i neighbor_id], arrs)
                        | _ \<Rightarrow> None)
                  else Some (pairs, checked @ [hash_ids i neighbor_id], arrs)))"

fun check_neighbors_r :: "(real \<Rightarrow> real) \<Rightarrow> world \<Rightarrow> nat \<Rightarrow> body \<Rightarrow> nat list \<Rightarrow> pair_state \<Rightarrow>
    pair_state option" where
  "check_neighbors_r r w i b [] s = Some s"
| "check_neighbors_r r w i b (neighbor_id # rest) s =
     (case check_neighbor_r r w i b neighbor_id s of
        None \<Rightarrow> None
      | Some s' \<Rightarrow> check_neighbors_r r w i b rest s')"

fun find_pairs_r :: "(real \<Rightarrow> real) \<Rightarrow> world \<Rightarrow> nat list \<Rightarrow> pair_state \<Rightarrow> pair_state option" where
  "find_pairs_r r w [] s = Some s"
| "find_pairs_r r w (i # rest) s =
     (case group_get (c_body w) i of
        None \<Rightarrow> find_pairs_r r w rest s
      | Some b \<Rightarrow>
          (case body_bb b of
             None \<Rightarrow> None
           | Some bb \<Rightarrow>
               (case get_spatial_neighbors_r r bb w of
                  None \<Rightarrow> None
                | Some neighbors \<Rightarrow>
                    (case check_neighbors_r r w i b neighbors s of
                       None \<Rightarrow> None
                     | Some s' \<Rightarrow> find_pairs_r r w rest s'))))"

definition sync_bounding_box_r :: "(real \<Rightarrow> real) \<Rightarrow> nat \<Rightarrow> world \<Rightarrow> world" where
  "sync_bounding_box_r r i w =
     (case group_get (c_pos w) i of
        None \<Rightarrow> w
      | Some p \<Rightarrow> body_upd i (update_bounding_box_r r p) w)"

definition separate_x_r :: "(real \<Rightarrow> real) \<Rightarrow> nat \<Rightarrow> nat \<Rightarrow> rect \<Rightarrow> world \<Rightarrow> world" where
  "separate_x_r r a b temp_rect w =
     (let hw = r (rect_w temp_rect / 2);
          ix = r (rect_x temp_rect + hw);
          w1 = pos_upd a (\<lambda>p. p\<lparr> pos_x := r (pos_x p + r (hw * sign (r (pos_x p - ix)))) \<rparr>) w;
          w2 = pos_upd b (\<lambda>p. p\<lparr> pos_x := r (pos_x p + r (hw * sign (r (pos_x p - ix)))) \<rparr>) w1;
          w3 = body_upd a (\<lambda>q. q\<lparr> body_vx := r (body_vx q * - body_b q) \<rparr>) w2
      in body_upd b (\<lambda>q. q\<lparr> body_vx := r (body_vx q * - body_b q) \<rparr>) w3)"

definition separate_y_r :: "(real \<Rightarrow> real) \<Rightarrow> nat \<Rightarrow> nat \<Rightarrow> rect \<Rightarrow> world \<Rightarrow> world" where
  "separate_y_r r a b temp_rect w =
     (let hh = r (rect_h temp_rect / 2);
          iy = r (rect_y temp_rect + hh);
          w1 = pos_upd a (\<lambda>p. p\<lparr> pos_y := r (pos_y p + r (hh * sign (r (pos_y p - iy)))) \<rparr>) w;
          w2 = pos_upd b (\<lambda>p. p\<lparr> pos_y := r (pos_y p + r (hh * sign (r (pos_y p - iy)))) \<rparr>) w1;
          w3 = body_upd a (\<lambda>q. q\<lparr> body_vy := r (body_vy q * - body_b q) \<rparr>) w2
      in body_upd b (\<lambda>q. q\<lparr> body_vy := r (body_vy q * - body_b q) \<rparr>) w3)"

definition resolve_pair_r :: "(real \<Rightarrow> real) \<Rightarrow> nat \<times> nat \<Rightarrow> world \<Rightarrow> world option" where
  "resolve_pair_r r pr w =
     (case pr of (a, b) \<Rightarrow>
        (case (group_get (c_body w) a, group_get (c_body w) b,
               group_get (c_pos w) a, group_get (c_pos w) b) of
           (Some bod_a, Some bod_b, Some pos_a, Some pos_b) \<Rightarrow>
             (case (body_bb bod_a, body_bb bod_b) of
                (Some bb_a, Some bb_b) \<Rightarrow>
                  (let temp_rect = rect_intersection_r r bb_a bb_b;
                       w1 = (if rect_w temp_rect < rect_h temp_rect
                             then separate_x_r r a b temp_rect w
                             else separate_y_r r a b temp_rect w)
                   in Some (sync_bounding_box_r r b (sync_bounding_box_r r a w1)))
              | _ \<Rightarrow> None)
         | _ \<Rightarrow> None))"

fun resolve_pairs_r :: "(real \<Rightarrow> real) \<Rightarrow> (nat \<times> nat) list \<Rightarrow> world \<Rightarrow> world option" where
  "resolve_pairs_r r [] w = Some w"
| "resolve_pairs_r r (pr # rest) w =
     (case resolve_pair_r r pr w of None \<Rightarrow> None | Some w' \<Rightarrow> resolve_pairs_r r rest w')"

definition system_physics_r :: "(real \<Rightarrow> real) \<Rightarrow> system" where
  "system_physics_r r dt w =
     (case c_body w of
        None \<Rightarrow> Some w
      | Some bodies \<Rightarrow>
          (case move_bodies_r r dt (map fst bodies) (clear_spatial_map w) of
             None \<Rightarrow> None
           | Some w1 \<Rightarrow>
               (case find_pairs_r r w1 (map fst bodies) ([], [], arrays w1) of
                  None \<Rightarrow> None
                | Some (pairs, checked, arrs) \<Rightarrow>
                    resolve_pairs_r r pairs (w1\<lparr> arrays := arrs \<rparr>))))"

section \<open>Map generation\<close>

text \<open>
  \<open>MAP_GENERATORS\<close> and \<open>generate_map\<close>. The source picks the generator at random; here it
  is an argument.
\<close>

type_synonym generator = "int \<Rightarrow> int \<Rightarrow> int \<Rightarrow> int \<Rightarrow> int \<Rightarrow> int \<Rightarrow> bool"

definition MAP_GENERATORS :: "generator list" where
  "MAP_GENERATORS =
     [\<lambda>x y w h cx cy. x mod 4 = 0 \<and> y mod 4 = 0,
      \<lambda>x y w h cx cy.
         (let d = distance (of_int x) (of_int y) (of_int cx) (of_int cy)
          in ((d > 4 \<and> d < 7) \<or> d > 11) \<and> x \<noteq> cx \<and> y \<noteq> cy),
      \<lambda>x y w h cx cy.
         ((x > 3 \<and> x < cx - 2) \<or> (x > cx + 2 \<and> x < w - 4)) \<and> y > 2 \<and> y < h - 3]"

definition generate_map :: "generator \<Rightarrow> int \<Rightarrow> int \<Rightarrow> world \<Rightarrow> world" where
  "generate_map gen width height w =
     (let w1 = init_map width height w;
          cx = width div 2;
          cy = height div 2
      in w1\<lparr> map_tiles :=
               map (\<lambda>i. if gen (int i mod map_width w1) (int i div map_width w1)
                                width height cx cy
                         then 1 else 0)
                   [0..<length (map_tiles w1)] \<rparr>)"

section \<open>Scenarios\<close>

text \<open>The body and the position of an entity in the outcome of a system.\<close>

definition body_of :: "nat \<Rightarrow> world option \<Rightarrow> body option" where
  "body_of i r = (case r of None \<Rightarrow> None | Some w \<Rightarrow> group_get (c_body w) i)"

definition pos_of :: "nat \<Rightarrow> world option \<Rightarrow> pos option" where
  "pos_of i r = (case r of None \<Rightarrow> None | Some w \<Rightarrow> group_get (c_pos w) i)"

text \<open>
  The wall scenario: a 21 by 21 map whose only wall is tile (1,5); entity 1 at (0.9, 5)
  with a body of 0.4 by 0.4, velocity (5, 0) and bounce \<open>b\<close>.
\<close>

definition scenario_body :: "real \<Rightarrow> body" where
  "scenario_body b =
     \<lparr> body_w = 4 / 10, body_h = 4 / 10, body_vx = 5, body_vy = 0, body_b = b,
       body_g = GROUP_PLAYER, body_t = None, body_c = 0, body_e = None, body_bb = None \<rparr>"

definition wall_scenario :: "real \<Rightarrow> world" where
  "wall_scenario b =
     (let w = init_map 21 21 initial_world
      in w\<lparr> map_tiles := (map_tiles w)[nat (idx 1 5 21) := 1],
            c_pos := Some [(1, \<lparr> pos_x = 9 / 10, pos_y = 5, pos_f = 0 \<rparr>)],
            c_body := Some [(1, scenario_body b)],
            next_entity_id := 2 \<rparr>)"

text \<open>The body of the wall scenario after one tick of 0.1 s.\<close>

definition moved_body :: "real \<Rightarrow> body" where
  "moved_body b =
     \<lparr> body_w = 4 / 10, body_h = 4 / 10, body_vx = 5, body_vy = 0, body_b = b,
       body_g = GROUP_PLAYER, body_t = None, body_c = 0, body_e = Some 1,
       body_bb = Some \<lparr> rect_x = 6 / 5, rect_y = 23 / 5, rect_w = 2 / 5, rect_h = 2 / 5 \<rparr> \<rparr>"

text \<open>
  The edge scenario: a map of the first generator, two slimes spawned from the prefab in
  row 5, where that map has no wall: the first at rest, 0.01 from the west edge of the map,
  the second moving west at speed 1 and about to touch the first.
\<close>

definition edge_scenario :: world where
  "edge_scenario =
     (let w0 = generate_map (MAP_GENERATORS ! 0) 21 21 initial_world;
          w1 = snd (spawn_prefab_entity PREFABS ''slime''
                      (Some (41 / 100)) (Some (55 / 10)) (Some 0) w0);
          w2 = snd (spawn_prefab_entity PREFABS ''slime''
                      (Some (125 / 100)) (Some (55 / 10)) (Some 0) w1)
      in body_upd 2 (\<lambda>q. q\<lparr> body_vx := - 1 \<rparr>) w2)"

text \<open>
  The shots scenario: a map of the first generator; in row 5, where that map has no wall,
  a slime at (9.5, 5.5) and two bullets of the pistol flying east at speed 12, 4.8 apart
  (the distance a bullet covers during the cooldown of 0.4 s): entity 2 at (8.3, 5.5),
  about to reach the slime, and entity 3 at (3.5, 5.5). All three are spawned from the
  prefabs; the velocity is set after spawning, as \<open>system_input\<close> does.
\<close>

definition shots_scenario :: world where
  "shots_scenario =
     (let w0 = generate_map (MAP_GENERATORS ! 0) 21 21 initial_world;
          w1 = snd (spawn_prefab_entity PREFABS ''slime''
                      (Some (95 / 10)) (Some (55 / 10)) (Some 0) w0);
          w2 = snd (spawn_prefab_entity PREFABS ''bullet''
                      (Some (83 / 10)) (Some (55 / 10)) (Some 0) w1);
          w3 = snd (spawn_prefab_entity PREFABS ''bullet''
                      (Some (35 / 10)) (Some (55 / 10)) (Some 0) w2)
      in body_upd 3 (\<lambda>q. q\<lparr> body_vx := 12 \<rparr>) (body_upd 2 (\<lambda>q. q\<lparr> body_vx := 12 \<rparr>) w3))"

section \<open>Predicates used in the proofs\<close>

text \<open>
  The box of a body agrees with a position: it has the size of the body, and either its
  corner is what \<open>update_bounding_box\<close> computes from the position, or the position is what
  the sync of \<open>system_physics\<close> (\<open>pos = bb + size / 2\<close>) computes from the box.
\<close>

definition agrees :: "(real \<Rightarrow> real) \<Rightarrow> pos \<Rightarrow> body \<Rightarrow> bool" where
  "agrees r p b \<longleftrightarrow>
     (case body_bb b of
        None \<Rightarrow> False
      | Some bb \<Rightarrow>
          rect_w bb = body_w b \<and> rect_h bb = body_h b \<and>
          ((rect_x bb = r (pos_x p - r (body_w b / 2)) \<and>
            rect_y bb = r (pos_y p - r (body_h b / 2))) \<or>
           (pos_x p = r (rect_x bb + r (body_w b / 2)) \<and>
            pos_y p = r (rect_y bb + r (body_h b / 2)))))"

definition agreeing :: "(real \<Rightarrow> real) \<Rightarrow> nat \<Rightarrow> world \<Rightarrow> bool" where
  "agreeing r i w \<longleftrightarrow>
     (\<forall>b p. group_get (c_body w) i = Some b \<and> group_get (c_pos w) i = Some p \<longrightarrow>
        agrees r p b)"

text \<open>The rectangle carried beside a body has the size of the body.\<close>

definition sized :: "rect \<times> body \<Rightarrow> bool" where
  "sized s \<longleftrightarrow> rect_w (fst s) = body_w (snd s) \<and> rect_h (fst s) = body_h (snd s)"

text \<open>A cell of the map; what the loop of \<open>raycast\<close> ends with; what decreases in it.\<close>

definition in_map :: "int \<Rightarrow> int \<Rightarrow> int \<Rightarrow> int \<Rightarrow> bool" where
  "in_map mw mh x y \<longleftrightarrow> 0 \<le> x \<and> x < mw \<and> 0 \<le> y \<and> y < mh"

definition dda_result :: "int \<Rightarrow> int \<Rightarrow> nat list \<Rightarrow> int \<times> int \<times> nat \<times> nat option \<Rightarrow> bool" where
  "dda_result mw mh tiles r \<longleftrightarrow>
     (case r of (x, y, s, v) \<Rightarrow>
        (in_map mw mh x y \<and> v = tile_get tiles (y * mw + x) \<and> v \<noteq> Some 0) \<or>
        (\<not> in_map mw mh x y \<and> v = Some 1))"

definition dda_measure :: "int \<Rightarrow> int \<Rightarrow> int \<Rightarrow> int \<Rightarrow> int \<Rightarrow> int \<Rightarrow> nat" where
  "dda_measure mw mh step_x step_y x y =
     nat (if step_x = 1 then mw - x else x + 1) + nat (if step_y = 1 then mh - y else y + 1)"

text \<open>
  A walk of the ray from the cell \<open>c\<close>: the list of the cells entered, each one step further
  along X or along Y than the cell before; every cell but the last is a cell of the map
  whose tile is 0.
\<close>

fun ray_walk :: "int \<Rightarrow> int \<Rightarrow> nat list \<Rightarrow> int \<Rightarrow> int \<Rightarrow> int \<times> int \<Rightarrow> (int \<times> int) list \<Rightarrow> bool" where
  "ray_walk mw mh tiles step_x step_y c [] = False"
| "ray_walk mw mh tiles step_x step_y c (c' # rest) =
     ((c' = (fst c + step_x, snd c) \<or> c' = (fst c, snd c + step_y)) \<and>
      (rest = [] \<or>
       (in_map mw mh (fst c') (snd c') \<and> tile_get tiles (snd c' * mw + fst c') = Some 0 \<and>
        ray_walk mw mh tiles step_x step_y c' rest)))"

text \<open>Entity \<open>i\<close> is in no component group; a mortal after a damage of \<open>d\<close>.\<close>

definition despawned :: "nat \<Rightarrow> world \<Rightarrow> bool" where
  "despawned i w \<longleftrightarrow>
     group_get (c_pos w) i = None \<and> group_get (c_body w) i = None \<and>
     group_get (c_pla w) i = None \<and> group_get (c_mor w) i = None \<and>
     group_get (c_sprite w) i = None \<and> group_get (c_sig w) i = None \<and>
     group_get (c_tar w) i = None \<and> group_get (c_beh w) i = None \<and>
     group_get (c_ani w) i = None \<and> group_get (c_haz w) i = None \<and>
     group_get (c_ttl w) i = None"

definition damage :: "real \<Rightarrow> mor \<Rightarrow> mor" where
  "damage d m = m\<lparr> mor_h := mor_h m - d \<rparr>"

text \<open>The world after the damage of one hazard turn, before the hazard may be removed.\<close>

definition hit :: "nat \<Rightarrow> haz \<Rightarrow> world \<Rightarrow> world" where
  "hit c hazard w =
     (case group_get (c_mor w) c of
        None \<Rightarrow> w
      | Some mortal \<Rightarrow>
          w\<lparr> c_mor := group_set (c_mor w) c (mortal\<lparr> mor_h := mor_h mortal - haz_d hazard \<rparr>) \<rparr>)"

text \<open>
  In the outcome of a system: the contact list of entity \<open>i\<close> (the array its \<open>body.c\<close> refers
  to), its \<open>mor\<close> component, and whether it is in no component group.
\<close>

definition contacts_of :: "nat \<Rightarrow> world option \<Rightarrow> nat list option" where
  "contacts_of i r =
     (case r of
        None \<Rightarrow> None
      | Some w \<Rightarrow> map_option (\<lambda>b. arrays w (body_c b)) (group_get (c_body w) i))"

definition mortal_of :: "nat \<Rightarrow> world option \<Rightarrow> mor option" where
  "mortal_of i r = (case r of None \<Rightarrow> None | Some w \<Rightarrow> group_get (c_mor w) i)"

definition gone :: "nat \<Rightarrow> world option \<Rightarrow> bool" where
  "gone i r = (case r of None \<Rightarrow> False | Some w \<Rightarrow> despawned i w)"

text \<open>The world of the wall scenario after one tick of 0.1 s.\<close>

definition wall_outcome :: "real \<Rightarrow> world" where
  "wall_outcome b =
     (wall_scenario b)\<lparr>
        arrays := (arrays (wall_scenario b))(0 := []),
        c_pos := Some [(1, \<lparr> pos_x = 7 / 5, pos_y = 24 / 5, pos_f = 0 \<rparr>)],
        c_body := Some [(1, moved_body b)],
        spatial_tiles := (replicate 121 [])[22 := [1]] \<rparr>"

section \<open>The behavior tick in the words of the specification\<close>

text \<open>
  What the specification says a behavior tick does, written down independently of the
  loops of \<open>system_behavior\<close>, to be compared with them.

  A rule matches when its source state is the current state and its condition holds:
  the elapsed time has reached its duration, or its predicate returns true.
\<close>

definition spec_matches :: "bstate \<Rightarrow> real \<Rightarrow> nat \<Rightarrow> world \<Rightarrow> transition \<Rightarrow> bool" where
  "spec_matches s e i w tr \<longleftrightarrow>
     tr_f tr = s \<and> ((\<exists>d. tr_d tr = Some d \<and> d \<le> e) \<or> (\<exists>c. tr_c tr = Some c \<and> c i w))"

text \<open>The first rule, in declaration order, that matches.\<close>

definition spec_first_match :: "model \<Rightarrow> bstate \<Rightarrow> real \<Rightarrow> nat \<Rightarrow> world \<Rightarrow> transition option" where
  "spec_first_match model s e i w =
     find (spec_matches s e i w) (case m_t model of None \<Rightarrow> [] | Some ts \<Rightarrow> ts)"

text \<open>A hook runs if the state has it.\<close>

definition spec_hook :: "(nat \<Rightarrow> world \<Rightarrow> world option) option \<Rightarrow> nat \<Rightarrow> world \<Rightarrow> world option" where
  "spec_hook h i w = (case h of None \<Rightarrow> Some w | Some f \<Rightarrow> f i w)"

text \<open>
  The turn of one entity. An entity without a state enters the initial state of its model
  first, with elapsed time 0, running its enter hook. Then the elapsed time advances by
  \<open>dt\<close>. The first matching rule, if there is one, fires: the exit hook of the old state
  runs, the state becomes the target, the elapsed time becomes 0, the enter hook of the
  new state runs; no other rule has any effect, so the state changes at most once by a
  rule. When no rule matches, state and elapsed time stay. The update hook of the state
  reached runs last.
\<close>

definition spec_turn :: "(bstate \<Rightarrow> state_obj) \<Rightarrow> model \<Rightarrow> real \<Rightarrow> nat \<Rightarrow> beh \<Rightarrow> world \<Rightarrow>
    (beh \<times> world) option" where
  "spec_turn states model dt i bh w =
     Option.bind
       (case beh_s bh of
          Some s \<Rightarrow> Some (s, beh_e bh, w)
        | None \<Rightarrow> map_option (\<lambda>w0. (m_i model, 0, w0)) (spec_hook (st_e (states (m_i model))) i w))
       (\<lambda>(s, e, w0).
          Option.bind
            (case spec_first_match model s (e + dt) i w0 of
               None \<Rightarrow> Some (s, e + dt, w0)
             | Some tr \<Rightarrow>
                 Option.bind (spec_hook (st_x (states s)) i w0)
                   (\<lambda>w1. map_option (\<lambda>w2. (tr_t tr, 0, w2))
                            (spec_hook (st_e (states (tr_t tr))) i w1)))
            (\<lambda>(s', e', w2).
               map_option (Pair (bh\<lparr> beh_s := Some s', beh_e := e' \<rparr>))
                 (case st_u (states s') of None \<Rightarrow> Some w2 | Some u \<Rightarrow> u i dt w2)))"

text \<open>
  The tick of one entity on the world: nothing for an entity that has no \<open>beh\<close> component
  any more; otherwise its turn, whose outcome is the entity's record unless a hook has
  removed the entity.
\<close>

definition spec_tick :: "(bstate \<Rightarrow> state_obj) \<Rightarrow> (string \<Rightarrow> model option) \<Rightarrow> real \<Rightarrow>
    nat \<Rightarrow> world \<Rightarrow> world option" where
  "spec_tick states behaviors dt i w =
     (case group_get (c_beh w) i of
        None \<Rightarrow> Some w
      | Some bh \<Rightarrow>
          (case behaviors (beh_m bh) of
             None \<Rightarrow> None
           | Some model \<Rightarrow>
               map_option
                 (\<lambda>(bh', w'). if group_get (c_beh w') i = None then w'
                              else w'\<lparr> c_beh := group_set (c_beh w') i bh' \<rparr>)
                 (spec_turn states model dt i bh w)))"

section \<open>More scenarios\<close>

text \<open>
  State objects whose hooks count in \<open>game_timer\<close>: the exit hook adds 1, the enter hook
  doubles. A slime that has been wandering for 2.9 s.
\<close>

definition counting_states :: "bstate \<Rightarrow> state_obj" where
  "counting_states s =
     \<lparr> st_e = Some (\<lambda>i w. Some (w\<lparr> game_timer := game_timer w * 2 \<rparr>)),
       st_u = None,
       st_x = Some (\<lambda>i w. Some (w\<lparr> game_timer := game_timer w + 1 \<rparr>)) \<rparr>"

definition wandering :: beh where
  "wandering = \<lparr> beh_m = ''slime'', beh_s = Some state_wander, beh_e = 29 / 10 \<rparr>"

text \<open>
  Entity 7 is the slime that has been wandering for 2.9 s; entity 8 is a slime that has
  not had a tick yet and stands where the player (entity 0) stands.
\<close>

definition behavior_scenario :: world where
  "behavior_scenario =
     initial_world\<lparr>
       c_pos := Some [(0, \<lparr> pos_x = 3 / 2, pos_y = 3 / 2, pos_f = 0 \<rparr>),
                      (8, \<lparr> pos_x = 3 / 2, pos_y = 3 / 2, pos_f = 0 \<rparr>)],
       c_beh := Some [(7, wandering), (8, \<lparr> beh_m = ''slime'', beh_s = None, beh_e = 0 \<rparr>)],
       next_entity_id := 9 \<rparr>"

text \<open>
  The two slimes of the edge scenario as spawned, their bounding boxes and bodies after
  the first loop of the physics tick, the worlds after each turn of that loop, and the
  bodies and the world after the pair has been separated.
\<close>

definition slime_a :: body where
  "slime_a = body_lit (8 / 10) 1 GROUP_ENEMY None 2"

definition slime_b :: body where
  "slime_b = (body_lit (8 / 10) 1 GROUP_ENEMY None 2)\<lparr> body_vx := - 1 \<rparr>"

definition box_a :: rect where
  "box_a = \<lparr> rect_x = 1 / 100, rect_y = 51 / 10, rect_w = 4 / 5, rect_h = 4 / 5 \<rparr>"

definition box_b :: rect where
  "box_b = \<lparr> rect_x = 3 / 4, rect_y = 51 / 10, rect_w = 4 / 5, rect_h = 4 / 5 \<rparr>"

definition moved_a :: body where
  "moved_a = slime_a\<lparr> body_e := Some 0, body_bb := Some box_a \<rparr>"

definition moved_b :: body where
  "moved_b = slime_b\<lparr> body_e := Some 0, body_bb := Some box_b \<rparr>"

definition edge_moved_a :: world where
  "edge_moved_a = edge_scenario\<lparr>
      arrays := (\<lambda>_. []),
      c_pos := Some [(1, \<lparr> pos_x = 41 / 100, pos_y = 11 / 2, pos_f = 0 \<rparr>),
                     (2, \<lparr> pos_x = 5 / 4, pos_y = 11 / 2, pos_f = 0 \<rparr>)],
      c_body := Some [(1, moved_a), (2, slime_b)],
      spatial_tiles := (replicate 121 [])[22 := [1]] \<rparr>"

definition edge_moved :: world where
  "edge_moved = edge_scenario\<lparr>
      arrays := (\<lambda>_. []),
      c_pos := Some [(1, \<lparr> pos_x = 41 / 100, pos_y = 11 / 2, pos_f = 0 \<rparr>),
                     (2, \<lparr> pos_x = 23 / 20, pos_y = 11 / 2, pos_f = 0 \<rparr>)],
      c_body := Some [(1, moved_a), (2, moved_b)],
      spatial_tiles := (replicate 121 [])[22 := [1, 2]] \<rparr>"

definition pushed_a :: body where
  "pushed_a = moved_a\<lparr> body_bb :=
      Some \<lparr> rect_x = - (1 / 50), rect_y = 51 / 10, rect_w = 4 / 5, rect_h = 4 / 5 \<rparr> \<rparr>"

definition pushed_b :: body where
  "pushed_b = moved_b\<lparr> body_vx := 1, body_bb :=
      Some \<lparr> rect_x = 39 / 50, rect_y = 51 / 10, rect_w = 4 / 5, rect_h = 4 / 5 \<rparr> \<rparr>"

definition edge_outcome :: world where
  "edge_outcome = edge_moved\<lparr>
      arrays := (\<lambda>_. [])(2 := [2, 1]),
      c_pos := Some [(1, \<lparr> pos_x = 19 / 50, pos_y = 11 / 2, pos_f = 0 \<rparr>),
                     (2, \<lparr> pos_x = 59 / 50, pos_y = 11 / 2, pos_f = 0 \<rparr>)],
      c_body := Some [(1, pushed_a), (2, pushed_b)] \<rparr>"

text \<open>
  The shots scenario: the body of a bullet in flight, the bounding boxes of the slime and
  of the two bullets after the first loop of the physics tick, the bodies with these
  boxes, the worlds after each turn of that loop and after the pairs have been found, and
  the world after the hazard system.
\<close>

definition bullet_a :: body where
  "bullet_a = (body_lit (25 / 100) 0 GROUP_PLAYER (Some 1) 4)\<lparr> body_vx := 12 \<rparr>"

definition box_s :: rect where
  "box_s = \<lparr> rect_x = 91 / 10, rect_y = 51 / 10, rect_w = 4 / 5, rect_h = 4 / 5 \<rparr>"

definition box_1 :: rect where
  "box_1 = \<lparr> rect_x = 75 / 8, rect_y = 43 / 8, rect_w = 1 / 4, rect_h = 1 / 4 \<rparr>"

definition box_2 :: rect where
  "box_2 = \<lparr> rect_x = 183 / 40, rect_y = 43 / 8, rect_w = 1 / 4, rect_h = 1 / 4 \<rparr>"

definition slime_m :: body where
  "slime_m = slime_a\<lparr> body_e := Some 0, body_bb := Some box_s \<rparr>"

definition bullet_1 :: body where
  "bullet_1 = bullet_a\<lparr> body_e := Some 0, body_bb := Some box_1 \<rparr>"

definition bullet_2 :: body where
  "bullet_2 = bullet_a\<lparr> body_e := Some 0, body_bb := Some box_2 \<rparr>"

definition shots_moved_1 :: world where
  "shots_moved_1 = shots_scenario\<lparr>
      arrays := (\<lambda>_. []),
      c_pos := Some [(1, \<lparr> pos_x = 19 / 2, pos_y = 11 / 2, pos_f = 0 \<rparr>),
                     (2, \<lparr> pos_x = 83 / 10, pos_y = 11 / 2, pos_f = 0 \<rparr>),
                     (3, \<lparr> pos_x = 7 / 2, pos_y = 11 / 2, pos_f = 0 \<rparr>)],
      c_body := Some [(1, slime_m), (2, bullet_a), (3, bullet_a)],
      spatial_tiles := (replicate 121 [])[26 := [1]] \<rparr>"

definition shots_moved_2 :: world where
  "shots_moved_2 = shots_scenario\<lparr>
      arrays := (\<lambda>_. []),
      c_pos := Some [(1, \<lparr> pos_x = 19 / 2, pos_y = 11 / 2, pos_f = 0 \<rparr>),
                     (2, \<lparr> pos_x = 19 / 2, pos_y = 11 / 2, pos_f = 0 \<rparr>),
                     (3, \<lparr> pos_x = 7 / 2, pos_y = 11 / 2, pos_f = 0 \<rparr>)],
      c_body := Some [(1, slime_m), (2, bullet_1), (3, bullet_a)],
      spatial_tiles := (replicate 121 [])[26 := [1, 2]] \<rparr>"

definition shots_moved :: world where
  "shots_moved = shots_scenario\<lparr>
      arrays := (\<lambda>_. []),
      c_pos := Some [(1, \<lparr> pos_x = 19 / 2, pos_y = 11 / 2, pos_f = 0 \<rparr>),
                     (2, \<lparr> pos_x = 19 / 2, pos_y = 11 / 2, pos_f = 0 \<rparr>),
                     (3, \<lparr> pos_x = 47 / 10, pos_y = 11 / 2, pos_f = 0 \<rparr>)],
      c_body := Some [(1, slime_m), (2, bullet_1), (3, bullet_2)],
      spatial_tiles := (replicate 121 [])[26 := [1, 2], 24 := [3]] \<rparr>"

definition shots_contact :: world where
  "shots_contact = shots_moved\<lparr> arrays := (\<lambda>_. [])(2 := [2], 4 := [1]) \<rparr>"

definition shots_outcome :: world where
  "shots_outcome =
     remove_entity 3
       (remove_entity 2 (shots_contact\<lparr> c_mor := Some [(1, \<lparr> mor_h = 5 \<rparr>)] \<rparr>)
          \<lparr> c_mor := Some [(1, \<lparr> mor_h = 4 \<rparr>)] \<rparr>)"

text \<open>
  The nudge scenario: on the generated map of the edge scenario, whose tile (0, 4) is a
  wall, a body of the size, bounce and group of a slime at (1.45, 4.5) moves left at speed
  1. The literals 0.8 and 1.45 are the doubles nearest to them. \<open>nudge_outcome\<close> is the
  world after a tick of 0.1 in double arithmetic: the box has been pushed out of the tile
  to \<open>x = 1\<close>, and the position is the double nearest to 1.4.
\<close>

definition nudge_body :: body where
  "nudge_body = (body_lit (double (8 / 10)) 1 GROUP_ENEMY None 2)\<lparr> body_vx := - 1 \<rparr>"

definition nudge_scenario :: world where
  "nudge_scenario =
     (generate_map (MAP_GENERATORS ! 0) 21 21 initial_world)\<lparr>
        c_pos := Some [(1, \<lparr> pos_x = double (145 / 100), pos_y = 9 / 2, pos_f = 0 \<rparr>)],
        c_body := Some [(1, nudge_body)],
        next_entity_id := 2 \<rparr>"

definition nudge_box :: rect where
  "nudge_box =
     \<lparr> rect_x = 1, rect_y = 2308094809027379 / 562949953421312,
       rect_w = 3602879701896397 / 4503599627370496, rect_h = 3602879701896397 / 4503599627370496 \<rparr>"

definition nudged_body :: body where
  "nudged_body = nudge_body\<lparr> body_vx := 1, body_e := Some 1, body_bb := Some nudge_box \<rparr>"

definition nudge_outcome :: world where
  "nudge_outcome =
     nudge_scenario\<lparr>
        arrays := (\<lambda>_. []),
        c_pos := Some [(1, \<lparr> pos_x = 3152519739159347 / 2251799813685248, pos_y = 9 / 2, pos_f = 0 \<rparr>)],
        c_body := Some [(1, nudged_body)],
        spatial_tiles := (replicate 121 [])[22 := [1]] \<rparr>"

section \<open>Rectangle overlap and intersection agree\<close>



section \<open>The wall scenario, evaluated\<close>

lemma wall_scenario_fields:
  "c_body (wall_scenario b) = Some [(1, scenario_body b)]"
  "c_pos (wall_scenario b) = Some [(1, \<lparr> pos_x = 9 / 10, pos_y = 5, pos_f = 0 \<rparr>)]"
  "map_width (wall_scenario b) = 21"
  "map_height (wall_scenario b) = 21"
  "spatial_width (wall_scenario b) = 11"
  "spatial_tiles (wall_scenario b) = replicate 121 []"
  by (simp_all add: wall_scenario_def init_map_def initial_world_def Let_def
      SPATIAL_TILE_SIZE_def)

lemma wall_scenario_wall: "is_wall (map_tiles (wall_scenario b)) i \<longleftrightarrow> i = 106"
  by (auto simp add: wall_scenario_def init_map_def initial_world_def Let_def idx_def
      is_wall_def tile_get_def nth_list_update)

lemma wall_scenario_detect:
  "detect_tiles 21 (map_tiles (wall_scenario b))
     \<lparr> rect_x = 6 / 5, rect_y = 24 / 5, rect_w = 2 / 5, rect_h = 2 / 5 \<rparr>
   = [\<lparr> tile_x = 1, tile_y = 5, tile_a = 2 / 25 \<rparr>]"
  by (simp add: detect_tiles_def cells_def upto_rec_numeral wall_scenario_wall idx_def
      rect_intersection_def tile_bb_def Let_def)

lemma wall_scenario_collide:
  assumes "map_width w = 21" and "map_height w = 21"
    and "map_tiles w = map_tiles (wall_scenario b)"
  shows "collide w \<lparr> pos_x = 7 / 5, pos_y = 5, pos_f = 0 \<rparr> (scenario_body b\<lparr> body_e := Some 0 \<rparr>)
   = (\<lparr> rect_x = 6 / 5, rect_y = 23 / 5, rect_w = 2 / 5, rect_h = 2 / 5 \<rparr>,
      scenario_body b\<lparr> body_e := Some 1 \<rparr>)"
  by (simp add: collide_def assms bounding_box_def scenario_body_def
      constrain_x_def constrain_y_def tile_collisions_def wall_scenario_detect
      sort_tiles_def resolve_tile_def rect_intersection_def tile_bb_def Let_def sign_def)

lemma wall_scenario_insert:
  "insert_cells i 11
     (spatial_cells \<lparr> rect_x = 6 / 5, rect_y = 23 / 5, rect_w = 2 / 5, rect_h = 2 / 5 \<rparr>)
     (replicate 121 []) = Some ((replicate 121 [])[22 := [i]])"
  by (simp add: spatial_cells_def cells_def SPATIAL_TILE_SIZE_def upto_rec_numeral idx_def)

lemma wall_scenario_neighbors:
  "neighbor_cells 11 ((replicate 121 [])[22 := [i]])
     (spatial_cells \<lparr> rect_x = 6 / 5, rect_y = 23 / 5, rect_w = 2 / 5, rect_h = 2 / 5 \<rparr>) []
   = Some [i]"
  by (simp add: spatial_cells_def cells_def SPATIAL_TILE_SIZE_def upto_rec_numeral idx_def)

lemma move_body_steps:
  assumes "group_get (c_pos w) i = Some p"
    and "collide (w\<lparr> arrays := (arrays w)(body_c b := []) \<rparr>)
           (integrate dt (b\<lparr> body_e := Some 0 \<rparr>) p) (b\<lparr> body_e := Some 0 \<rparr>) = s"
    and "insert_spatial_bounds i (fst s)
           (store_body i (integrate dt (b\<lparr> body_e := Some 0 \<rparr>) p) s
              (w\<lparr> arrays := (arrays w)(body_c b := []) \<rparr>)) = Some w'"
  shows "move_body dt i b w = Some w'"
  using assms by (simp add: move_body_def Let_def)

lemma wall_scenario_move:
  "move_body (1 / 10) (Suc 0) (scenario_body b) (clear_spatial_map (wall_scenario b))
   = Some (wall_outcome b)"
proof (rule move_body_steps)
  show "group_get (c_pos (clear_spatial_map (wall_scenario b))) (Suc 0)
      = Some \<lparr> pos_x = 9 / 10, pos_y = 5, pos_f = 0 \<rparr>"
    by (simp add: clear_spatial_map_def wall_scenario_fields group_get_def)
  have i: "integrate (1 / 10) (scenario_body b\<lparr> body_e := Some 0 \<rparr>)
      \<lparr> pos_x = 9 / 10, pos_y = 5, pos_f = 0 \<rparr> = \<lparr> pos_x = 7 / 5, pos_y = 5, pos_f = 0 \<rparr>"
    by (simp add: integrate_def scenario_body_def)
  show "collide (clear_spatial_map (wall_scenario b)
          \<lparr> arrays := (arrays (clear_spatial_map (wall_scenario b)))
                        (body_c (scenario_body b) := []) \<rparr>)
        (integrate (1 / 10) (scenario_body b\<lparr> body_e := Some 0 \<rparr>)
           \<lparr> pos_x = 9 / 10, pos_y = 5, pos_f = 0 \<rparr>)
        (scenario_body b\<lparr> body_e := Some 0 \<rparr>)
      = (\<lparr> rect_x = 6 / 5, rect_y = 23 / 5, rect_w = 2 / 5, rect_h = 2 / 5 \<rparr>,
         scenario_body b\<lparr> body_e := Some 1 \<rparr>)"
    unfolding i
    by (rule wall_scenario_collide)
       (simp_all add: clear_spatial_map_def wall_scenario_fields)
  show "insert_spatial_bounds (Suc 0)
        (fst (\<lparr> rect_x = 6 / 5, rect_y = 23 / 5, rect_w = 2 / 5, rect_h = 2 / 5 \<rparr>,
              scenario_body b\<lparr> body_e := Some 1 \<rparr>))
        (store_body (Suc 0)
           (integrate (1 / 10) (scenario_body b\<lparr> body_e := Some 0 \<rparr>)
              \<lparr> pos_x = 9 / 10, pos_y = 5, pos_f = 0 \<rparr>)
           (\<lparr> rect_x = 6 / 5, rect_y = 23 / 5, rect_w = 2 / 5, rect_h = 2 / 5 \<rparr>,
            scenario_body b\<lparr> body_e := Some 1 \<rparr>)
           (clear_spatial_map (wall_scenario b)
              \<lparr> arrays := (arrays (clear_spatial_map (wall_scenario b)))
                            (body_c (scenario_body b) := []) \<rparr>))
      = Some (wall_outcome b)"
    unfolding i
    by (simp add: insert_spatial_bounds_def store_body_def clear_spatial_map_def
        wall_scenario_fields group_set_def wall_scenario_insert wall_outcome_def)
       (simp add: scenario_body_def moved_body_def)
qed

lemma clear_spatial_map_groups [simp]:
  "c_body (clear_spatial_map w) = c_body w" "c_pos (clear_spatial_map w) = c_pos w"
  by (simp_all add: clear_spatial_map_def)

lemma wall_scenario_physics:
  "system_physics (1 / 10) (wall_scenario b) = Some (wall_outcome b)"
proof -
  have m: "move_bodies (1 / 10) [Suc 0] (clear_spatial_map (wall_scenario b))
      = Some (wall_outcome b)"
    by (simp add: wall_scenario_fields group_get_def wall_scenario_move)
  have f: "find_pairs (wall_outcome b) [Suc 0] ([], [], arrays (wall_outcome b))
      = Some ([], [], arrays (wall_outcome b))"
    by (simp add: wall_outcome_def group_get_def moved_body_def get_spatial_neighbors_def
        wall_scenario_fields wall_scenario_neighbors check_neighbor_def)
  show ?thesis
    by (simp add: system_physics_def wall_scenario_fields m f del: move_bodies.simps find_pairs.simps)
qed

text \<open>
  C1, as the code behaves. In the wall scenario the body overlaps tile (1,5) by 0.4
  horizontally and 0.2 vertically after the move, so the tile resolution separates along
  the Y axis: for every bounce \<open>b\<close>, after one tick of 0.1 s the x-velocity is still 5, the
  y-velocity is \<open>0 * - b = 0\<close>, the body is at (1.4, 4.8) with the bounding box
  (1.2, 4.6, 0.4, 0.4), the terrain flag is set, and the bounding box does not overlap
  tile (1,5).
\<close>

theorem wall_scenario_tick:
  "body_of 1 (system_physics (1 / 10) (wall_scenario b)) = Some (moved_body b) \<and>
   pos_of 1 (system_physics (1 / 10) (wall_scenario b))
     = Some \<lparr> pos_x = 7 / 5, pos_y = 24 / 5, pos_f = 0 \<rparr> \<and>
   body_vx (moved_body b) = 5 \<and>
   \<not> rect_overlap \<lparr> rect_x = 6 / 5, rect_y = 23 / 5, rect_w = 2 / 5, rect_h = 2 / 5 \<rparr>
       (tile_bb 1 5)"
  by (simp add: wall_scenario_physics body_of_def pos_of_def wall_outcome_def group_get_def
      moved_body_def rect_overlap_def tile_bb_def)

text \<open>
  C1, as the claim states it, fails: with bounce 0 the x-velocity after the tick is not 0,
  and with bounce 1 it is not \<open>- 5\<close>.
\<close>

theorem wall_stop_counterexample:
  "map_option body_vx (body_of 1 (system_physics (1 / 10) (wall_scenario 0))) \<noteq> Some (- 0 * 5) \<and>
   map_option body_vx (body_of 1 (system_physics (1 / 10) (wall_scenario 1))) \<noteq> Some (- 1 * 5)"
  by (simp add: wall_scenario_physics body_of_def wall_outcome_def group_get_def moved_body_def)

section \<open>Reading a component after an update\<close>

lemma group_get_set: "group_get (group_set g i v) j = (if j = i then Some v else group_get g j)"
  by (cases g) (simp_all add: group_get_def group_set_def update_conv')

lemma pos_upd_get:
  "group_get (c_pos (pos_upd i f w)) j =
     (if j = i then map_option f (group_get (c_pos w) i) else group_get (c_pos w) j)"
  "c_body (pos_upd i f w) = c_body w"
  by (cases "group_get (c_pos w) i"; simp add: pos_upd_def group_get_set)+

lemma body_upd_get:
  "group_get (c_body (body_upd i f w)) j =
     (if j = i then map_option f (group_get (c_body w) i) else group_get (c_body w) j)"
  "c_pos (body_upd i f w) = c_pos w"
  by (cases "group_get (c_body w) i"; simp add: body_upd_def group_get_set)+

section \<open>Raycasting ends\<close>

text \<open>
  The loop of \<open>raycast\<close> moves the cell by one along X or along Y in each turn, always in
  the same direction on each axis, and goes on only from a cell of the map: the distance
  to the border of the map in the directions of the steps decreases.
\<close>

lemma dda_unfold:
  "dda mw mh tiles ddx ddy step_x step_y x y sdx sdy =
     (if js_less sdx sdy
      then (if in_map mw mh (x + step_x) y
            then (if tile_get tiles (y * mw + (x + step_x)) \<noteq> Some 0
                  then Some (x + step_x, y, 0, tile_get tiles (y * mw + (x + step_x)))
                  else dda mw mh tiles ddx ddy step_x step_y
                         (x + step_x) y (js_add sdx ddx) sdy)
            else Some (x + step_x, y, 0, Some 1))
      else (if in_map mw mh x (y + step_y)
            then (if tile_get tiles ((y + step_y) * mw + x) \<noteq> Some 0
                  then Some (x, y + step_y, 1, tile_get tiles ((y + step_y) * mw + x))
                  else dda mw mh tiles ddx ddy step_x step_y
                         x (y + step_y) sdx (js_add sdy ddy))
            else Some (x, y + step_y, 1, Some 1)))"
  by (subst dda.simps) (simp add: in_map_def)

lemma dda_walk:
  assumes sx: "step_x = 1 \<or> step_x = - 1" and sy: "step_y = 1 \<or> step_y = - 1"
  shows "\<exists>r path. dda mw mh tiles ddx ddy step_x step_y x y sdx sdy = Some r \<and>
             dda_result mw mh tiles r \<and>
             ray_walk mw mh tiles step_x step_y (x, y) path \<and>
             last path = (fst r, fst (snd r))"
proof (induction "dda_measure mw mh step_x step_y x y" arbitrary: x y sdx sdy
       rule: less_induct)
  case less
  show ?case
  proof (cases "js_less sdx sdy")
    case True
    show ?thesis
    proof (cases "in_map mw mh (x + step_x) y")
      case False
      have "dda mw mh tiles ddx ddy step_x step_y x y sdx sdy = Some (x + step_x, y, 0, Some 1)"
        using True False by (subst dda_unfold) simp
      moreover have "dda_result mw mh tiles (x + step_x, y, 0, Some 1)"
        using False by (simp add: dda_result_def)
      moreover have "ray_walk mw mh tiles step_x step_y (x, y) [(x + step_x, y)]"
        by simp
      ultimately show ?thesis
        by (intro exI[of _ "(x + step_x, y, 0, Some 1)"] exI[of _ "[(x + step_x, y)]"]) simp
    next
      case inside: True
      show ?thesis
      proof (cases "tile_get tiles (y * mw + (x + step_x)) = Some 0")
        case False
        let ?r = "(x + step_x, y, 0::nat, tile_get tiles (y * mw + (x + step_x)))"
        have "dda mw mh tiles ddx ddy step_x step_y x y sdx sdy = Some ?r"
          using True inside False by (subst dda_unfold) simp
        moreover have "dda_result mw mh tiles ?r"
          using inside False by (simp add: dda_result_def)
        ultimately show ?thesis
          by (intro exI[of _ ?r] exI[of _ "[(x + step_x, y)]"]) simp
      next
        case empty: True
        have "dda_measure mw mh step_x step_y (x + step_x) y
            < dda_measure mw mh step_x step_y x y"
          using inside sx by (auto simp: dda_measure_def in_map_def)
        from less[OF this] obtain r path where
          r: "dda mw mh tiles ddx ddy step_x step_y (x + step_x) y (js_add sdx ddx) sdy = Some r"
          "dda_result mw mh tiles r"
          "ray_walk mw mh tiles step_x step_y (x + step_x, y) path"
          "last path = (fst r, fst (snd r))"
          by blast
        from r(3) have ne: "path \<noteq> []" by (cases path) simp_all
        have "dda mw mh tiles ddx ddy step_x step_y x y sdx sdy = Some r"
          using True inside empty r(1) by (subst dda_unfold) simp
        moreover have "ray_walk mw mh tiles step_x step_y (x, y) ((x + step_x, y) # path)"
          using inside empty r(3) by simp
        moreover have "last ((x + step_x, y) # path) = (fst r, fst (snd r))"
          using ne r(4) by simp
        ultimately show ?thesis
          using r(2) by blast
      qed
    qed
  next
    case no: False
    show ?thesis
    proof (cases "in_map mw mh x (y + step_y)")
      case False
      have "dda mw mh tiles ddx ddy step_x step_y x y sdx sdy = Some (x, y + step_y, 1, Some 1)"
        using no False by (subst dda_unfold) simp
      moreover have "dda_result mw mh tiles (x, y + step_y, 1, Some 1)"
        using False by (simp add: dda_result_def)
      ultimately show ?thesis
        by (intro exI[of _ "(x, y + step_y, 1, Some 1)"] exI[of _ "[(x, y + step_y)]"]) simp
    next
      case inside: True
      show ?thesis
      proof (cases "tile_get tiles ((y + step_y) * mw + x) = Some 0")
        case False
        let ?r = "(x, y + step_y, 1::nat, tile_get tiles ((y + step_y) * mw + x))"
        have "dda mw mh tiles ddx ddy step_x step_y x y sdx sdy = Some ?r"
          using no inside False by (subst dda_unfold) simp
        moreover have "dda_result mw mh tiles ?r"
          using inside False by (simp add: dda_result_def)
        ultimately show ?thesis
          by (intro exI[of _ ?r] exI[of _ "[(x, y + step_y)]"]) simp
      next
        case empty: True
        have "dda_measure mw mh step_x step_y x (y + step_y)
            < dda_measure mw mh step_x step_y x y"
          using inside sy by (auto simp: dda_measure_def in_map_def)
        from less[OF this] obtain r path where
          r: "dda mw mh tiles ddx ddy step_x step_y x (y + step_y) sdx (js_add sdy ddy) = Some r"
          "dda_result mw mh tiles r"
          "ray_walk mw mh tiles step_x step_y (x, y + step_y) path"
          "last path = (fst r, fst (snd r))"
          by blast
        from r(3) have ne: "path \<noteq> []" by (cases path) simp_all
        have "dda mw mh tiles ddx ddy step_x step_y x y sdx sdy = Some r"
          using no inside empty r(1) by (subst dda_unfold) simp
        moreover have "ray_walk mw mh tiles step_x step_y (x, y) ((x, y + step_y) # path)"
          using inside empty r(3) by simp
        moreover have "last ((x, y + step_y) # path) = (fst r, fst (snd r))"
          using ne r(4) by simp
        ultimately show ?thesis
          using r(2) by blast
      qed
    qed
  qed
qed

lemma wall_scenario_map:
  "map_width (wall_scenario b) = 21" "map_height (wall_scenario b) = 21"
  "tile_get (map_tiles (wall_scenario b)) i =
     (if 0 \<le> i \<and> i < 441 then Some (if i = 106 then 1 else 0) else None)"
  by (auto simp add: wall_scenario_def init_map_def initial_world_def Let_def idx_def
      tile_get_def nth_list_update)

text \<open>
  Two rays in the map of the wall scenario: a ray along X from (0.5, 5.5) hits the wall
  tile (1,5) at distance 0.5 on an X side; a ray of direction (0, 0) from (0.5, 19.5) has
  \<open>NaN\<close> side distances, steps along Y, leaves the map after two steps and reports the
  implicit wall.
\<close>

lemma raycast_examples:
  "raycast (wall_scenario b) (1 / 2) (11 / 2) 1 0
     = Some \<lparr> res_d = Fin (1 / 2), res_s = 0, res_v = Some 1 \<rparr>"
  "raycast (wall_scenario b) (1 / 2) (39 / 2) 0 0
     = Some \<lparr> res_d = PosInf, res_s = 1, res_v = Some 1 \<rparr>"
  by (simp_all add: raycast_def delta_dist_def step_of_def side_dist_def js_div_def
      inf_times_def wall_scenario_map dda_unfold in_map_def hit_result_def)

text \<open>
  C8. For every map, origin and direction, also with a zero component, \<open>raycast\<close> returns:
  its loop ends, in a cell \<open>(x, y)\<close>. The cells the loop has entered form a walk from the
  cell of the origin to \<open>(x, y)\<close>, one step along X or along Y at a time, and every cell
  entered before \<open>(x, y)\<close> is a cell of the map whose tile is 0. When \<open>(x, y)\<close> is a cell of
  the map, its tile is not 0 and is the value \<open>v\<close> of the result; when it is outside the
  map, \<open>v\<close> is 1, the implicit wall.
\<close>

theorem raycast_terminates:
  "\<exists>r x y path.
     raycast w ox oy dx dy = Some r \<and>
     dda (map_width w) (map_height w) (map_tiles w)
       (delta_dist dx dy) (delta_dist dy dx) (step_of dx) (step_of dy) \<lfloor>ox\<rfloor> \<lfloor>oy\<rfloor>
       (side_dist ox dx (delta_dist dx dy)) (side_dist oy dy (delta_dist dy dx))
       = Some (x, y, res_s r, res_v r) \<and>
     ray_walk (map_width w) (map_height w) (map_tiles w) (step_of dx) (step_of dy)
       (\<lfloor>ox\<rfloor>, \<lfloor>oy\<rfloor>) path \<and>
     last path = (x, y) \<and>
     (if in_map (map_width w) (map_height w) x y
      then res_v r = tile_get (map_tiles w) (y * map_width w + x) \<and> res_v r \<noteq> Some 0
      else res_v r = Some 1)"
proof -
  have sx: "step_of dx = 1 \<or> step_of dx = - 1" and sy: "step_of dy = 1 \<or> step_of dy = - 1"
    by (simp_all add: step_of_def)
  from dda_walk[OF sx sy] obtain r path where
    r: "dda (map_width w) (map_height w) (map_tiles w)
          (delta_dist dx dy) (delta_dist dy dx) (step_of dx) (step_of dy) \<lfloor>ox\<rfloor> \<lfloor>oy\<rfloor>
          (side_dist ox dx (delta_dist dx dy)) (side_dist oy dy (delta_dist dy dx)) = Some r"
    and res: "dda_result (map_width w) (map_height w) (map_tiles w) r"
    and walk: "ray_walk (map_width w) (map_height w) (map_tiles w) (step_of dx) (step_of dy)
       (\<lfloor>ox\<rfloor>, \<lfloor>oy\<rfloor>) path"
    and lst: "last path = (fst r, fst (snd r))"
    by blast
  obtain x y s v where rr: "r = (x, y, s, v)" by (cases r)
  have 1: "raycast w ox oy dx dy = Some (hit_result ox oy dx dy r)"
    by (simp add: raycast_def r)
  have 2: "res_v (hit_result ox oy dx dy r) = v" "res_s (hit_result ox oy dx dy r) = s"
    by (simp_all add: hit_result_def rr)
  have 3: "if in_map (map_width w) (map_height w) x y
      then v = tile_get (map_tiles w) (y * map_width w + x) \<and> v \<noteq> Some 0
      else v = Some 1"
    using res by (auto simp: rr dda_result_def)
  show ?thesis
    apply (rule exI[of _ "hit_result ox oy dx dy r"])
    apply (rule exI[of _ x])
    apply (rule exI[of _ y])
    apply (rule exI[of _ path])
    using 1 2 3 walk lst r by (auto simp add: rr hit_result_def split: if_splits)
qed

theorem raycast_terminates_witness:
  "\<exists>path.
     raycast (wall_scenario 0) (1 / 2) (39 / 2) 0 0
       = Some \<lparr> res_d = PosInf, res_s = 1, res_v = Some 1 \<rparr> \<and>
     ray_walk 21 21 (map_tiles (wall_scenario 0)) 1 1 (0, 19) path \<and>
     last path = (0, 21) \<and> \<not> in_map 21 21 0 21"
proof -
  from raycast_terminates[of "wall_scenario 0" "1 / 2" "39 / 2" 0 0] obtain r x y path where
    r: "raycast (wall_scenario 0) (1 / 2) (39 / 2) 0 0 = Some r"
    and d: "dda (map_width (wall_scenario 0)) (map_height (wall_scenario 0))
       (map_tiles (wall_scenario 0))
       (delta_dist 0 0) (delta_dist 0 0) (step_of 0) (step_of 0) \<lfloor>1 / 2 :: real\<rfloor> \<lfloor>39 / 2 :: real\<rfloor>
       (side_dist (1 / 2) 0 (delta_dist 0 0)) (side_dist (39 / 2) 0 (delta_dist 0 0))
       = Some (x, y, res_s r, res_v r)"
    and walk: "ray_walk (map_width (wall_scenario 0)) (map_height (wall_scenario 0))
       (map_tiles (wall_scenario 0)) (step_of 0) (step_of 0)
       (\<lfloor>1 / 2 :: real\<rfloor>, \<lfloor>39 / 2 :: real\<rfloor>) path"
    and lst: "last path = (x, y)"
    by blast
  from r have rr: "r = \<lparr> res_d = PosInf, res_s = 1, res_v = Some 1 \<rparr>"
    by (simp add: raycast_examples)
  from d have "x = 0 \<and> y = 21"
    by (simp add: delta_dist_def step_of_def side_dist_def js_div_def inf_times_def
        wall_scenario_map dda_unfold in_map_def)
  with lst have "last path = (0, 21)" by simp
  moreover from walk have "ray_walk 21 21 (map_tiles (wall_scenario 0)) 1 1 (0, 19) path"
    by (simp add: wall_scenario_map step_of_def)
  moreover have "\<not> in_map 21 21 0 21"
    by (simp add: in_map_def)
  ultimately show ?thesis
    using r rr by blast
qed

section \<open>Oversized frames\<close>

text \<open>
  C9. When the measured time step of a frame is at least 0.2 s, \<open>frame\<close> runs no system,
  whatever the list of systems is: the world after the frame is the world before it with
  \<open>last_frame\<close> set to the time of the frame, so components, spatial map, camera and
  game state are unchanged.
\<close>

theorem frame_skips_oversized:
  assumes "2 / 10 \<le> (time - last_frame w) / 1000"
  shows "frame systems time w = Some (w\<lparr> last_frame := time \<rparr>)"
  using assms by (simp add: frame_def Let_def)

theorem frame_skips_oversized_witness:
  "2 / 10 \<le> (250 - last_frame initial_world) / 1000 \<and>
   frame [system_physics, \<lambda>dt. system_hazard] 250 initial_world
     = Some (initial_world\<lparr> last_frame := 250 \<rparr>)"
proof -
  have h: "2 / 10 \<le> (250 - last_frame initial_world) / 1000"
    by (simp add: initial_world_def)
  from frame_skips_oversized[OF h] h show ?thesis by simp
qed

section \<open>The pair hash\<close>

text \<open>
  \<open>hash_ids\<close> is \<open>max(a, b) * 100 + min(a, b)\<close>, does not depend on the order of its
  arguments, and is injective on unordered pairs of ids below 100.
\<close>

lemma hash_ids_sym: "hash_ids a b = hash_ids b a"
  by (simp add: hash_ids_def idx_def)

lemma hash_ids_max_min: "hash_ids a b = int (max a b) * 100 + int (min a b)"
  by (simp add: hash_ids_def idx_def max_def min_def)

lemma hash_ids_inj_small:
  assumes "a < 100" "b < 100" "c < 100" "d < 100" "hash_ids a b = hash_ids c d"
  shows "{a, b} = {c, d}"
proof -
  have e: "int (max a b) * 100 + int (min a b) = int (max c d) * 100 + int (min c d)"
    using assms(5) by (simp add: hash_ids_max_min)
  have l: "min a b < 100" "min c d < 100"
    using assms(1-4) by auto
  have "(int (max a b) * 100 + int (min a b)) div 100 = int (max a b)"
    using l(1) by simp
  moreover have "(int (max c d) * 100 + int (min c d)) div 100 = int (max c d)"
    using l(2) by simp
  ultimately have m: "max a b = max c d"
    using e by simp
  with e have n: "min a b = min c d"
    by simp
  have "{a, b} = {max a b, min a b}" "{c, d} = {max c d, min c d}"
    by (auto simp: max_def min_def)
  with m n show ?thesis by simp
qed

text \<open>
  An evaluation of a pair in the narrow phase appends the hash of the pair to \<open>checked\<close>,
  and happens only when the hash is not there yet. So \<open>checked\<close> never holds a hash
  twice: no hash, and so no unordered pair, is evaluated twice in a tick.
\<close>

lemma check_neighbor_checked:
  assumes "check_neighbor w i b n s = Some s'"
  shows "fst (snd s') = fst (snd s) \<or>
         (hash_ids i n \<notin> set (fst (snd s)) \<and> fst (snd s') = fst (snd s) @ [hash_ids i n])"
proof -
  obtain pairs checked arrs where s: "s = (pairs, checked, arrs)" by (cases s)
  show ?thesis
  proof (cases "n = i")
    case True
    with assms have "s' = s" by (simp add: s check_neighbor_def)
    then show ?thesis by simp
  next
    case ni: False
    show ?thesis
    proof (cases "hash_ids i n \<in> set checked")
      case True
      with assms ni have "s' = s" by (simp add: s check_neighbor_def)
      then show ?thesis by simp
    next
      case False
      with ni have f: "n \<noteq> i" "hash_ids i n \<notin> set checked" by simp_all
    from assms f obtain nb where nb: "group_get (c_body w) n = Some nb"
      by (cases "group_get (c_body w) n") (simp_all add: s check_neighbor_def)
    have "fst (snd s') = checked @ [hash_ids i n]"
    proof (cases "hash_ids (body_g b) (body_g nb) \<in> set COLLISION_GROUPS")
      case False
      with assms f nb show ?thesis by (auto simp: s check_neighbor_def)
    next
      case True
      from assms f nb True obtain bb nbb where
        "body_bb b = Some bb" "body_bb nb = Some nbb"
        by (cases "body_bb b"; cases "body_bb nb") (simp_all add: s check_neighbor_def)
      with assms f nb True show ?thesis
        by (cases "rect_overlap bb nbb") (auto simp: s check_neighbor_def Let_def)
    qed
      with f show ?thesis by (simp add: s)
    qed
  qed
qed

lemma check_neighbors_distinct:
  "check_neighbors w i b ns s = Some s' \<Longrightarrow> distinct (fst (snd s)) \<Longrightarrow>
     distinct (fst (snd s'))"
proof (induction ns arbitrary: s)
  case Nil
  then show ?case by simp
next
  case (Cons n ns)
  then obtain s1 where 1: "check_neighbor w i b n s = Some s1"
    and 2: "check_neighbors w i b ns s1 = Some s'"
    by (cases "check_neighbor w i b n s") simp_all
  from check_neighbor_checked[OF 1] Cons.prems(2) have "distinct (fst (snd s1))"
    by auto
  then show ?case by (rule Cons.IH[OF 2])
qed

lemma find_pairs_distinct:
  "find_pairs w ids s = Some s' \<Longrightarrow> distinct (fst (snd s)) \<Longrightarrow> distinct (fst (snd s'))"
proof (induction ids arbitrary: s)
  case Nil
  then show ?case by simp
next
  case (Cons i ids)
  show ?case
  proof (cases "group_get (c_body w) i")
    case None
    with Cons.prems(1) have "find_pairs w ids s = Some s'" by simp
    from Cons.IH[OF this Cons.prems(2)] show ?thesis .
  next
    case (Some b)
    from Cons.prems(1) Some obtain bb where bb: "body_bb b = Some bb"
      by (cases "body_bb b") simp_all
    from Cons.prems(1) Some bb obtain ns where ns: "get_spatial_neighbors bb w = Some ns"
      by (cases "get_spatial_neighbors bb w") simp_all
    from Cons.prems(1) Some bb ns obtain s1 where 1: "check_neighbors w i b ns s = Some s1"
      and 2: "find_pairs w ids s1 = Some s'"
      by (cases "check_neighbors w i b ns s") simp_all
    from check_neighbors_distinct[OF 1 Cons.prems(2)] show ?thesis by (rule Cons.IH[OF 2])
  qed
qed

text \<open>
  C3, at ids from 100 on, which \<open>next_entity_id++\<close> reaches: the pairs {1, 103} and
  {101, 102} have the same hash, so once the pair {1, 103} is in \<open>checked\<close> the narrow
  phase skips the pair {101, 102} without evaluating it, whatever the two bodies are.
\<close>

theorem hash_ids_collision:
  "hash_ids 1 103 = hash_ids 101 102 \<and>
   check_neighbor w 101 b 102 (pairs, [hash_ids 1 103], arrs)
     = Some (pairs, [hash_ids 1 103], arrs)"
  by (simp add: hash_ids_def idx_def check_neighbor_def)

section \<open>Spawning with a zero override\<close>

lemma add_from_get:
  "group_get (add_from d i g) i = (case d of None \<Rightarrow> group_get g i | Some v \<Rightarrow> Some v)"
  by (cases d) (simp_all add: add_from_def group_get_set)

lemma js_or_cases: "js_or a d = (if a = None \<or> a = Some 0 then d else the a)"
  by (cases a) (simp_all add: js_or_def)

text \<open>
  C4. For every prefab with a \<open>pos\<close> component, the position of the spawned entity takes
  each of \<open>x\<close>, \<open>y\<close> and \<open>facing\<close> from the argument only when the argument is given and
  is not 0, and from the prefab otherwise; a call with 0 for a coordinate or the facing
  gives the same id and the same world as the call that leaves that argument out.
\<close>

theorem spawn_falsy_zero:
  assumes "prefabs key = Some p" and "p_pos p = Some q"
  shows "group_get (c_pos (snd (spawn_prefab_entity prefabs key x y facing w)))
             (next_entity_id w)
           = Some \<lparr> pos_x = (if x = None \<or> x = Some 0 then pos_x q else the x),
                    pos_y = (if y = None \<or> y = Some 0 then pos_y q else the y),
                    pos_f = (if facing = None \<or> facing = Some 0 then pos_f q else the facing) \<rparr>
         \<and> spawn_prefab_entity prefabs key (Some 0) y facing w
             = spawn_prefab_entity prefabs key None y facing w
         \<and> spawn_prefab_entity prefabs key x (Some 0) facing w
             = spawn_prefab_entity prefabs key x None facing w
         \<and> spawn_prefab_entity prefabs key x y (Some 0) w
             = spawn_prefab_entity prefabs key x y None w"
proof -
  have "group_get (c_pos (snd (spawn_prefab_entity prefabs key x y facing w)))
             (next_entity_id w)
           = Some \<lparr> pos_x = js_or x (pos_x q), pos_y = js_or y (pos_y q),
                    pos_f = js_or facing (pos_f q) \<rparr>"
    by (simp add: spawn_prefab_entity_def Let_def assms add_from_get group_get_set)
  moreover have "spawn_prefab_entity prefabs key (Some 0) y facing w
             = spawn_prefab_entity prefabs key None y facing w"
    and "spawn_prefab_entity prefabs key x (Some 0) facing w
             = spawn_prefab_entity prefabs key x None facing w"
    and "spawn_prefab_entity prefabs key x y (Some 0) w
             = spawn_prefab_entity prefabs key x y None w"
    by (simp_all add: spawn_prefab_entity_def js_or_def Let_def assms add_from_get)
  ultimately show ?thesis by (simp add: js_or_cases)
qed

theorem spawn_falsy_zero_witness:
  "PREFABS ''slime'' = Some (the (PREFABS ''slime'')) \<and>
   p_pos (the (PREFABS ''slime'')) = Some origin \<and>
   group_get (c_pos (snd (spawn_prefab_entity PREFABS ''slime'' (Some 0) (Some (11 / 2)) (Some 0)
                            initial_world))) 1
     = Some \<lparr> pos_x = 0, pos_y = 11 / 2, pos_f = 0 \<rparr>"
proof -
  have p: "PREFABS ''slime'' = Some (the (PREFABS ''slime''))"
    by (simp add: PREFABS_def)
  have q: "p_pos (the (PREFABS ''slime'')) = Some origin"
    by (simp add: PREFABS_def no_components_def)
  have n: "next_entity_id initial_world = 1"
    by (simp add: initial_world_def)
  have "group_get (c_pos (snd (spawn_prefab_entity PREFABS ''slime'' (Some 0) (Some (11 / 2))
                            (Some 0) initial_world))) 1
     = Some \<lparr> pos_x = 0, pos_y = 11 / 2, pos_f = 0 \<rparr>"
    using spawn_falsy_zero[of PREFABS "''slime''" "the (PREFABS ''slime'')" origin
      "Some 0" "Some (11 / 2)" "Some 0" initial_world, OF p q, THEN conjunct1]
    by (simp add: n origin_def)
  with p q show ?thesis by blast
qed

section \<open>The first matching transition\<close>

lemma run_hook_spec: "run_hook h i w = spec_hook h i w"
  by (simp add: run_hook_def spec_hook_def)

lemma spec_matches_iff:
  "beh_s bh = Some s \<Longrightarrow>
   (Some (tr_f tr) = beh_s bh \<and> condition_holds tr i bh w) = spec_matches s (beh_e bh) i w tr"
  by (cases "tr_d tr"; cases "tr_c tr") (auto simp add: condition_holds_def spec_matches_def)

lemma eval_transitions_first:
  assumes "beh_s bh = Some s"
  shows "eval_transitions states ts i bh w =
     (case find (spec_matches s (beh_e bh) i w) ts of
        None \<Rightarrow> Some (bh, w)
      | Some tr \<Rightarrow> fire states tr i bh w)"
proof (induction ts)
  case Nil
  show ?case by simp
next
  case (Cons tr ts)
  show ?case
  proof (cases "spec_matches s (beh_e bh) i w tr")
    case True
    with spec_matches_iff[OF assms, of tr i w]
    have "Some (tr_f tr) = beh_s bh" "condition_holds tr i bh w" by simp_all
    with True show ?thesis by simp
  next
    case False
    with spec_matches_iff[OF assms, of tr i w]
    have "\<not> (Some (tr_f tr) = beh_s bh \<and> condition_holds tr i bh w)" by simp
    with False Cons show ?thesis by auto
  qed
qed

lemma behavior_entity_turn:
  "behavior_entity states behaviors dt i bh w =
     (case behaviors (beh_m bh) of
        None \<Rightarrow> None
      | Some model \<Rightarrow> spec_turn states model dt i bh w)"
proof (cases "behaviors (beh_m bh)")
  case None
  then show ?thesis by (simp add: behavior_entity_def)
next
  case (Some model)
  have scan: "(case (case m_t model of
                   None \<Rightarrow> Some (b\<lparr> beh_e := beh_e b + dt \<rparr>, v)
                 | Some ts \<Rightarrow> eval_transitions states ts i (b\<lparr> beh_e := beh_e b + dt \<rparr>) v) of
            None \<Rightarrow> None
          | Some (bh2, w2) \<Rightarrow> run_update states dt i bh2 w2) =
        Option.bind
            (case spec_first_match model s (e + dt) i v of
               None \<Rightarrow> Some (s, e + dt, v)
             | Some tr \<Rightarrow>
                 Option.bind (spec_hook (st_x (states s)) i v)
                   (\<lambda>w1. map_option (\<lambda>w2. (tr_t tr, 0, w2))
                            (spec_hook (st_e (states (tr_t tr))) i w1)))
            (\<lambda>(s', e', w2).
               map_option (Pair (b0\<lparr> beh_s := Some s', beh_e := e' \<rparr>))
                 (case st_u (states s') of None \<Rightarrow> Some w2 | Some u \<Rightarrow> u i dt w2))"
    if b: "beh_s b = Some s" and e: "beh_e b = e" and b0: "beh_m b0 = beh_m b"
    for b b0 :: beh and s e v
  proof -
    have beq: "b0\<lparr> beh_s := Some s', beh_e := x \<rparr> = b\<lparr> beh_s := Some s', beh_e := x \<rparr>" for x s'
      using b0 by (cases b; cases b0) simp
    have beq': "b\<lparr> beh_s := Some s, beh_e := x \<rparr> = b\<lparr> beh_e := x \<rparr>" for x
      using b by (cases b) simp
    show ?thesis
    proof (cases "m_t model")
      case None
      show ?thesis
        by (simp add: None spec_first_match_def run_update_def b e beq beq' split: option.splits)
    next
      case ts: (Some ts)
      have s: "beh_s (b\<lparr> beh_e := e + dt \<rparr>) = Some s"
        using b by simp
      have ev: "eval_transitions states ts i (b\<lparr> beh_e := e + dt \<rparr>) v =
          (case find (spec_matches s (e + dt) i v) ts of
             None \<Rightarrow> Some (b\<lparr> beh_e := e + dt \<rparr>, v)
           | Some tr \<Rightarrow> fire states tr i (b\<lparr> beh_e := e + dt \<rparr>) v)"
        using eval_transitions_first[OF s, of states ts i v] by simp
      show ?thesis
      proof (cases "find (spec_matches s (e + dt) i v) ts")
        case None
        then show ?thesis
          by (simp add: ts spec_first_match_def e ev run_update_def b beq beq' split: option.splits)
      next
        case (Some tr)
        then have f: "tr_f tr = s"
          by (auto simp: find_Some_iff spec_matches_def)
        with Some show ?thesis
          by (simp add: ts spec_first_match_def e ev run_update_def fire_def beq
                run_hook_spec split: option.splits)
      qed
    qed
  qed
  show ?thesis
  proof (cases "beh_s bh")
    case s: (Some s)
    have "enter_initial states model i bh w = Some (bh, w)"
      by (simp add: enter_initial_def s)
    then show ?thesis
      using scan[OF s refl refl, of w] by (simp add: behavior_entity_def Some spec_turn_def s)
  next
    case None
    show ?thesis
    proof (cases "spec_hook (st_e (states (m_i model))) i w")
      case no: None
      then show ?thesis
        by (simp add: behavior_entity_def Some spec_turn_def None enter_initial_def
            run_hook_spec)
    next
      case w0: (Some w0)
      let ?b = "bh\<lparr> beh_s := Some (m_i model), beh_e := 0 \<rparr>"
      have e: "enter_initial states model i bh w = Some (?b, w0)"
        by (simp add: enter_initial_def None run_hook_spec w0)
      have 1: "beh_s ?b = Some (m_i model)" and 2: "beh_e ?b = 0" and 3: "beh_m bh = beh_m ?b"
        by simp_all
      from scan[OF 1 2 3, of w0] show ?thesis
        by (simp add: behavior_entity_def Some spec_turn_def None e w0)
    qed
  qed
qed

lemma fold_bind_None: "fold (\<lambda>i r. Option.bind r (f i)) ids None = None"
  by (induction ids) simp_all

lemma behavior_loop_fold:
  "behavior_loop states behaviors dt ids w =
     fold (\<lambda>i r. Option.bind r (spec_tick states behaviors dt i)) ids (Some w)"
proof (induction ids arbitrary: w)
  case Nil
  show ?case by simp
next
  case (Cons i ids)
  show ?case
  proof (cases "group_get (c_beh w) i")
    case None
    then show ?thesis
      by (simp add: Cons spec_tick_def)
  next
    case (Some bh)
    show ?thesis
    proof (cases "behaviors (beh_m bh)")
      case None
      then show ?thesis
        by (simp add: Some spec_tick_def behavior_entity_turn fold_bind_None)
    next
      case model: (Some model)
      show ?thesis
      proof (cases "spec_turn states model dt i bh w")
        case None
        then show ?thesis
          by (simp add: Some model spec_tick_def behavior_entity_turn fold_bind_None)
      next
        case t: (Some t)
        obtain bh' w' where t': "t = (bh', w')" by (cases t)
        show ?thesis
          by (cases "group_get (c_beh w') i")
             (simp_all add: Some model spec_tick_def behavior_entity_turn t t' Cons
                group_store_def)
      qed
    qed
  qed
qed

text \<open>
  C5. A tick of \<open>system_behavior\<close> is, for each entity of the \<open>beh\<close> group in turn, the tick
  that the specification describes: in the turn of an entity (after the entry into the
  initial state, if it has no state yet, and the advance of the elapsed time) the rules
  are scanned in declaration order, the first rule whose source is the current state and
  whose duration has elapsed or whose predicate holds fires (exit hook of the old state,
  new state, elapsed time 0, enter hook of the new state) and no later rule has any
  effect; so at most one rule fires per entity and tick. A tick that throws is \<open>None\<close> on
  both sides.
\<close>

theorem behavior_first_match:
  "system_behavior states behaviors dt w =
     (case c_beh w of
        None \<Rightarrow> Some w
      | Some entries \<Rightarrow>
          fold (\<lambda>i r. Option.bind r (spec_tick states behaviors dt i))
            (map fst entries) (Some w))"
  by (simp add: system_behavior_def behavior_loop_fold split: option.splits)

text \<open>
  One tick of 0.1 s with hooks that count in \<open>game_timer\<close>. Entity 7 reaches 3 s of
  wandering: the timed rule from wander to wander fires (exit, enter), and the elapsed
  time is 0 again. Entity 8 has its first tick: it enters wander, and in the same turn the
  rule from wander to chase fires, since the player is nearer than 5.
\<close>

theorem behavior_first_match_witness:
  "system_behavior counting_states BEHAVIORS (1 / 10) behavior_scenario =
     Some (behavior_scenario\<lparr>
       c_beh := Some [(7, \<lparr> beh_m = ''slime'', beh_s = Some state_wander, beh_e = 0 \<rparr>),
                      (8, \<lparr> beh_m = ''slime'', beh_s = Some state_chase, beh_e = 0 \<rparr>)],
       game_timer := 10 \<rparr>)"
proof -
  have m: "BEHAVIORS ''slime'' = Some \<lparr> m_i = state_wander, m_t = Some
       [ timed state_wander 3 state_wander,
         conditional state_wander (\<lambda>i w. js_less (player_distance i w) (Fin 5)) state_chase,
         timed state_chase (2 / 10) state_chase,
         conditional state_chase (\<lambda>i w. js_less (Fin 9) (player_distance i w)) state_wander,
         conditional state_chase (\<lambda>i w. js_less (player_distance i w) (Fin 1))
           state_attack_windup,
         timed state_attack_windup (5 / 10) state_attack,
         timed state_attack (5 / 10) state_idle,
         timed state_idle (5 / 10) state_chase ] \<rparr>"
    by (simp add: BEHAVIORS_def)
  have d: "player_distance 8 (w\<lparr> c_pos := Some [(0, p), (8, p)], player_id := 0 \<rparr>) = Fin 0" for w p
    by (simp add: player_distance_def entity_distance_def group_get_def distance_def)
  show ?thesis
    apply (subst behavior_first_match)
    apply (simp add: behavior_scenario_def initial_world_def wandering_def spec_tick_def
        spec_turn_def spec_first_match_def spec_matches_def spec_hook_def m timed_def conditional_def
        counting_states_def group_get_def group_set_def player_distance_def entity_distance_def
        distance_def)
    done
qed

section \<open>One hazard turn\<close>

lemma group_get_delete:
  "group_get (group_delete g i) j = (if j = i then None else group_get g j)"
  by (cases g) (simp_all add: group_get_def group_delete_def delete_conv')

lemma despawned_remove_entity: "despawned i (remove_entity i w)"
  by (simp add: despawned_def remove_entity_def group_get_delete)

lemma remove_entity_other:
  "j \<noteq> i \<Longrightarrow> group_get (c_body (remove_entity i w)) j = group_get (c_body w) j"
  "j \<noteq> i \<Longrightarrow> group_get (c_haz (remove_entity i w)) j = group_get (c_haz w) j"
  "j \<noteq> i \<Longrightarrow> group_get (c_mor (remove_entity i w)) j = group_get (c_mor w) j"
  "group_get (c_mor (remove_entity i w)) i = None"
  by (simp_all add: remove_entity_def group_get_delete)

lemma hit_mor:
  "group_get (c_mor (hit c hazard w)) j =
     (if j = c then map_option (damage (haz_d hazard)) (group_get (c_mor w) c)
      else group_get (c_mor w) j)"
  by (cases "group_get (c_mor w) c") (simp_all add: hit_def group_get_set damage_def)

lemma hit_rest:
  "c_body (hit c hazard w) = c_body w" "c_haz (hit c hazard w) = c_haz w"
  "hit c hazard w = w\<lparr> c_mor := c_mor (hit c hazard w) \<rparr>"
  by (cases "group_get (c_mor w) c"; simp add: hit_def)+

lemma hazard_entity_eq:
  assumes "group_get (c_body w) i = Some b"
  shows "hazard_entity i hazard w =
     Some (let w1 = (if arrays w (body_c b) \<noteq> [] then hit (hd (arrays w (body_c b))) hazard w
                     else w)
           in if haz_o hazard = 1 \<and> (body_e b = Some 1 \<or> arrays w (body_c b) \<noteq> [])
              then remove_entity i w1 else w1)"
  using assms by (simp add: hazard_entity_def Let_def hit_def)

text \<open>
  The turn of a hazard entity \<open>i\<close> that has a body: the entity is despawned exactly when the
  hazard is one-shot and its body touched terrain or the array \<open>body.c\<close> is not empty. For
  every other entity, the hit points change only for the first element of that array,
  when there is one and it is mortal, by the damage of the hazard; bodies and hazards of
  other entities are untouched. When the hazard stays, nothing but the \<open>mor\<close> group has
  changed.
\<close>

lemma hazard_entity_turn:
  assumes "group_get (c_body w) i = Some b"
  shows "\<exists>w'. hazard_entity i hazard w = Some w' \<and>
     (despawned i w' \<longleftrightarrow>
        haz_o hazard = 1 \<and> (body_e b = Some 1 \<or> arrays w (body_c b) \<noteq> [])) \<and>
     (\<forall>j. j \<noteq> i \<longrightarrow>
        group_get (c_mor w') j =
          (if arrays w (body_c b) \<noteq> [] \<and> j = hd (arrays w (body_c b))
           then map_option (damage (haz_d hazard)) (group_get (c_mor w) j)
           else group_get (c_mor w) j) \<and>
        group_get (c_body w') j = group_get (c_body w) j \<and>
        group_get (c_haz w') j = group_get (c_haz w) j) \<and>
     (\<not> despawned i w' \<longrightarrow>
        w' = w\<lparr> c_mor := c_mor w' \<rparr> \<and>
        group_get (c_mor w') i =
          (if arrays w (body_c b) \<noteq> [] \<and> i = hd (arrays w (body_c b))
           then map_option (damage (haz_d hazard)) (group_get (c_mor w) i)
           else group_get (c_mor w) i))"
proof -
  let ?cs = "arrays w (body_c b)"
  let ?D = "haz_o hazard = 1 \<and> (body_e b = Some 1 \<or> ?cs \<noteq> [])"
  define w1 where "w1 = (if ?cs \<noteq> [] then hit (hd ?cs) hazard w else w)"
  define w' where "w' = (if ?D then remove_entity i w1 else w1)"
  have h: "hazard_entity i hazard w = Some w'"
    by (simp add: hazard_entity_eq[OF assms] w'_def w1_def Let_def)
  have m1: "group_get (c_mor w1) j =
      (if ?cs \<noteq> [] \<and> j = hd ?cs
       then map_option (damage (haz_d hazard)) (group_get (c_mor w) j)
       else group_get (c_mor w) j)" for j
    by (simp add: w1_def hit_mor)
  have b1: "c_body w1 = c_body w" and z1: "c_haz w1 = c_haz w"
    and r1: "w1 = w\<lparr> c_mor := c_mor w1 \<rparr>"
    using hit_rest[of "hd ?cs" hazard w] by (simp_all add: w1_def)
  have yes: "w' = remove_entity i w1" if "?D"
    unfolding w'_def using that by (rule if_P)
  have no: "w' = w1" if "\<not> ?D"
    unfolding w'_def using that by (rule if_not_P)
  have d: "despawned i w' \<longleftrightarrow> ?D"
  proof (cases ?D)
    case True
    have "despawned i w'"
      unfolding yes[OF True] by (rule despawned_remove_entity)
    with True show ?thesis by blast
  next
    case False
    have "group_get (c_body w') i = Some b"
      unfolding no[OF False] using assms by (simp add: b1)
    then have "\<not> despawned i w'"
      by (simp add: despawned_def)
    with False show ?thesis by blast
  qed
  have o: "group_get (c_mor w') j = group_get (c_mor w1) j \<and>
      group_get (c_body w') j = group_get (c_body w) j \<and>
      group_get (c_haz w') j = group_get (c_haz w) j" if "j \<noteq> i" for j
  proof (cases ?D)
    case True
    show ?thesis
      unfolding yes[OF True] using that by (simp add: remove_entity_other b1 z1)
  next
    case False
    show ?thesis
      unfolding no[OF False] by (simp add: b1 z1)
  qed
  have k: "w' = w\<lparr> c_mor := c_mor w' \<rparr> \<and> group_get (c_mor w') i = group_get (c_mor w1) i"
    if "\<not> despawned i w'"
  proof -
    from that d have "\<not> ?D" by blast
    from no[OF this] r1 show ?thesis by simp
  qed
  from h d o k m1 show ?thesis by simp
qed

section \<open>The edge scenario, evaluated\<close>

text \<open>
  The clamping step alone keeps a box that is not larger than the map inside the map.
\<close>

lemma constrain_in_map:
  assumes "rect_w bb \<le> of_int mw" and "rect_h bb \<le> of_int mh"
  shows "0 \<le> rect_x (fst (constrain_y mh (constrain_x mw (bb, b)))) \<and>
         rect_x (fst (constrain_y mh (constrain_x mw (bb, b)))) + rect_w bb \<le> of_int mw \<and>
         0 \<le> rect_y (fst (constrain_y mh (constrain_x mw (bb, b)))) \<and>
         rect_y (fst (constrain_y mh (constrain_x mw (bb, b)))) + rect_h bb \<le> of_int mh"
  using assms by (simp add: constrain_x_def constrain_y_def)

lemma slime_prefab:
  "PREFABS ''slime'' = Some (no_components\<lparr>
        p_pos := Some origin,
        p_body := Some (body_lit (8 / 10) 1 GROUP_ENEMY None 2),
        p_mor := Some \<lparr> mor_h = 6 \<rparr>,
        p_sprite := Some \<lparr> sprite_i = 6 \<rparr>,
        p_ani := Some \<lparr> ani_f = [[6, 7], [10], [7]], ani_a = 0, ani_i = 0,
                        ani_d = 25 / 100, ani_e = 0 \<rparr>,
        p_beh := Some \<lparr> beh_m = ''slime'', beh_s = None, beh_e = 0 \<rparr> \<rparr>)"
  by (simp add: PREFABS_def)

lemma spawn_slime:
  assumes "x \<noteq> 0" "y \<noteq> 0"
  shows "c_pos (snd (spawn_prefab_entity PREFABS ''slime'' (Some x) (Some y) (Some 0) w))
       = group_set (c_pos w) (next_entity_id w) \<lparr> pos_x = x, pos_y = y, pos_f = 0 \<rparr>"
    and "c_body (snd (spawn_prefab_entity PREFABS ''slime'' (Some x) (Some y) (Some 0) w))
       = group_set (c_body w) (next_entity_id w) slime_a"
    and "next_entity_id (snd (spawn_prefab_entity PREFABS ''slime'' (Some x) (Some y) (Some 0) w))
       = next_entity_id w + 1"
    and "map_width (snd (spawn_prefab_entity PREFABS ''slime'' (Some x) (Some y) (Some 0) w)) = map_width w"
    and "map_height (snd (spawn_prefab_entity PREFABS ''slime'' (Some x) (Some y) (Some 0) w)) = map_height w"
    and "map_tiles (snd (spawn_prefab_entity PREFABS ''slime'' (Some x) (Some y) (Some 0) w)) = map_tiles w"
    and "spatial_width (snd (spawn_prefab_entity PREFABS ''slime'' (Some x) (Some y) (Some 0) w)) = spatial_width w"
    and "spatial_tiles (snd (spawn_prefab_entity PREFABS ''slime'' (Some x) (Some y) (Some 0) w)) = spatial_tiles w"
    and "arrays (snd (spawn_prefab_entity PREFABS ''slime'' (Some x) (Some y) (Some 0) w)) = arrays w"
  using assms
  by (simp_all add: spawn_prefab_entity_def Let_def slime_prefab no_components_def add_from_get
      js_or_def origin_def slime_a_def)
     (simp_all add: add_from_def group_set_def update_conv')

lemma body_upd_fields:
  "c_pos (body_upd i f w) = c_pos w" "map_width (body_upd i f w) = map_width w"
  "map_height (body_upd i f w) = map_height w" "map_tiles (body_upd i f w) = map_tiles w"
  "spatial_width (body_upd i f w) = spatial_width w"
  "spatial_tiles (body_upd i f w) = spatial_tiles w" "arrays (body_upd i f w) = arrays w"
  by (cases "group_get (c_body w) i"; simp add: body_upd_def)+

lemma generated_fields:
  "c_pos (generate_map g 21 21 initial_world) = None"
  "c_body (generate_map g 21 21 initial_world) = None"
  "next_entity_id (generate_map g 21 21 initial_world) = 1"
  "map_width (generate_map g 21 21 initial_world) = 21"
  "map_height (generate_map g 21 21 initial_world) = 21"
  "spatial_width (generate_map g 21 21 initial_world) = 11"
  "spatial_tiles (generate_map g 21 21 initial_world) = replicate 121 []"
  "arrays (generate_map g 21 21 initial_world) = (\<lambda>_. [])"
  by (simp_all add: generate_map_def init_map_def initial_world_def Let_def SPATIAL_TILE_SIZE_def)

lemma edge_scenario_fields:
  "c_body edge_scenario = Some [(1, slime_a), (2, slime_b)]"
  "c_pos edge_scenario = Some [(1, \<lparr> pos_x = 41 / 100, pos_y = 11 / 2, pos_f = 0 \<rparr>),
                               (2, \<lparr> pos_x = 5 / 4, pos_y = 11 / 2, pos_f = 0 \<rparr>)]"
  "map_width edge_scenario = 21"
  "map_height edge_scenario = 21"
  "spatial_width edge_scenario = 11"
  "spatial_tiles edge_scenario = replicate 121 []"
  "arrays edge_scenario = (\<lambda>_. [])"
  by (simp_all add: edge_scenario_def Let_def body_upd_fields spawn_slime generated_fields)
     (simp_all add: body_upd_def spawn_slime generated_fields group_set_def group_get_def
        slime_a_def slime_b_def)

lemma edge_scenario_tiles:
  "map_tiles edge_scenario =
      map (\<lambda>i. if (int i mod 21) mod 4 = 0 \<and> (int i div 21) mod 4 = 0 then 1 else 0) [0..<441]"
  by (simp add: edge_scenario_def Let_def body_upd_fields spawn_slime)
     (simp add: generate_map_def init_map_def initial_world_def Let_def MAP_GENERATORS_def)

lemma edge_scenario_wall:
  "is_wall (map_tiles edge_scenario) i \<longleftrightarrow>
     0 \<le> i \<and> i < 441 \<and> (i mod 21) mod 4 = 0 \<and> (i div 21) mod 4 = 0"
  by (auto simp: edge_scenario_tiles is_wall_def tile_get_def split: if_splits)

lemma edge_scenario_detect:
  "detect_tiles 21 (map_tiles edge_scenario) box_a = []"
  "detect_tiles 21 (map_tiles edge_scenario) box_b = []"
  by (simp_all add: detect_tiles_def cells_def upto_rec_numeral edge_scenario_wall idx_def
      box_a_def box_b_def)

lemma edge_scenario_collide:
  assumes "map_width w = 21" and "map_height w = 21"
    and "map_tiles w = map_tiles edge_scenario"
  shows "collide w \<lparr> pos_x = 41 / 100, pos_y = 11 / 2, pos_f = 0 \<rparr> (slime_a\<lparr> body_e := Some 0 \<rparr>)
           = (box_a, slime_a\<lparr> body_e := Some 0 \<rparr>)"
    and "collide w \<lparr> pos_x = 23 / 20, pos_y = 11 / 2, pos_f = 0 \<rparr> (slime_b\<lparr> body_e := Some 0 \<rparr>)
           = (box_b, slime_b\<lparr> body_e := Some 0 \<rparr>)"
proof -
  have a: "bounding_box \<lparr> pos_x = 41 / 100, pos_y = 11 / 2, pos_f = 0 \<rparr>
      (slime_a\<lparr> body_e := Some 0 \<rparr>) = box_a"
    by (simp add: bounding_box_def slime_a_def body_lit_def box_a_def)
  have b: "bounding_box \<lparr> pos_x = 23 / 20, pos_y = 11 / 2, pos_f = 0 \<rparr>
      (slime_b\<lparr> body_e := Some 0 \<rparr>) = box_b"
    by (simp add: bounding_box_def slime_b_def body_lit_def box_b_def)
  have ca: "constrain_y 21 (constrain_x 21 (box_a, bd)) = (box_a, bd)" for bd
    by (simp add: constrain_x_def constrain_y_def box_a_def)
  have cb: "constrain_y 21 (constrain_x 21 (box_b, bd)) = (box_b, bd)" for bd
    by (simp add: constrain_x_def constrain_y_def box_b_def)
  show "collide w \<lparr> pos_x = 41 / 100, pos_y = 11 / 2, pos_f = 0 \<rparr> (slime_a\<lparr> body_e := Some 0 \<rparr>)
           = (box_a, slime_a\<lparr> body_e := Some 0 \<rparr>)"
    unfolding collide_def assms a ca
    by (simp add: tile_collisions_def edge_scenario_detect)
  show "collide w \<lparr> pos_x = 23 / 20, pos_y = 11 / 2, pos_f = 0 \<rparr> (slime_b\<lparr> body_e := Some 0 \<rparr>)
           = (box_b, slime_b\<lparr> body_e := Some 0 \<rparr>)"
    unfolding collide_def assms b cb
    by (simp add: tile_collisions_def edge_scenario_detect)
qed

lemma edge_scenario_insert:
  "insert_cells i 11 (spatial_cells box_a) buckets
     = (if 22 < length buckets then Some (buckets[22 := buckets ! 22 @ [i]]) else Some buckets)"
  "insert_cells i 11 (spatial_cells box_b) buckets
     = (if 22 < length buckets then Some (buckets[22 := buckets ! 22 @ [i]]) else Some buckets)"
  by (simp_all add: spatial_cells_def cells_def SPATIAL_TILE_SIZE_def upto_rec_numeral idx_def
      box_a_def box_b_def)

lemma edge_scenario_neighbors:
  "22 < length buckets \<Longrightarrow> neighbor_cells 11 buckets (spatial_cells box_a) [] = Some (buckets ! 22)"
  "22 < length buckets \<Longrightarrow> neighbor_cells 11 buckets (spatial_cells box_b) [] = Some (buckets ! 22)"
  by (simp_all add: spatial_cells_def cells_def SPATIAL_TILE_SIZE_def upto_rec_numeral idx_def
      box_a_def box_b_def)

lemma edge_scenario_move_a:
  "move_body (1 / 10) (Suc 0) slime_a (clear_spatial_map edge_scenario) = Some edge_moved_a"
proof (rule move_body_steps)
  let ?w = "clear_spatial_map edge_scenario"
  let ?w1 = "?w\<lparr> arrays := (arrays ?w)(body_c slime_a := []) \<rparr>"
  show "group_get (c_pos ?w) (Suc 0) = Some \<lparr> pos_x = 41 / 100, pos_y = 11 / 2, pos_f = 0 \<rparr>"
    by (simp add: clear_spatial_map_def edge_scenario_fields group_get_def)
  have i: "integrate (1 / 10) (slime_a\<lparr> body_e := Some 0 \<rparr>)
      \<lparr> pos_x = 41 / 100, pos_y = 11 / 2, pos_f = 0 \<rparr>
      = \<lparr> pos_x = 41 / 100, pos_y = 11 / 2, pos_f = 0 \<rparr>"
    by (simp add: integrate_def slime_a_def body_lit_def)
  show "collide ?w1 (integrate (1 / 10) (slime_a\<lparr> body_e := Some 0 \<rparr>)
           \<lparr> pos_x = 41 / 100, pos_y = 11 / 2, pos_f = 0 \<rparr>) (slime_a\<lparr> body_e := Some 0 \<rparr>)
      = (box_a, slime_a\<lparr> body_e := Some 0 \<rparr>)"
    unfolding i
    by (rule edge_scenario_collide) (simp_all add: clear_spatial_map_def edge_scenario_fields)
  show "insert_spatial_bounds (Suc 0) (fst (box_a, slime_a\<lparr> body_e := Some 0 \<rparr>))
        (store_body (Suc 0) (integrate (1 / 10) (slime_a\<lparr> body_e := Some 0 \<rparr>)
              \<lparr> pos_x = 41 / 100, pos_y = 11 / 2, pos_f = 0 \<rparr>)
           (box_a, slime_a\<lparr> body_e := Some 0 \<rparr>) ?w1)
      = Some edge_moved_a"
    unfolding i
    by (simp add: insert_spatial_bounds_def store_body_def clear_spatial_map_def
        edge_scenario_fields group_set_def edge_scenario_insert edge_moved_a_def moved_a_def)
       (simp add: slime_a_def body_lit_def box_a_def fun_upd_idem)
qed

lemma edge_moved_a_fields:
  "c_pos edge_moved_a = Some [(1, \<lparr> pos_x = 41 / 100, pos_y = 11 / 2, pos_f = 0 \<rparr>),
                     (2, \<lparr> pos_x = 5 / 4, pos_y = 11 / 2, pos_f = 0 \<rparr>)]"
  "c_body edge_moved_a = Some [(1, moved_a), (2, slime_b)]"
  "map_width edge_moved_a = 21" "map_height edge_moved_a = 21"
  "map_tiles edge_moved_a = map_tiles edge_scenario"
  "spatial_width edge_moved_a = 11"
  "spatial_tiles edge_moved_a = (replicate 121 [])[22 := [1]]"
  "arrays edge_moved_a = (\<lambda>_. [])"
  by (simp_all add: edge_moved_a_def edge_scenario_fields)

lemma edge_scenario_move_b:
  "move_body (1 / 10) 2 slime_b edge_moved_a = Some edge_moved"
proof (rule move_body_steps)
  let ?w1 = "edge_moved_a\<lparr> arrays := (arrays edge_moved_a)(body_c slime_b := []) \<rparr>"
  show "group_get (c_pos edge_moved_a) 2 = Some \<lparr> pos_x = 5 / 4, pos_y = 11 / 2, pos_f = 0 \<rparr>"
    by (simp add: edge_moved_a_fields group_get_def)
  have i: "integrate (1 / 10) (slime_b\<lparr> body_e := Some 0 \<rparr>)
      \<lparr> pos_x = 5 / 4, pos_y = 11 / 2, pos_f = 0 \<rparr>
      = \<lparr> pos_x = 23 / 20, pos_y = 11 / 2, pos_f = 0 \<rparr>"
    by (simp add: integrate_def slime_b_def body_lit_def)
  show "collide ?w1 (integrate (1 / 10) (slime_b\<lparr> body_e := Some 0 \<rparr>)
           \<lparr> pos_x = 5 / 4, pos_y = 11 / 2, pos_f = 0 \<rparr>) (slime_b\<lparr> body_e := Some 0 \<rparr>)
      = (box_b, slime_b\<lparr> body_e := Some 0 \<rparr>)"
    unfolding i
    by (rule edge_scenario_collide) (simp_all add: edge_moved_a_fields)
  show "insert_spatial_bounds 2 (fst (box_b, slime_b\<lparr> body_e := Some 0 \<rparr>))
        (store_body 2 (integrate (1 / 10) (slime_b\<lparr> body_e := Some 0 \<rparr>)
              \<lparr> pos_x = 5 / 4, pos_y = 11 / 2, pos_f = 0 \<rparr>)
           (box_b, slime_b\<lparr> body_e := Some 0 \<rparr>) ?w1)
      = Some edge_moved"
    unfolding i
    by (simp add: insert_spatial_bounds_def store_body_def
        edge_moved_a_fields group_set_def edge_scenario_insert)
       (simp add: edge_moved_def edge_moved_a_def moved_b_def slime_b_def body_lit_def box_b_def
          fun_upd_idem)
qed

lemma edge_scenario_moves:
  "move_bodies (1 / 10) [Suc 0, 2] (clear_spatial_map edge_scenario) = Some edge_moved"
  by (simp add: edge_scenario_fields group_get_def edge_scenario_move_a edge_moved_a_fields
      edge_scenario_move_b)

lemma edge_moved_fields:
  "c_pos edge_moved = Some [(1, \<lparr> pos_x = 41 / 100, pos_y = 11 / 2, pos_f = 0 \<rparr>),
                     (2, \<lparr> pos_x = 23 / 20, pos_y = 11 / 2, pos_f = 0 \<rparr>)]"
  "c_body edge_moved = Some [(1, moved_a), (2, moved_b)]"
  "spatial_width edge_moved = 11"
  "spatial_tiles edge_moved = (replicate 121 [])[22 := [1, 2]]"
  "arrays edge_moved = (\<lambda>_. [])"
  by (simp_all add: edge_moved_def edge_scenario_fields)

lemma moved_fields:
  "body_bb moved_a = Some box_a" "body_bb moved_b = Some box_b"
  "body_g moved_a = 2" "body_g moved_b = 2" "body_t moved_a = None" "body_t moved_b = None"
  "body_c moved_a = 2" "body_c moved_b = 2"
  by (simp_all add: moved_a_def moved_b_def slime_a_def slime_b_def body_lit_def GROUP_ENEMY_def)

lemma edge_scenario_pairs:
  "find_pairs edge_moved [Suc 0, 2] ([], [], \<lambda>_. [])
     = Some ([(1, 2)], [201], (\<lambda>_. [])(2 := [2, 1]))"
proof -
  have n: "get_spatial_neighbors box_a edge_moved = Some [1, 2]"
    "get_spatial_neighbors box_b edge_moved = Some [1, 2]"
    by (simp_all add: get_spatial_neighbors_def edge_moved_fields edge_scenario_neighbors)
  have o: "rect_overlap box_a box_b"
    by (simp add: rect_overlap_def box_a_def box_b_def)
  have g: "hash_ids 2 2 \<in> set COLLISION_GROUPS"
    by (simp add: COLLISION_GROUPS_def hash_ids_def idx_def GROUP_ENEMY_def GROUP_PLAYER_def
        GROUP_ENVIRONMENT_def)
  have h: "hash_ids (Suc 0) 2 = 201" "hash_ids 2 (Suc 0) = 201"
    by (simp_all add: hash_ids_def idx_def)
  have a: "check_neighbors edge_moved (Suc 0) moved_a [Suc 0, 2] ([], [], \<lambda>_. [])
      = Some ([(1, 2)], [201], (\<lambda>_. [])(2 := [2, 1]))"
    by (simp add: check_neighbor_def h edge_moved_fields group_get_def moved_fields g o)
  have b: "check_neighbors edge_moved 2 moved_b [Suc 0, 2]
        ([(1, 2)], [201], (\<lambda>_. [])(2 := [2, 1]))
      = Some ([(1, 2)], [201], (\<lambda>_. [])(2 := [2, 1]))"
    by (simp add: check_neighbor_def h)
  show ?thesis
    using n a b by (simp add: edge_moved_fields group_get_def moved_fields)
qed

lemma edge_scenario_resolve:
  "resolve_pair (Suc 0, 2) (edge_moved\<lparr> arrays := a \<rparr>)
     = Some (edge_moved\<lparr> arrays := a,
          c_pos := Some [(1, \<lparr> pos_x = 19 / 50, pos_y = 11 / 2, pos_f = 0 \<rparr>),
                         (2, \<lparr> pos_x = 59 / 50, pos_y = 11 / 2, pos_f = 0 \<rparr>)],
          c_body := Some [(1, pushed_a), (2, pushed_b)] \<rparr>)"
proof -
  let ?w = "edge_moved\<lparr> arrays := a \<rparr>"
  let ?w1 = "?w\<lparr> c_pos := Some [(1, \<lparr> pos_x = 19 / 50, pos_y = 11 / 2, pos_f = 0 \<rparr>),
                     (2, \<lparr> pos_x = 59 / 50, pos_y = 11 / 2, pos_f = 0 \<rparr>)],
             c_body := Some [(1, moved_a), (2, moved_b\<lparr> body_vx := 1 \<rparr>)] \<rparr>"
  have r: "rect_intersection box_a box_b
      = \<lparr> rect_x = 3 / 4, rect_y = 51 / 10, rect_w = 3 / 50, rect_h = 4 / 5 \<rparr>"
    by (simp add: rect_intersection_def box_a_def box_b_def Let_def)
  have s: "separate_x (Suc 0) 2
      \<lparr> rect_x = 3 / 4, rect_y = 51 / 10, rect_w = 3 / 50, rect_h = 4 / 5 \<rparr> ?w = ?w1"
    by (simp add: separate_x_def Let_def pos_upd_def body_upd_def edge_moved_fields group_get_def
        group_set_def sign_def)
       (simp add: moved_a_def moved_b_def slime_a_def slime_b_def body_lit_def)
  have y: "sync_bounding_box 2 (sync_bounding_box (Suc 0) ?w1)
      = edge_moved\<lparr> arrays := a,
          c_pos := Some [(1, \<lparr> pos_x = 19 / 50, pos_y = 11 / 2, pos_f = 0 \<rparr>),
                         (2, \<lparr> pos_x = 59 / 50, pos_y = 11 / 2, pos_f = 0 \<rparr>)],
          c_body := Some [(1, pushed_a), (2, pushed_b)] \<rparr>"
    by (simp add: sync_bounding_box_def body_upd_def group_get_def group_set_def
        update_bounding_box_def bounding_box_def pushed_a_def pushed_b_def)
       (simp add: moved_a_def moved_b_def slime_a_def slime_b_def body_lit_def)
  have "resolve_pair (Suc 0, 2) ?w
      = Some (sync_bounding_box 2 (sync_bounding_box (Suc 0) (separate_x (Suc 0) 2
          \<lparr> rect_x = 3 / 4, rect_y = 51 / 10, rect_w = 3 / 50, rect_h = 4 / 5 \<rparr> ?w)))"
    by (simp add: resolve_pair_def edge_moved_fields group_get_def moved_fields r)
  then show ?thesis
    by (simp only: s y)
qed

lemma edge_scenario_physics:
  "system_physics (1 / 10) edge_scenario = Some edge_outcome"
  by (simp add: system_physics_def edge_scenario_fields edge_scenario_moves edge_moved_fields
      edge_scenario_pairs edge_scenario_resolve edge_outcome_def
      del: move_bodies.simps find_pairs.simps)

text \<open>
  C2, at the edge scenario: after the full tick of 0.1 s the bounding box of entity 1
  starts at x = -0.02, west of the map. The first loop leaves it at x = 0.01; the
  separation of the pair (1, 2) pushes it by half the overlap of 0.06 and nothing
  constrains it afterwards.
\<close>

theorem edge_scenario_leaves_map:
  "map_option body_bb (body_of 1 (system_physics (1 / 10) edge_scenario))
     = Some (Some \<lparr> rect_x = - (1 / 50), rect_y = 51 / 10, rect_w = 4 / 5, rect_h = 4 / 5 \<rparr>)"
  by (simp add: edge_scenario_physics body_of_def edge_outcome_def group_get_def pushed_a_def)

section \<open>The shots scenario, evaluated\<close>

lemma bullet_prefab:
  "PREFABS ''bullet'' = Some (no_components\<lparr>
        p_pos := Some origin,
        p_body := Some (body_lit (25 / 100) 0 GROUP_PLAYER (Some 1) 4),
        p_haz := Some \<lparr> haz_d = 1, haz_o = 1 \<rparr>,
        p_sprite := Some \<lparr> sprite_i = 2 \<rparr> \<rparr>)"
  by (simp add: PREFABS_def)

lemma spawn_at:
  assumes "PREFABS k = Some p" and "p_pos p = Some origin" and "x \<noteq> 0" and "y \<noteq> 0"
  shows "snd (spawn_prefab_entity PREFABS k (Some x) (Some y) (Some 0) w) =
     w\<lparr> next_entity_id := next_entity_id w + 1,
        c_pos := group_set (c_pos w) (next_entity_id w) \<lparr> pos_x = x, pos_y = y, pos_f = 0 \<rparr>,
        c_body := add_from (p_body p) (next_entity_id w) (c_body w),
        c_pla := add_from (p_pla p) (next_entity_id w) (c_pla w),
        c_mor := add_from (p_mor p) (next_entity_id w) (c_mor w),
        c_sprite := add_from (p_sprite p) (next_entity_id w) (c_sprite w),
        c_sig := add_from (p_sig p) (next_entity_id w) (c_sig w),
        c_tar := add_from (p_tar p) (next_entity_id w) (c_tar w),
        c_beh := add_from (p_beh p) (next_entity_id w) (c_beh w),
        c_ani := add_from (p_ani p) (next_entity_id w) (c_ani w),
        c_haz := add_from (p_haz p) (next_entity_id w) (c_haz w),
        c_ttl := add_from (p_ttl p) (next_entity_id w) (c_ttl w) \<rparr>"
  using assms
  by (simp add: spawn_prefab_entity_def Let_def add_from_get js_or_def origin_def)
     (simp add: add_from_def group_set_def)

lemma generated_groups:
  "c_pla (generate_map g 21 21 initial_world) = None"
  "c_mor (generate_map g 21 21 initial_world) = None"
  "c_sprite (generate_map g 21 21 initial_world) = None"
  "c_sig (generate_map g 21 21 initial_world) = None"
  "c_tar (generate_map g 21 21 initial_world) = None"
  "c_beh (generate_map g 21 21 initial_world) = None"
  "c_ani (generate_map g 21 21 initial_world) = None"
  "c_haz (generate_map g 21 21 initial_world) = None"
  "c_ttl (generate_map g 21 21 initial_world) = None"
  by (simp_all add: generate_map_def init_map_def initial_world_def Let_def)

lemma shots_spawned:
  "shots_scenario =
     body_upd 3 (\<lambda>q. q\<lparr> body_vx := 12 \<rparr>) (body_upd 2 (\<lambda>q. q\<lparr> body_vx := 12 \<rparr>)
       ((generate_map (MAP_GENERATORS ! 0) 21 21 initial_world)\<lparr>
          next_entity_id := 4,
          c_pos := Some [(1, \<lparr> pos_x = 19 / 2, pos_y = 11 / 2, pos_f = 0 \<rparr>),
                         (2, \<lparr> pos_x = 83 / 10, pos_y = 11 / 2, pos_f = 0 \<rparr>),
                         (3, \<lparr> pos_x = 7 / 2, pos_y = 11 / 2, pos_f = 0 \<rparr>)],
          c_body := Some [(1, slime_a), (2, body_lit (25 / 100) 0 GROUP_PLAYER (Some 1) 4),
                          (3, body_lit (25 / 100) 0 GROUP_PLAYER (Some 1) 4)],
          c_pla := None,
          c_mor := Some [(1, \<lparr> mor_h = 6 \<rparr>)],
          c_sprite := Some [(1, \<lparr> sprite_i = 6 \<rparr>), (2, \<lparr> sprite_i = 2 \<rparr>),
                            (3, \<lparr> sprite_i = 2 \<rparr>)],
          c_sig := None, c_tar := None,
          c_beh := Some [(1, \<lparr> beh_m = ''slime'', beh_s = None, beh_e = 0 \<rparr>)],
          c_ani := Some [(1, \<lparr> ani_f = [[6, 7], [10], [7]], ani_a = 0, ani_i = 0,
                        ani_d = 25 / 100, ani_e = 0 \<rparr>)],
          c_haz := Some [(2, \<lparr> haz_d = 1, haz_o = 1 \<rparr>), (3, \<lparr> haz_d = 1, haz_o = 1 \<rparr>)],
          c_ttl := None \<rparr>))"
  unfolding shots_scenario_def Let_def
  by (simp add: spawn_at[OF slime_prefab] spawn_at[OF bullet_prefab] generated_fields
      generated_groups no_components_def add_from_def group_set_def slime_a_def
      eval_nat_numeral)

lemma shots_scenario_fields:
  "c_pos shots_scenario = Some [(1, \<lparr> pos_x = 19 / 2, pos_y = 11 / 2, pos_f = 0 \<rparr>),
                                (2, \<lparr> pos_x = 83 / 10, pos_y = 11 / 2, pos_f = 0 \<rparr>),
                                (3, \<lparr> pos_x = 7 / 2, pos_y = 11 / 2, pos_f = 0 \<rparr>)]"
  "c_body shots_scenario = Some [(1, slime_a), (2, bullet_a), (3, bullet_a)]"
  "c_mor shots_scenario = Some [(1, \<lparr> mor_h = 6 \<rparr>)]"
  "c_haz shots_scenario = Some [(2, \<lparr> haz_d = 1, haz_o = 1 \<rparr>), (3, \<lparr> haz_d = 1, haz_o = 1 \<rparr>)]"
  "c_pla shots_scenario = None" "c_sig shots_scenario = None" "c_tar shots_scenario = None"
  "c_ttl shots_scenario = None"
  "c_sprite shots_scenario = Some [(1, \<lparr> sprite_i = 6 \<rparr>), (2, \<lparr> sprite_i = 2 \<rparr>),
                                   (3, \<lparr> sprite_i = 2 \<rparr>)]"
  "c_beh shots_scenario = Some [(1, \<lparr> beh_m = ''slime'', beh_s = None, beh_e = 0 \<rparr>)]"
  "c_ani shots_scenario = Some [(1, \<lparr> ani_f = [[6, 7], [10], [7]], ani_a = 0, ani_i = 0,
                        ani_d = 25 / 100, ani_e = 0 \<rparr>)]"
  "map_width shots_scenario = 21"
  "map_height shots_scenario = 21"
  "spatial_width shots_scenario = 11"
  "spatial_tiles shots_scenario = replicate 121 []"
  "arrays shots_scenario = (\<lambda>_. [])"
  by (simp_all add: shots_spawned body_upd_def group_get_def group_set_def generated_fields
      bullet_a_def)

lemma shots_scenario_tiles: "map_tiles shots_scenario = map_tiles edge_scenario"
  by (simp add: shots_spawned edge_scenario_def Let_def body_upd_fields spawn_slime)

lemma shots_detect:
  "detect_tiles 21 (map_tiles edge_scenario) box_s = []"
  "detect_tiles 21 (map_tiles edge_scenario) box_1 = []"
  "detect_tiles 21 (map_tiles edge_scenario) box_2 = []"
  by (simp_all add: detect_tiles_def cells_def upto_rec_numeral edge_scenario_wall idx_def
      box_s_def box_1_def box_2_def)

lemma shots_collide:
  assumes "map_width w = 21" and "map_height w = 21"
    and "map_tiles w = map_tiles edge_scenario"
  shows "collide w \<lparr> pos_x = 19 / 2, pos_y = 11 / 2, pos_f = 0 \<rparr> (slime_a\<lparr> body_e := Some 0 \<rparr>)
           = (box_s, slime_a\<lparr> body_e := Some 0 \<rparr>)"
    and "collide w \<lparr> pos_x = 19 / 2, pos_y = 11 / 2, pos_f = 0 \<rparr> (bullet_a\<lparr> body_e := Some 0 \<rparr>)
           = (box_1, bullet_a\<lparr> body_e := Some 0 \<rparr>)"
    and "collide w \<lparr> pos_x = 47 / 10, pos_y = 11 / 2, pos_f = 0 \<rparr> (bullet_a\<lparr> body_e := Some 0 \<rparr>)
           = (box_2, bullet_a\<lparr> body_e := Some 0 \<rparr>)"
proof -
  have a: "bounding_box \<lparr> pos_x = 19 / 2, pos_y = 11 / 2, pos_f = 0 \<rparr>
      (slime_a\<lparr> body_e := Some 0 \<rparr>) = box_s"
    by (simp add: bounding_box_def slime_a_def body_lit_def box_s_def)
  have b: "bounding_box \<lparr> pos_x = 19 / 2, pos_y = 11 / 2, pos_f = 0 \<rparr>
      (bullet_a\<lparr> body_e := Some 0 \<rparr>) = box_1"
    by (simp add: bounding_box_def bullet_a_def body_lit_def box_1_def)
  have c: "bounding_box \<lparr> pos_x = 47 / 10, pos_y = 11 / 2, pos_f = 0 \<rparr>
      (bullet_a\<lparr> body_e := Some 0 \<rparr>) = box_2"
    by (simp add: bounding_box_def bullet_a_def body_lit_def box_2_def)
  have ca: "constrain_y 21 (constrain_x 21 (box_s, bd)) = (box_s, bd)" for bd
    by (simp add: constrain_x_def constrain_y_def box_s_def)
  have cb: "constrain_y 21 (constrain_x 21 (box_1, bd)) = (box_1, bd)" for bd
    by (simp add: constrain_x_def constrain_y_def box_1_def)
  have cc: "constrain_y 21 (constrain_x 21 (box_2, bd)) = (box_2, bd)" for bd
    by (simp add: constrain_x_def constrain_y_def box_2_def)
  show "collide w \<lparr> pos_x = 19 / 2, pos_y = 11 / 2, pos_f = 0 \<rparr> (slime_a\<lparr> body_e := Some 0 \<rparr>)
           = (box_s, slime_a\<lparr> body_e := Some 0 \<rparr>)"
    unfolding collide_def assms a ca
    by (simp add: tile_collisions_def shots_detect)
  show "collide w \<lparr> pos_x = 19 / 2, pos_y = 11 / 2, pos_f = 0 \<rparr> (bullet_a\<lparr> body_e := Some 0 \<rparr>)
           = (box_1, bullet_a\<lparr> body_e := Some 0 \<rparr>)"
    unfolding collide_def assms b cb
    by (simp add: tile_collisions_def shots_detect)
  show "collide w \<lparr> pos_x = 47 / 10, pos_y = 11 / 2, pos_f = 0 \<rparr> (bullet_a\<lparr> body_e := Some 0 \<rparr>)
           = (box_2, bullet_a\<lparr> body_e := Some 0 \<rparr>)"
    unfolding collide_def assms c cc
    by (simp add: tile_collisions_def shots_detect)
qed

lemma shots_insert:
  "insert_cells i 11 (spatial_cells box_s) buckets
     = (if 26 < length buckets then Some (buckets[26 := buckets ! 26 @ [i]]) else Some buckets)"
  "insert_cells i 11 (spatial_cells box_1) buckets
     = (if 26 < length buckets then Some (buckets[26 := buckets ! 26 @ [i]]) else Some buckets)"
  "insert_cells i 11 (spatial_cells box_2) buckets
     = (if 24 < length buckets then Some (buckets[24 := buckets ! 24 @ [i]]) else Some buckets)"
  by (simp_all add: spatial_cells_def cells_def SPATIAL_TILE_SIZE_def upto_rec_numeral idx_def
      box_s_def box_1_def box_2_def)

lemma shots_neighbors:
  "26 < length buckets \<Longrightarrow> neighbor_cells 11 buckets (spatial_cells box_s) [] = Some (buckets ! 26)"
  "26 < length buckets \<Longrightarrow> neighbor_cells 11 buckets (spatial_cells box_1) [] = Some (buckets ! 26)"
  "24 < length buckets \<Longrightarrow> neighbor_cells 11 buckets (spatial_cells box_2) [] = Some (buckets ! 24)"
  by (simp_all add: spatial_cells_def cells_def SPATIAL_TILE_SIZE_def upto_rec_numeral idx_def
      box_s_def box_1_def box_2_def)

lemma shots_move_1:
  "move_body (1 / 10) (Suc 0) slime_a (clear_spatial_map shots_scenario) = Some shots_moved_1"
proof (rule move_body_steps)
  let ?w = "clear_spatial_map shots_scenario"
  let ?w1 = "?w\<lparr> arrays := (arrays ?w)(body_c slime_a := []) \<rparr>"
  let ?p = "\<lparr> pos_x = 19 / 2, pos_y = 11 / 2, pos_f = 0 \<rparr>"
  show "group_get (c_pos ?w) (Suc 0) = Some ?p"
    by (simp add: clear_spatial_map_def shots_scenario_fields group_get_def)
  have i: "integrate (1 / 10) (slime_a\<lparr> body_e := Some 0 \<rparr>) ?p = ?p"
    by (simp add: integrate_def slime_a_def body_lit_def)
  show "collide ?w1 (integrate (1 / 10) (slime_a\<lparr> body_e := Some 0 \<rparr>) ?p)
          (slime_a\<lparr> body_e := Some 0 \<rparr>)
      = (box_s, slime_a\<lparr> body_e := Some 0 \<rparr>)"
    unfolding i
    by (rule shots_collide)
       (simp_all add: clear_spatial_map_def shots_scenario_fields shots_scenario_tiles)
  show "insert_spatial_bounds (Suc 0) (fst (box_s, slime_a\<lparr> body_e := Some 0 \<rparr>))
        (store_body (Suc 0) (integrate (1 / 10) (slime_a\<lparr> body_e := Some 0 \<rparr>) ?p)
           (box_s, slime_a\<lparr> body_e := Some 0 \<rparr>) ?w1)
      = Some shots_moved_1"
    unfolding i
    by (simp add: insert_spatial_bounds_def store_body_def clear_spatial_map_def
        shots_scenario_fields group_set_def shots_insert shots_moved_1_def slime_m_def)
       (simp add: slime_a_def body_lit_def box_s_def fun_upd_idem)
qed

lemma shots_moved_1_fields:
  "c_pos shots_moved_1 = Some [(1, \<lparr> pos_x = 19 / 2, pos_y = 11 / 2, pos_f = 0 \<rparr>),
                               (2, \<lparr> pos_x = 83 / 10, pos_y = 11 / 2, pos_f = 0 \<rparr>),
                               (3, \<lparr> pos_x = 7 / 2, pos_y = 11 / 2, pos_f = 0 \<rparr>)]"
  "c_body shots_moved_1 = Some [(1, slime_m), (2, bullet_a), (3, bullet_a)]"
  "map_width shots_moved_1 = 21" "map_height shots_moved_1 = 21"
  "map_tiles shots_moved_1 = map_tiles edge_scenario"
  "spatial_width shots_moved_1 = 11"
  "spatial_tiles shots_moved_1 = (replicate 121 [])[26 := [1]]"
  "arrays shots_moved_1 = (\<lambda>_. [])"
  by (simp_all add: shots_moved_1_def shots_scenario_fields shots_scenario_tiles)

lemma shots_move_2:
  "move_body (1 / 10) 2 bullet_a shots_moved_1 = Some shots_moved_2"
proof (rule move_body_steps)
  let ?w1 = "shots_moved_1\<lparr> arrays := (arrays shots_moved_1)(body_c bullet_a := []) \<rparr>"
  let ?p = "\<lparr> pos_x = 83 / 10, pos_y = 11 / 2, pos_f = 0 \<rparr>"
  show "group_get (c_pos shots_moved_1) 2 = Some ?p"
    by (simp add: shots_moved_1_fields group_get_def)
  have i: "integrate (1 / 10) (bullet_a\<lparr> body_e := Some 0 \<rparr>) ?p
      = \<lparr> pos_x = 19 / 2, pos_y = 11 / 2, pos_f = 0 \<rparr>"
    by (simp add: integrate_def bullet_a_def body_lit_def)
  show "collide ?w1 (integrate (1 / 10) (bullet_a\<lparr> body_e := Some 0 \<rparr>) ?p)
          (bullet_a\<lparr> body_e := Some 0 \<rparr>)
      = (box_1, bullet_a\<lparr> body_e := Some 0 \<rparr>)"
    unfolding i
    by (rule shots_collide) (simp_all add: shots_moved_1_fields)
  show "insert_spatial_bounds 2 (fst (box_1, bullet_a\<lparr> body_e := Some 0 \<rparr>))
        (store_body 2 (integrate (1 / 10) (bullet_a\<lparr> body_e := Some 0 \<rparr>) ?p)
           (box_1, bullet_a\<lparr> body_e := Some 0 \<rparr>) ?w1)
      = Some shots_moved_2"
    unfolding i
    by (simp add: insert_spatial_bounds_def store_body_def
        shots_moved_1_fields group_set_def shots_insert)
       (simp add: shots_moved_2_def shots_moved_1_def bullet_1_def bullet_a_def body_lit_def
          box_1_def fun_upd_idem)
qed

lemma shots_moved_2_fields:
  "c_pos shots_moved_2 = Some [(1, \<lparr> pos_x = 19 / 2, pos_y = 11 / 2, pos_f = 0 \<rparr>),
                               (2, \<lparr> pos_x = 19 / 2, pos_y = 11 / 2, pos_f = 0 \<rparr>),
                               (3, \<lparr> pos_x = 7 / 2, pos_y = 11 / 2, pos_f = 0 \<rparr>)]"
  "c_body shots_moved_2 = Some [(1, slime_m), (2, bullet_1), (3, bullet_a)]"
  "map_width shots_moved_2 = 21" "map_height shots_moved_2 = 21"
  "map_tiles shots_moved_2 = map_tiles edge_scenario"
  "spatial_width shots_moved_2 = 11"
  "spatial_tiles shots_moved_2 = (replicate 121 [])[26 := [1, 2]]"
  "arrays shots_moved_2 = (\<lambda>_. [])"
  by (simp_all add: shots_moved_2_def shots_scenario_fields shots_scenario_tiles)

lemma shots_move_3:
  "move_body (1 / 10) 3 bullet_a shots_moved_2 = Some shots_moved"
proof (rule move_body_steps)
  let ?w1 = "shots_moved_2\<lparr> arrays := (arrays shots_moved_2)(body_c bullet_a := []) \<rparr>"
  let ?p = "\<lparr> pos_x = 7 / 2, pos_y = 11 / 2, pos_f = 0 \<rparr>"
  show "group_get (c_pos shots_moved_2) 3 = Some ?p"
    by (simp add: shots_moved_2_fields group_get_def)
  have i: "integrate (1 / 10) (bullet_a\<lparr> body_e := Some 0 \<rparr>) ?p
      = \<lparr> pos_x = 47 / 10, pos_y = 11 / 2, pos_f = 0 \<rparr>"
    by (simp add: integrate_def bullet_a_def body_lit_def)
  show "collide ?w1 (integrate (1 / 10) (bullet_a\<lparr> body_e := Some 0 \<rparr>) ?p)
          (bullet_a\<lparr> body_e := Some 0 \<rparr>)
      = (box_2, bullet_a\<lparr> body_e := Some 0 \<rparr>)"
    unfolding i
    by (rule shots_collide) (simp_all add: shots_moved_2_fields)
  show "insert_spatial_bounds 3 (fst (box_2, bullet_a\<lparr> body_e := Some 0 \<rparr>))
        (store_body 3 (integrate (1 / 10) (bullet_a\<lparr> body_e := Some 0 \<rparr>) ?p)
           (box_2, bullet_a\<lparr> body_e := Some 0 \<rparr>) ?w1)
      = Some shots_moved"
    unfolding i
    by (simp add: insert_spatial_bounds_def store_body_def
        shots_moved_2_fields group_set_def shots_insert)
       (simp add: shots_moved_def shots_moved_2_def bullet_2_def bullet_a_def body_lit_def
          box_2_def fun_upd_idem)
qed

lemma shots_moves:
  "move_bodies (1 / 10) [Suc 0, 2, 3] (clear_spatial_map shots_scenario) = Some shots_moved"
  by (simp add: shots_scenario_fields group_get_def shots_move_1 shots_moved_1_fields
      shots_move_2 shots_moved_2_fields shots_move_3)

lemma shots_moved_fields:
  "c_pos shots_moved = Some [(1, \<lparr> pos_x = 19 / 2, pos_y = 11 / 2, pos_f = 0 \<rparr>),
                             (2, \<lparr> pos_x = 19 / 2, pos_y = 11 / 2, pos_f = 0 \<rparr>),
                             (3, \<lparr> pos_x = 47 / 10, pos_y = 11 / 2, pos_f = 0 \<rparr>)]"
  "c_body shots_moved = Some [(1, slime_m), (2, bullet_1), (3, bullet_2)]"
  "spatial_width shots_moved = 11"
  "spatial_tiles shots_moved = (replicate 121 [])[26 := [1, 2], 24 := [3]]"
  "arrays shots_moved = (\<lambda>_. [])"
  by (simp_all add: shots_moved_def shots_scenario_fields)

lemma shots_bodies:
  "body_bb slime_m = Some box_s" "body_bb bullet_1 = Some box_1" "body_bb bullet_2 = Some box_2"
  "body_g slime_m = 2" "body_g bullet_1 = 1" "body_g bullet_2 = 1"
  "body_t slime_m = None" "body_t bullet_1 = Some 1" "body_t bullet_2 = Some 1"
  "body_c slime_m = 2" "body_c bullet_1 = 4" "body_c bullet_2 = 4"
  "body_e slime_m = Some 0" "body_e bullet_1 = Some 0" "body_e bullet_2 = Some 0"
  by (simp_all add: slime_m_def bullet_1_def bullet_2_def slime_a_def bullet_a_def body_lit_def
      GROUP_ENEMY_def GROUP_PLAYER_def)

lemma shots_pairs:
  "find_pairs shots_moved [Suc 0, 2, 3] ([], [], \<lambda>_. [])
     = Some ([], [201], (\<lambda>_. [])(2 := [2], 4 := [1]))"
proof -
  have n: "get_spatial_neighbors box_s shots_moved = Some [1, 2]"
    "get_spatial_neighbors box_1 shots_moved = Some [1, 2]"
    "get_spatial_neighbors box_2 shots_moved = Some [3]"
    by (simp_all add: get_spatial_neighbors_def shots_moved_fields shots_neighbors)
  have o: "rect_overlap box_s box_1"
    by (simp add: rect_overlap_def box_s_def box_1_def)
  have g: "201 \<in> set COLLISION_GROUPS"
    by (simp add: COLLISION_GROUPS_def hash_ids_def idx_def GROUP_ENEMY_def GROUP_PLAYER_def
        GROUP_ENVIRONMENT_def)
  have h: "hash_ids (Suc 0) 2 = 201" "hash_ids 2 (Suc 0) = 201"
    by (simp_all add: hash_ids_def idx_def)
  have a: "check_neighbors shots_moved (Suc 0) slime_m [Suc 0, 2] ([], [], \<lambda>_. [])
      = Some ([], [201], (\<lambda>_. [])(2 := [2], 4 := [1]))"
    by (simp add: check_neighbor_def h shots_moved_fields group_get_def shots_bodies g o)
  have b: "check_neighbors shots_moved 2 bullet_1 [Suc 0, 2]
        ([], [201], (\<lambda>_. [])(2 := [2], 4 := [1]))
      = Some ([], [201], (\<lambda>_. [])(2 := [2], 4 := [1]))"
    by (simp add: check_neighbor_def h)
  have c: "check_neighbors shots_moved 3 bullet_2 [3] s = Some s" for s
    by (cases s) (simp add: check_neighbor_def)
  show ?thesis
    using n a b c by (simp add: shots_moved_fields group_get_def shots_bodies)
qed

lemma shots_physics:
  "system_physics (1 / 10) shots_scenario = Some shots_contact"
  by (simp add: system_physics_def shots_scenario_fields shots_moves shots_moved_fields
      shots_pairs shots_contact_def
      del: move_bodies.simps find_pairs.simps)

lemma shots_contact_fields:
  "c_body shots_contact = Some [(1, slime_m), (2, bullet_1), (3, bullet_2)]"
  "c_haz shots_contact = Some [(2, \<lparr> haz_d = 1, haz_o = 1 \<rparr>), (3, \<lparr> haz_d = 1, haz_o = 1 \<rparr>)]"
  "c_mor shots_contact = Some [(1, \<lparr> mor_h = 6 \<rparr>)]"
  "arrays shots_contact = (\<lambda>_. [])(2 := [2], 4 := [1])"
  by (simp_all add: shots_contact_def shots_moved_def shots_scenario_fields)

lemma shots_hazard_2:
  "hazard_entity 2 \<lparr> haz_d = 1, haz_o = 1 \<rparr> shots_contact
     = Some (remove_entity 2 (shots_contact\<lparr> c_mor := Some [(1, \<lparr> mor_h = 5 \<rparr>)] \<rparr>))"
  by (simp add: hazard_entity_def shots_contact_fields group_get_def group_set_def shots_bodies
      Let_def)

lemma shots_hazard_3:
  "hazard_entity 3 \<lparr> haz_d = 1, haz_o = 1 \<rparr>
       (remove_entity 2 (shots_contact\<lparr> c_mor := Some [(1, \<lparr> mor_h = 5 \<rparr>)] \<rparr>))
     = Some shots_outcome"
  by (simp add: hazard_entity_def remove_entity_def shots_contact_fields group_get_def
      group_set_def group_delete_def shots_bodies Let_def shots_outcome_def)

lemma shots_hazard:
  "system_hazard shots_contact = Some shots_outcome"
proof -
  have 2: "group_get (c_haz shots_contact) 2 = Some \<lparr> haz_d = 1, haz_o = 1 \<rparr>"
    by (simp add: shots_contact_fields group_get_def)
  have 3: "group_get (c_haz (remove_entity 2
        (shots_contact\<lparr> c_mor := Some [(1, \<lparr> mor_h = 5 \<rparr>)] \<rparr>))) 3
      = Some \<lparr> haz_d = 1, haz_o = 1 \<rparr>"
    by (simp add: remove_entity_def group_get_delete)
       (simp add: shots_contact_fields group_get_def)
  have "hazard_loop [2, 3] shots_contact = Some shots_outcome"
    using 2 3 shots_hazard_2 shots_hazard_3 by simp
  then show ?thesis
    by (simp add: system_hazard_def shots_contact_fields)
qed

lemma shots_outcome_fields:
  "group_get (c_mor shots_outcome) 1 = Some \<lparr> mor_h = 4 \<rparr>"
  "despawned 2 shots_outcome" "despawned 3 shots_outcome"
  by (simp_all add: shots_outcome_def remove_entity_def despawned_def group_get_delete)
     (simp_all add: group_get_def)

text \<open>
  C6, at the shots scenario. After the physics tick of 0.1 s the box of bullet 3 overlaps
  neither the box of the slime nor the box of bullet 2, and its terrain flag is 0: it has
  touched nothing. But its contact list is \<open>[1]\<close>: the array is the one of the bullet
  prefab, which bullet 2 shares and into which the contact of bullet 2 with the slime was
  pushed. In the hazard tick that follows, the slime loses 2 hit points (6 to 4) from
  the one bullet that reached it, and bullet 3 is despawned with bullet 2.
\<close>

theorem shared_contacts_hit:
  "map_option body_bb (body_of 1 (system_physics (1 / 10) shots_scenario))
     = Some (Some \<lparr> rect_x = 91 / 10, rect_y = 51 / 10, rect_w = 4 / 5, rect_h = 4 / 5 \<rparr>) \<and>
   map_option body_bb (body_of 2 (system_physics (1 / 10) shots_scenario))
     = Some (Some \<lparr> rect_x = 75 / 8, rect_y = 43 / 8, rect_w = 1 / 4, rect_h = 1 / 4 \<rparr>) \<and>
   map_option body_bb (body_of 3 (system_physics (1 / 10) shots_scenario))
     = Some (Some \<lparr> rect_x = 183 / 40, rect_y = 43 / 8, rect_w = 1 / 4, rect_h = 1 / 4 \<rparr>) \<and>
   \<not> rect_overlap \<lparr> rect_x = 183 / 40, rect_y = 43 / 8, rect_w = 1 / 4, rect_h = 1 / 4 \<rparr>
                  \<lparr> rect_x = 91 / 10, rect_y = 51 / 10, rect_w = 4 / 5, rect_h = 4 / 5 \<rparr> \<and>
   \<not> rect_overlap \<lparr> rect_x = 183 / 40, rect_y = 43 / 8, rect_w = 1 / 4, rect_h = 1 / 4 \<rparr>
                  \<lparr> rect_x = 75 / 8, rect_y = 43 / 8, rect_w = 1 / 4, rect_h = 1 / 4 \<rparr> \<and>
   map_option body_e (body_of 3 (system_physics (1 / 10) shots_scenario)) = Some (Some 0) \<and>
   contacts_of 3 (system_physics (1 / 10) shots_scenario) = Some [1] \<and>
   mortal_of 1 (system_physics (1 / 10) shots_scenario) = Some \<lparr> mor_h = 6 \<rparr> \<and>
   mortal_of 1 (run_systems [system_physics, \<lambda>dt. system_hazard] (1 / 10) shots_scenario)
     = Some \<lparr> mor_h = 4 \<rparr> \<and>
   gone 2 (run_systems [system_physics, \<lambda>dt. system_hazard] (1 / 10) shots_scenario) \<and>
   gone 3 (run_systems [system_physics, \<lambda>dt. system_hazard] (1 / 10) shots_scenario)"
proof -
  have r: "run_systems [system_physics, \<lambda>dt. system_hazard] (1 / 10) shots_scenario
      = Some shots_outcome"
    by (simp add: shots_physics shots_hazard)
  have g: "body_of 1 (Some shots_contact) = Some slime_m"
    "body_of 2 (Some shots_contact) = Some bullet_1"
    "body_of 3 (Some shots_contact) = Some bullet_2"
    by (simp_all add: body_of_def shots_contact_fields group_get_def)
  have x: "body_bb slime_m
        = Some \<lparr> rect_x = 91 / 10, rect_y = 51 / 10, rect_w = 4 / 5, rect_h = 4 / 5 \<rparr>"
    "body_bb bullet_1
        = Some \<lparr> rect_x = 75 / 8, rect_y = 43 / 8, rect_w = 1 / 4, rect_h = 1 / 4 \<rparr>"
    "body_bb bullet_2
        = Some \<lparr> rect_x = 183 / 40, rect_y = 43 / 8, rect_w = 1 / 4, rect_h = 1 / 4 \<rparr>"
    by (simp_all add: shots_bodies box_s_def box_1_def box_2_def)
  have o: "\<not> rect_overlap \<lparr> rect_x = 183 / 40, rect_y = 43 / 8, rect_w = 1 / 4, rect_h = 1 / 4 \<rparr>
                  \<lparr> rect_x = 91 / 10, rect_y = 51 / 10, rect_w = 4 / 5, rect_h = 4 / 5 \<rparr>"
    "\<not> rect_overlap \<lparr> rect_x = 183 / 40, rect_y = 43 / 8, rect_w = 1 / 4, rect_h = 1 / 4 \<rparr>
                  \<lparr> rect_x = 75 / 8, rect_y = 43 / 8, rect_w = 1 / 4, rect_h = 1 / 4 \<rparr>"
    by (simp_all add: rect_overlap_def)
  have c: "contacts_of 3 (Some shots_contact) = Some [1]"
    using g(3) by (simp add: contacts_of_def body_of_def shots_bodies shots_contact_fields)
  have m: "mortal_of 1 (Some shots_contact) = Some \<lparr> mor_h = 6 \<rparr>"
    "mortal_of 1 (Some shots_outcome) = Some \<lparr> mor_h = 4 \<rparr>"
    using shots_outcome_fields(1)
    by (simp_all add: mortal_of_def shots_contact_fields group_get_def)
  have d: "gone 2 (Some shots_outcome)" "gone 3 (Some shots_outcome)"
    by (simp_all add: gone_def shots_outcome_fields)
  show ?thesis
    unfolding r shots_physics g
    using x o c m d shots_bodies(15) by simp
qed

section \<open>The bounding box after a physics tick\<close>

text \<open>With the identity for the rounding, the rounded tick is the exact tick.\<close>

lemma rect_r_exact:
  "rect_overlap_r (\<lambda>x. x) a b = rect_overlap a b"
  "rect_intersection_r (\<lambda>x. x) a b = rect_intersection a b"
  by (simp_all add: rect_overlap_r_def rect_overlap_def rect_intersection_r_def
      rect_intersection_def
      Let_def cong: if_cong option.case_cong prod.case_cong)

lemma spatial_r_exact:
  "spatial_cells_r (\<lambda>x. x) bb = spatial_cells bb"
  "insert_spatial_bounds_r (\<lambda>x. x) i bb w = insert_spatial_bounds i bb w"
  "get_spatial_neighbors_r (\<lambda>x. x) bb w = get_spatial_neighbors bb w"
  by (simp_all add: spatial_cells_r_def spatial_cells_def insert_spatial_bounds_r_def
      insert_spatial_bounds_def get_spatial_neighbors_r_def get_spatial_neighbors_def
      Let_def cong: if_cong option.case_cong prod.case_cong)

lemma box_r_exact:
  "bounding_box_r (\<lambda>x. x) p b = bounding_box p b"
  "update_bounding_box_r (\<lambda>x. x) p = update_bounding_box p"
  "constrain_x_r (\<lambda>x. x) mw s = constrain_x mw s"
  "constrain_y_r (\<lambda>x. x) mh s = constrain_y mh s"
  "integrate_r (\<lambda>x. x) dt b p = integrate dt b p"
  "store_body_r (\<lambda>x. x) i p s w = store_body i p s w"
  by (simp_all add: fun_eq_iff bounding_box_r_def bounding_box_def update_bounding_box_r_def
      update_bounding_box_def constrain_x_r_def constrain_x_def constrain_y_r_def
      constrain_y_def integrate_r_def integrate_def store_body_r_def store_body_def
      Let_def cong: if_cong option.case_cong prod.case_cong)

lemma separate_r_exact:
  "sync_bounding_box_r (\<lambda>x. x) i w = sync_bounding_box i w"
  "separate_x_r (\<lambda>x. x) a b t w = separate_x a b t w"
  "separate_y_r (\<lambda>x. x) a b t w = separate_y a b t w"
  by (simp_all add: sync_bounding_box_r_def sync_bounding_box_def separate_x_r_def
      separate_x_def separate_y_r_def separate_y_def box_r_exact
      Let_def cong: if_cong option.case_cong prod.case_cong)

lemma tiles_r_exact:
  "detect_tiles_r (\<lambda>x. x) mw tiles bb = detect_tiles mw tiles bb"
  "resolve_tile_r (\<lambda>x. x) t s = resolve_tile t s"
  by (simp_all add: detect_tiles_r_def detect_tiles_def resolve_tile_r_def
      resolve_tile_def rect_r_exact
      Let_def cong: if_cong option.case_cong prod.case_cong)

lemma resolve_tiles_r_exact: "resolve_tiles_r (\<lambda>x. x) ts s = resolve_tiles ts s"
  by (induction ts arbitrary: s) (simp_all add: tiles_r_exact
      Let_def cong: if_cong option.case_cong prod.case_cong)

lemma collide_r_exact: "collide_r (\<lambda>x. x) w p b = collide w p b"
  by (simp add: collide_r_def collide_def tile_collisions_r_def tile_collisions_def
      tiles_r_exact resolve_tiles_r_exact box_r_exact
      Let_def cong: if_cong option.case_cong prod.case_cong)

lemma move_body_r_exact: "move_body_r (\<lambda>x. x) dt i b w = move_body dt i b w"
  by (simp add: move_body_r_def move_body_def collide_r_exact box_r_exact spatial_r_exact
      Let_def cong: if_cong option.case_cong prod.case_cong)

lemma move_bodies_r_exact: "move_bodies_r (\<lambda>x. x) dt ids w = move_bodies dt ids w"
  by (induction ids arbitrary: w)
     (simp_all add: move_body_r_exact Let_def cong: if_cong option.case_cong prod.case_cong)

lemma check_neighbor_r_exact:
  "check_neighbor_r (\<lambda>x. x) w i b n s = check_neighbor w i b n s"
  by (simp add: check_neighbor_r_def check_neighbor_def rect_r_exact
      Let_def cong: if_cong option.case_cong prod.case_cong)

lemma check_neighbors_r_exact:
  "check_neighbors_r (\<lambda>x. x) w i b ns s = check_neighbors w i b ns s"
  by (induction ns arbitrary: s)
     (simp_all add: check_neighbor_r_exact Let_def
        cong: if_cong option.case_cong prod.case_cong)

lemma find_pairs_r_exact: "find_pairs_r (\<lambda>x. x) w ids s = find_pairs w ids s"
  by (induction ids arbitrary: s)
     (simp_all add: check_neighbors_r_exact spatial_r_exact Let_def
        cong: if_cong option.case_cong prod.case_cong)

lemma resolve_pair_r_exact: "resolve_pair_r (\<lambda>x. x) pr w = resolve_pair pr w"
  by (simp add: resolve_pair_r_def resolve_pair_def rect_r_exact separate_r_exact
      Let_def cong: if_cong option.case_cong prod.case_cong)

lemma resolve_pairs_r_exact: "resolve_pairs_r (\<lambda>x. x) ps w = resolve_pairs ps w"
  by (induction ps arbitrary: w)
     (simp_all add: resolve_pair_r_exact Let_def cong: if_cong option.case_cong prod.case_cong)

lemma system_physics_r_exact: "system_physics_r (\<lambda>x. x) dt w = system_physics dt w"
  by (simp add: system_physics_r_def system_physics_def move_bodies_r_exact find_pairs_r_exact
      resolve_pairs_r_exact Let_def cong: if_cong option.case_cong prod.case_cong)

text \<open>
  Every body that the tick stores agrees with its position, in any arithmetic: the first
  loop leaves the position synced to the box, and the separation of a pair recomputes the
  boxes of both entities from their positions.
\<close>

lemma sized_constrain_x_r: "sized s \<Longrightarrow> sized (constrain_x_r r mw s)"
  by (cases s) (simp add: sized_def constrain_x_r_def)

lemma sized_constrain_y_r: "sized s \<Longrightarrow> sized (constrain_y_r r mh s)"
  by (cases s) (simp add: sized_def constrain_y_r_def)

lemma sized_resolve_tile_r: "sized s \<Longrightarrow> sized (resolve_tile_r r t s)"
  by (cases s) (simp add: sized_def resolve_tile_r_def Let_def)

lemma sized_resolve_tiles_r: "sized s \<Longrightarrow> sized (resolve_tiles_r r ts s)"
  by (induction ts arbitrary: s) (simp_all add: sized_resolve_tile_r)

lemma sized_tile_collisions_r: "sized s \<Longrightarrow> sized (tile_collisions_r r mw tiles s)"
proof (cases s)
  case (Pair bb b)
  assume "sized s"
  then have "sized (bb, b\<lparr> body_e := Some 1 \<rparr>)"
    by (simp add: Pair sized_def)
  then show ?thesis
    using \<open>sized s\<close> by (simp add: Pair tile_collisions_r_def Let_def sized_resolve_tiles_r)
qed

lemma sized_collide_r: "sized (collide_r r w p b)"
proof -
  have "sized (bounding_box_r r p b, b)"
    by (simp add: sized_def bounding_box_r_def)
  then show ?thesis
    unfolding collide_r_def
    by (intro sized_tile_collisions_r sized_constrain_y_r sized_constrain_x_r)
qed

lemma store_body_r_get:
  "sized s \<Longrightarrow> \<exists>b' p'. group_get (c_body (store_body_r r i p s w)) i = Some b' \<and>
      group_get (c_pos (store_body_r r i p s w)) i = Some p' \<and> agrees r p' b'"
  by (cases s) (simp add: store_body_r_def group_get_set sized_def agrees_def)

lemma store_body_r_other:
  "j \<noteq> i \<Longrightarrow> group_get (c_body (store_body_r r i p s w)) j = group_get (c_body w) j \<and>
      group_get (c_pos (store_body_r r i p s w)) j = group_get (c_pos w) j"
  by (cases s) (simp add: store_body_r_def group_get_set)

lemma insert_spatial_bounds_r_groups:
  "insert_spatial_bounds_r r i bb w = Some w' \<Longrightarrow> c_body w' = c_body w \<and> c_pos w' = c_pos w"
  by (auto simp: insert_spatial_bounds_r_def)

lemma move_body_r_effect:
  assumes "move_body_r r dt i b w = Some w'"
  shows "\<exists>b' p'. group_get (c_body w') i = Some b' \<and> group_get (c_pos w') i = Some p' \<and>
           agrees r p' b'"
    and "j \<noteq> i \<Longrightarrow> group_get (c_body w') j = group_get (c_body w) j \<and>
                          group_get (c_pos w') j = group_get (c_pos w) j"
proof -
  from assms obtain p where p: "group_get (c_pos w) i = Some p"
    by (cases "group_get (c_pos w) i") (simp_all add: move_body_r_def)
  define w1 where "w1 = w\<lparr> arrays := (arrays w)(body_c b := []) \<rparr>"
  define b1 where "b1 = b\<lparr> body_e := Some 0 \<rparr>"
  define s where "s = collide_r r w1 (integrate_r r dt b1 p) b1"
  from assms p
  have ins: "insert_spatial_bounds_r r i (fst s)
      (store_body_r r i (integrate_r r dt b1 p) s w1) = Some w'"
    by (simp add: move_body_r_def Let_def w1_def b1_def s_def)
  note g = insert_spatial_bounds_r_groups[OF ins]
  have sz: "sized s" unfolding s_def by (rule sized_collide_r)
  from store_body_r_get[OF sz]
  show "\<exists>b' p'. group_get (c_body w') i = Some b' \<and> group_get (c_pos w') i = Some p' \<and>
           agrees r p' b'"
    by (simp add: g)
  have w1: "c_body w1 = c_body w" "c_pos w1 = c_pos w" by (simp_all add: w1_def)
  show "group_get (c_body w') j = group_get (c_body w) j \<and>
        group_get (c_pos w') j = group_get (c_pos w) j" if "j \<noteq> i"
    using store_body_r_other[OF that] by (simp add: g w1)
qed

lemma move_bodies_r_agreeing:
  assumes "move_bodies_r r dt ids w = Some w'"
  shows "(\<forall>j. group_get (c_body w') j = None \<longleftrightarrow> group_get (c_body w) j = None) \<and>
         (\<forall>j. j \<in> set ids \<or> agreeing r j w \<longrightarrow> agreeing r j w')"
  using assms
proof (induction ids arbitrary: w)
  case Nil
  then show ?case by simp
next
  case (Cons i rest)
  show ?case
  proof (cases "group_get (c_body w) i")
    case None
    with Cons.prems have "move_bodies_r r dt rest w = Some w'" by simp
    from Cons.IH[OF this]
    have ih1: "(group_get (c_body w') j = None) = (group_get (c_body w) j = None)"
      and ih2: "j \<in> set rest \<or> agreeing r j w \<Longrightarrow> agreeing r j w'" for j
      by blast+
    have "agreeing r i w'"
      using ih1[of i] None by (simp add: agreeing_def)
    with ih1 ih2 show ?thesis by auto
  next
    case (Some b)
    with Cons.prems obtain w1 where w1: "move_body_r r dt i b w = Some w1"
      and rest: "move_bodies_r r dt rest w1 = Some w'"
      by (cases "move_body_r r dt i b w") simp_all
    from move_body_r_effect(1)[OF w1] obtain b' p' where
      e: "group_get (c_body w1) i = Some b'" "group_get (c_pos w1) i = Some p'"
         "agrees r p' b'"
      by blast
    note o = move_body_r_effect(2)[OF w1]
    have c1: "agreeing r i w1" using e by (simp add: agreeing_def)
    have c2: "agreeing r j w \<Longrightarrow> agreeing r j w1" for j
      using o[of j] c1 by (cases "j = i") (simp_all add: agreeing_def)
    have d: "group_get (c_body w1) j = None \<longleftrightarrow> group_get (c_body w) j = None" for j
      using o[of j] e Some by (cases "j = i") simp_all
    from Cons.IH[OF rest]
    have ih1: "(group_get (c_body w') j = None) = (group_get (c_body w1) j = None)"
      and ih2: "j \<in> set rest \<or> agreeing r j w1 \<Longrightarrow> agreeing r j w'" for j
      by blast+
    show ?thesis
    proof (intro conjI allI impI)
      fix j
      show "(group_get (c_body w') j = None) = (group_get (c_body w) j = None)"
        using ih1[of j] d[of j] by simp
    next
      fix j
      assume "j \<in> set (i # rest) \<or> agreeing r j w"
      then have "j \<in> set rest \<or> agreeing r j w1"
        using c1 c2[of j] by auto
      then show "agreeing r j w'" by (rule ih2)
    qed
  qed
qed

lemma sync_r_agreeing: "agreeing r i (sync_bounding_box_r r i w)"
  by (cases "group_get (c_pos w) i")
     (auto simp: agreeing_def agrees_def sync_bounding_box_r_def body_upd_get
      update_bounding_box_r_def bounding_box_r_def)

lemma sync_r_other:
  "j \<noteq> i \<Longrightarrow> group_get (c_body (sync_bounding_box_r r i w)) j = group_get (c_body w) j"
  "c_pos (sync_bounding_box_r r i w) = c_pos w"
  by (cases "group_get (c_pos w) i"; simp add: sync_bounding_box_r_def body_upd_get)+

lemma separate_r_other:
  "j \<noteq> a \<Longrightarrow> j \<noteq> b \<Longrightarrow>
     group_get (c_body (separate_x_r r a b t w)) j = group_get (c_body w) j \<and>
     group_get (c_pos (separate_x_r r a b t w)) j = group_get (c_pos w) j \<and>
     group_get (c_body (separate_y_r r a b t w)) j = group_get (c_body w) j \<and>
     group_get (c_pos (separate_y_r r a b t w)) j = group_get (c_pos w) j"
  by (simp add: separate_x_r_def separate_y_r_def Let_def pos_upd_get body_upd_get)

lemma resolve_pair_r_shape:
  assumes "resolve_pair_r r (a, b) w = Some w'"
  shows "\<exists>w1. w' = sync_bounding_box_r r b (sync_bounding_box_r r a w1) \<and>
        (\<forall>k. k \<noteq> a \<and> k \<noteq> b \<longrightarrow>
          group_get (c_body w1) k = group_get (c_body w) k \<and>
          group_get (c_pos w1) k = group_get (c_pos w) k)"
proof -
  from assms obtain bod_a bod_b pos_a pos_b where
    g: "group_get (c_body w) a = Some bod_a" "group_get (c_body w) b = Some bod_b"
       "group_get (c_pos w) a = Some pos_a" "group_get (c_pos w) b = Some pos_b"
    by (auto simp: resolve_pair_r_def split: option.splits)
  from assms g obtain bb_a bb_b where
    bb: "body_bb bod_a = Some bb_a" "body_bb bod_b = Some bb_b"
    by (auto simp: resolve_pair_r_def split: option.splits)
  define t where "t = rect_intersection_r r bb_a bb_b"
  define w1 where "w1 = (if rect_w t < rect_h t then separate_x_r r a b t w
                         else separate_y_r r a b t w)"
  from assms g bb have "w' = sync_bounding_box_r r b (sync_bounding_box_r r a w1)"
    by (auto simp add: resolve_pair_r_def Let_def w1_def t_def)
  moreover have "\<forall>k. k \<noteq> a \<and> k \<noteq> b \<longrightarrow>
      group_get (c_body w1) k = group_get (c_body w) k \<and>
      group_get (c_pos w1) k = group_get (c_pos w) k"
    by (simp add: w1_def separate_r_other)
  ultimately show ?thesis by blast
qed

lemma resolve_pair_r_agreeing:
  assumes "resolve_pair_r r pr w = Some w'" and "agreeing r j w"
  shows "agreeing r j w'"
proof -
  obtain a b where pr: "pr = (a, b)" by (cases pr)
  from resolve_pair_r_shape[OF assms(1)[unfolded pr]]
  obtain w1 where w': "w' = sync_bounding_box_r r b (sync_bounding_box_r r a w1)"
    and w1: "\<And>k. k \<noteq> a \<Longrightarrow> k \<noteq> b \<Longrightarrow>
        group_get (c_body w1) k = group_get (c_body w) k \<and>
        group_get (c_pos w1) k = group_get (c_pos w) k"
    by blast
  show ?thesis
  proof (cases "j = b")
    case True
    then show ?thesis by (simp add: w' sync_r_agreeing)
  next
    case nb: False
    show ?thesis
    proof (cases "j = a")
      case True
      have "agreeing r a (sync_bounding_box_r r a w1)" by (rule sync_r_agreeing)
      with nb True show ?thesis
        by (simp add: w' agreeing_def sync_r_other)
    next
      case False
      with nb w1[of j] assms(2) show ?thesis
        by (simp add: w' agreeing_def sync_r_other)
    qed
  qed
qed

lemma resolve_pairs_r_agreeing:
  "resolve_pairs_r r ps w = Some w' \<Longrightarrow> agreeing r j w \<Longrightarrow> agreeing r j w'"
proof (induction ps arbitrary: w)
  case Nil
  then show ?case by simp
next
  case (Cons pr ps)
  then obtain w1 where "resolve_pair_r r pr w = Some w1" "resolve_pairs_r r ps w1 = Some w'"
    by (cases "resolve_pair_r r pr w") simp_all
  with Cons.IH[of w1] resolve_pair_r_agreeing[of r pr w w1 j] Cons.prems show ?case by simp
qed

lemma system_physics_r_agreeing:
  assumes "system_physics_r r dt w = Some w'"
  shows "agreeing r i w'"
proof (cases "c_body w")
  case None
  with assms have "w' = w" by (simp add: system_physics_r_def)
  with None show ?thesis by (simp add: agreeing_def group_get_def)
next
  case (Some bodies)
  obtain w1 where m: "move_bodies_r r dt (map fst bodies) (clear_spatial_map w) = Some w1"
    using assms Some
    by (cases "move_bodies_r r dt (map fst bodies) (clear_spatial_map w)")
       (simp_all add: system_physics_r_def)
  obtain s where f: "find_pairs_r r w1 (map fst bodies) ([], [], arrays w1) = Some s"
    using assms Some m
    by (cases "find_pairs_r r w1 (map fst bodies) ([], [], arrays w1)")
       (simp_all add: system_physics_r_def)
  obtain pairs checked arrs where s: "s = (pairs, checked, arrs)" by (cases s)
  have rp: "resolve_pairs_r r pairs (w1\<lparr> arrays := arrs \<rparr>) = Some w'"
    using assms Some m f s by (simp add: system_physics_r_def)
  have "agreeing r i w1"
  proof (cases "i \<in> set (map fst bodies)")
    case True
    with move_bodies_r_agreeing[OF m] show ?thesis by blast
  next
    case False
    then have "group_get (c_body (clear_spatial_map w)) i = None"
      by (simp add: Some group_get_def clear_spatial_map_def map_of_eq_None_iff)
    with move_bodies_r_agreeing[OF m] have "group_get (c_body w1) i = None" by blast
    then show ?thesis by (simp add: agreeing_def)
  qed
  then have "agreeing r i (w1\<lparr> arrays := arrs \<rparr>)" by (simp add: agreeing_def)
  with resolve_pairs_r_agreeing[OF rp] show ?thesis .
qed

text \<open>The tick of the nudge scenario in double arithmetic, step by step.\<close>

lemmas double_eval = double_def expo_def expo_up.simps expo_down.simps pow2_def round_even_def
  Let_def

lemma nudge_doubles:
  "double (4 / 5) = 3602879701896397 / 4503599627370496"
  "double (1 / 10) = 3602879701896397 / 36028797018963968"
  "double (29 / 20) = 6530219459687219 / 4503599627370496"
  "double (- (3602879701896397 / 36028797018963968)) = - (3602879701896397 / 36028797018963968)"
  "double (48638875975601355 / 36028797018963968) = 6079859496950169 / 4503599627370496"
  "double (0) = 0"
  "double (9 / 2) = 9 / 2"
  "double (3602879701896397 / 9007199254740992) = 3602879701896397 / 9007199254740992"
  "double (8556839292003941 / 9007199254740992) = 8556839292003941 / 9007199254740992"
  "double (36929516944438067 / 9007199254740992) = 2308094809027379 / 562949953421312"
  "double (15762598695796735 / 9007199254740992) = 7 / 4"
  "double (22067638174115429 / 4503599627370496) = 5516909543528857 / 1125899906842624"
  "double (1) = 1"
  "double (5) = 5"
  "double (450359962737051 / 9007199254740992) = 450359962737051 / 9007199254740992"
  "double (900719925474099 / 1125899906842624) = 900719925474099 / 1125899906842624"
  "double (405648192073034579414848142049 / 10141204801825835211973625643008) = 1441151880758563 / 36028797018963968"
  "double (6079859496950169 / 4503599627370496) = 6079859496950169 / 4503599627370496"
  "double (450359962737051 / 18014398509481984) = 450359962737051 / 18014398509481984"
  "double (17564038546744933 / 18014398509481984) = 4391009636686233 / 4503599627370496"
  "double (3 / 8) = 3 / 8"
  "double (12610078956637389 / 9007199254740992) = 3152519739159347 / 2251799813685248"
  "double (40532396646334461 / 9007199254740992) = 9 / 2"
  "double (1 / 2) = 1 / 2"
  "double (2308094809027379 / 1125899906842624) = 2308094809027379 / 1125899906842624"
  "double (8106479329266893 / 4503599627370496) = 8106479329266893 / 4503599627370496"
  "double (8106479329266893 / 9007199254740992) = 8106479329266893 / 9007199254740992"
  "double (5516909543528857 / 2251799813685248) = 5516909543528857 / 2251799813685248"
  "double (9007199254740991 / 9007199254740992) = 9007199254740991 / 9007199254740992"
  by (simp_all add: double_eval)

lemma nudge_fields:
  "c_body nudge_scenario = Some [(1, nudge_body)]"
  "c_pos nudge_scenario = Some [(1, \<lparr> pos_x = 6530219459687219 / 4503599627370496, pos_y = 9 / 2, pos_f = 0 \<rparr>)]"
  "map_width nudge_scenario = 21"
  "map_height nudge_scenario = 21"
  "spatial_width nudge_scenario = 11"
  "spatial_tiles nudge_scenario = replicate 121 []"
  "arrays nudge_scenario = (\<lambda>_. [])"
  "map_tiles nudge_scenario = map_tiles edge_scenario"
  by (simp_all add: nudge_scenario_def generated_fields nudge_doubles edge_scenario_def Let_def
      body_upd_fields spawn_slime)

lemma nudge_body_fields:
  "body_w nudge_body = 3602879701896397 / 4503599627370496"
  "body_h nudge_body = 3602879701896397 / 4503599627370496"
  "body_vx nudge_body = - 1" "body_vy nudge_body = 0" "body_b nudge_body = 1"
  "body_c nudge_body = 2"
  by (simp_all add: nudge_body_def body_lit_def nudge_doubles)

lemma nudge_integrate:
  "integrate_r double (3602879701896397 / 36028797018963968) (nudge_body\<lparr> body_e := Some 0 \<rparr>)
      \<lparr> pos_x = 6530219459687219 / 4503599627370496, pos_y = 9 / 2, pos_f = 0 \<rparr>
   = \<lparr> pos_x = 6079859496950169 / 4503599627370496, pos_y = 9 / 2, pos_f = 0 \<rparr>"
  by (simp add: integrate_r_def nudge_body_fields nudge_doubles)

lemma nudge_bounding_box:
  "bounding_box_r double \<lparr> pos_x = 6079859496950169 / 4503599627370496, pos_y = 9 / 2, pos_f = 0 \<rparr>
      (nudge_body\<lparr> body_e := Some 0 \<rparr>)
   = \<lparr> rect_x = 8556839292003941 / 9007199254740992, rect_y = 2308094809027379 / 562949953421312,
       rect_w = 3602879701896397 / 4503599627370496, rect_h = 3602879701896397 / 4503599627370496 \<rparr>"
  by (simp add: bounding_box_r_def nudge_body_fields nudge_doubles)

lemma nudge_intersection:
  "rect_intersection_r double
     \<lparr> rect_x = 8556839292003941 / 9007199254740992, rect_y = 2308094809027379 / 562949953421312,
       rect_w = 3602879701896397 / 4503599627370496, rect_h = 3602879701896397 / 4503599627370496 \<rparr>
     (tile_bb 0 4)
   = \<lparr> rect_x = 8556839292003941 / 9007199254740992, rect_y = 2308094809027379 / 562949953421312,
       rect_w = 450359962737051 / 9007199254740992, rect_h = 900719925474099 / 1125899906842624 \<rparr>"
  by (simp add: rect_intersection_r_def tile_bb_def Let_def nudge_doubles)

lemma nudge_detect:
  "detect_tiles_r double 21 (map_tiles edge_scenario)
     \<lparr> rect_x = 8556839292003941 / 9007199254740992, rect_y = 2308094809027379 / 562949953421312,
       rect_w = 3602879701896397 / 4503599627370496, rect_h = 3602879701896397 / 4503599627370496 \<rparr>
   = [\<lparr> tile_x = 0, tile_y = 4, tile_a = 1441151880758563 / 36028797018963968 \<rparr>]"
proof -
  have c: "cells \<lfloor>8556839292003941 / 9007199254740992 :: real\<rfloor> \<lfloor>2308094809027379 / 562949953421312 :: real\<rfloor>
      \<lfloor>double (8556839292003941 / 9007199254740992 + 3602879701896397 / 4503599627370496)\<rfloor>
      \<lfloor>double (2308094809027379 / 562949953421312 + 3602879701896397 / 4503599627370496)\<rfloor> = [(0, 4), (1, 4)]"
    by (simp add: cells_def upto.simps nudge_doubles)
  have w0: "is_wall (map_tiles edge_scenario) (idx 0 4 21)"
    and w1: "\<not> is_wall (map_tiles edge_scenario) (idx 1 4 21)"
    by (simp_all add: edge_scenario_wall idx_def)
  have d: "detect_tiles_r double 21 (map_tiles edge_scenario)
      \<lparr> rect_x = 8556839292003941 / 9007199254740992, rect_y = 2308094809027379 / 562949953421312,
       rect_w = 3602879701896397 / 4503599627370496, rect_h = 3602879701896397 / 4503599627370496 \<rparr>
      = [\<lparr> tile_x = 0, tile_y = 4,
            tile_a = double (rect_w (rect_intersection_r double
                \<lparr> rect_x = 8556839292003941 / 9007199254740992, rect_y = 2308094809027379 / 562949953421312,
       rect_w = 3602879701896397 / 4503599627370496, rect_h = 3602879701896397 / 4503599627370496 \<rparr> (tile_bb 0 4)) *
              rect_h (rect_intersection_r double
                \<lparr> rect_x = 8556839292003941 / 9007199254740992, rect_y = 2308094809027379 / 562949953421312,
       rect_w = 3602879701896397 / 4503599627370496, rect_h = 3602879701896397 / 4503599627370496 \<rparr> (tile_bb 0 4))) \<rparr>]"
    unfolding detect_tiles_r_def
    by (simp only: rect.simps c list.map concat.simps split w0 w1 if_True if_False append.simps)
  show ?thesis
    unfolding d nudge_intersection by (simp add: nudge_doubles)
qed

lemma nudge_resolve:
  "resolve_tile_r double \<lparr> tile_x = 0, tile_y = 4, tile_a = a \<rparr>
     (\<lparr> rect_x = 8556839292003941 / 9007199254740992, rect_y = 2308094809027379 / 562949953421312,
       rect_w = 3602879701896397 / 4503599627370496, rect_h = 3602879701896397 / 4503599627370496 \<rparr>,
      nudge_body\<lparr> body_e := Some (Suc 0) \<rparr>)
   = (nudge_box, nudge_body\<lparr> body_vx := 1, body_e := Some 1 \<rparr>)"
  by (simp add: resolve_tile_r_def nudge_intersection Let_def nudge_body_fields nudge_box_def
      sign_def nudge_doubles)

lemma nudge_collide:
  assumes "map_width w = 21" and "map_height w = 21"
    and "map_tiles w = map_tiles edge_scenario"
  shows "collide_r double w \<lparr> pos_x = 6079859496950169 / 4503599627370496, pos_y = 9 / 2, pos_f = 0 \<rparr>
      (nudge_body\<lparr> body_e := Some 0 \<rparr>)
   = (nudge_box, nudge_body\<lparr> body_vx := 1, body_e := Some 1 \<rparr>)"
proof -
  let ?bb = "\<lparr> rect_x = 8556839292003941 / 9007199254740992, rect_y = 2308094809027379 / 562949953421312,
       rect_w = 3602879701896397 / 4503599627370496, rect_h = 3602879701896397 / 4503599627370496 \<rparr>"
  have c: "constrain_y_r double 21 (constrain_x_r double 21 (?bb, bd)) = (?bb, bd)" for bd
    by (simp add: constrain_x_r_def constrain_y_r_def nudge_doubles)
  show ?thesis
    unfolding collide_r_def assms nudge_bounding_box c
    by (simp add: tile_collisions_r_def nudge_detect sort_tiles_def Let_def nudge_resolve)
qed

lemma nudge_cells: "spatial_cells_r double nudge_box = [(0, 2)]"
  by (simp add: spatial_cells_r_def cells_def SPATIAL_TILE_SIZE_def upto.simps
      nudge_box_def nudge_doubles)

lemma nudge_store:
  "store_body_r double i p (nudge_box, nudge_body\<lparr> body_vx := 1, body_e := Some (Suc 0) \<rparr>) w
     = w\<lparr> c_pos := group_set (c_pos w) i
              (p\<lparr> pos_x := 3152519739159347 / 2251799813685248, pos_y := 9 / 2 \<rparr>),
          c_body := group_set (c_body w) i nudged_body \<rparr>"
  by (simp add: store_body_r_def nudge_body_fields nudge_box_def nudged_body_def nudge_doubles)

lemma move_body_r_steps:
  assumes "group_get (c_pos w) i = Some p"
    and "integrate_r r dt (b\<lparr> body_e := Some 0 \<rparr>) p = p1"
    and "collide_r r (w\<lparr> arrays := (arrays w)(body_c b := []) \<rparr>) p1
           (b\<lparr> body_e := Some 0 \<rparr>) = s"
    and "insert_spatial_bounds_r r i (fst s)
           (store_body_r r i p1 s (w\<lparr> arrays := (arrays w)(body_c b := []) \<rparr>)) = Some w'"
  shows "move_body_r r dt i b w = Some w'"
  using assms by (simp add: move_body_r_def Let_def)

lemma nudge_move:
  "move_body_r double (3602879701896397 / 36028797018963968) (Suc 0) nudge_body
     (clear_spatial_map nudge_scenario) = Some nudge_outcome"
proof (rule move_body_r_steps)
  let ?w = "clear_spatial_map nudge_scenario"
  let ?w1 = "?w\<lparr> arrays := (arrays ?w)(body_c nudge_body := []) \<rparr>"
  show "group_get (c_pos ?w) (Suc 0) = Some \<lparr> pos_x = 6530219459687219 / 4503599627370496, pos_y = 9 / 2, pos_f = 0 \<rparr>"
    by (simp add: clear_spatial_map_def nudge_fields group_get_def)
  show "integrate_r double (3602879701896397 / 36028797018963968) (nudge_body\<lparr> body_e := Some 0 \<rparr>)
      \<lparr> pos_x = 6530219459687219 / 4503599627370496, pos_y = 9 / 2, pos_f = 0 \<rparr>
      = \<lparr> pos_x = 6079859496950169 / 4503599627370496, pos_y = 9 / 2, pos_f = 0 \<rparr>"
    by (rule nudge_integrate)
  show "collide_r double ?w1 \<lparr> pos_x = 6079859496950169 / 4503599627370496, pos_y = 9 / 2, pos_f = 0 \<rparr>
      (nudge_body\<lparr> body_e := Some 0 \<rparr>)
      = (nudge_box, nudge_body\<lparr> body_vx := 1, body_e := Some 1 \<rparr>)"
    by (rule nudge_collide) (simp_all add: clear_spatial_map_def nudge_fields)
  show "insert_spatial_bounds_r double (Suc 0)
        (fst (nudge_box, nudge_body\<lparr> body_vx := 1, body_e := Some 1 \<rparr>))
        (store_body_r double (Suc 0) \<lparr> pos_x = 6079859496950169 / 4503599627370496, pos_y = 9 / 2, pos_f = 0 \<rparr>
           (nudge_box, nudge_body\<lparr> body_vx := 1, body_e := Some 1 \<rparr>) ?w1)
      = Some nudge_outcome"
    by (simp add: nudge_store insert_spatial_bounds_r_def clear_spatial_map_def nudge_fields
        nudge_cells idx_def group_set_def nudge_outcome_def nudge_body_fields fun_upd_idem)
qed

lemma nudge_physics:
  "system_physics_r double (3602879701896397 / 36028797018963968) nudge_scenario = Some nudge_outcome"
proof -
  have m: "move_bodies_r double (3602879701896397 / 36028797018963968) [Suc 0] (clear_spatial_map nudge_scenario)
      = Some nudge_outcome"
    by (simp add: nudge_fields group_get_def nudge_move)
  have f: "find_pairs_r double nudge_outcome [Suc 0] ([], [], arrays nudge_outcome)
      = Some ([], [], arrays nudge_outcome)"
    by (simp add: nudge_outcome_def group_get_def nudged_body_def get_spatial_neighbors_r_def
        nudge_fields nudge_cells idx_def check_neighbor_r_def)
  show ?thesis
    using m f by (simp add: system_physics_r_def nudge_fields nudge_outcome_def)
qed

text \<open>
  C7, as the claim states it, fails in the arithmetic of the program. After the tick of
  the nudge scenario the box of entity 1 is at \<open>x = 1\<close> and its position at the double
  nearest to 1.4, which the sync computed from the box; the box is not recomputed after
  the sync, and \<open>pos.x - w / 2\<close> is \<open>1 - 2 ^ (- 53)\<close>, whether the subtraction is rounded or not.
\<close>

theorem bbox_not_recomputed:
  "system_physics_r double (double (1 / 10)) nudge_scenario = Some nudge_outcome \<and>
   group_get (c_body nudge_outcome) 1 = Some nudged_body \<and>
   group_get (c_pos nudge_outcome) 1
     = Some \<lparr> pos_x = 3152519739159347 / 2251799813685248, pos_y = 9 / 2, pos_f = 0 \<rparr> \<and>
   body_bb nudged_body = Some nudge_box \<and>
   rect_x nudge_box = 1 \<and>
   double (3152519739159347 / 2251799813685248 - double (body_w nudged_body / 2))
     = 9007199254740991 / 9007199254740992 \<and>
   3152519739159347 / 2251799813685248 - body_w nudged_body / 2
     = (9007199254740991 / 9007199254740992 :: real) \<and>
   body_bb nudged_body
     \<noteq> Some (bounding_box_r double
          \<lparr> pos_x = 3152519739159347 / 2251799813685248, pos_y = 9 / 2, pos_f = 0 \<rparr>
          nudged_body) \<and>
   body_bb nudged_body
     \<noteq> Some \<lparr> rect_x = 3152519739159347 / 2251799813685248 - body_w nudged_body / 2,
              rect_y = 9 / 2 - body_h nudged_body / 2,
              rect_w = body_w nudged_body, rect_h = body_h nudged_body \<rparr>"
proof -
  have 1: "system_physics_r double (double (1 / 10)) nudge_scenario = Some nudge_outcome"
    by (simp add: nudge_doubles nudge_physics)
  have 2: "group_get (c_body nudge_outcome) 1 = Some nudged_body"
    by (simp add: nudge_outcome_def group_get_def)
  have 3: "group_get (c_pos nudge_outcome) 1
      = Some \<lparr> pos_x = 3152519739159347 / 2251799813685248, pos_y = 9 / 2, pos_f = 0 \<rparr>"
    by (simp add: nudge_outcome_def group_get_def)
  have 4: "body_bb nudged_body = Some nudge_box" "rect_x nudge_box = 1"
    by (simp_all add: nudged_body_def nudge_box_def)
  have w: "body_w nudged_body = 3602879701896397 / 4503599627370496"
    by (simp add: nudged_body_def nudge_body_fields)
  have 5: "double (3152519739159347 / 2251799813685248 - double (body_w nudged_body / 2))
      = 9007199254740991 / 9007199254740992"
    by (simp add: w nudge_doubles)
  have 6: "3152519739159347 / 2251799813685248 - body_w nudged_body / 2
      = (9007199254740991 / 9007199254740992 :: real)"
    by (simp add: w)
  have 7: "body_bb nudged_body
      \<noteq> Some (bounding_box_r double
           \<lparr> pos_x = 3152519739159347 / 2251799813685248, pos_y = 9 / 2, pos_f = 0 \<rparr>
           nudged_body)"
    using 5 by (simp add: 4 bounding_box_r_def nudge_box_def)
  have 8: "body_bb nudged_body
      \<noteq> Some \<lparr> rect_x = 3152519739159347 / 2251799813685248 - body_w nudged_body / 2,
               rect_y = 9 / 2 - body_h nudged_body / 2,
               rect_w = body_w nudged_body, rect_h = body_h nudged_body \<rparr>"
    using 6 by (simp add: 4 nudge_box_def)
  from 1 2 3 4 5 6 7 8 show ?thesis by blast
qed

text \<open>
  C7, amended. After a physics tick that ends without an exception, in the arithmetic of
  any rounding \<open>r\<close>, every entity that has a body and a position has a box of the size of
  its body, \<open>bbox.w = w\<close> and \<open>bbox.h = h\<close>, and either the corner of the box is what
  \<open>update_bounding_box\<close> computes from the position, \<open>bbox.x = pos.x - w / 2\<close> and
  \<open>bbox.y = pos.y - h / 2\<close> (the box is recomputed after the separation of a pair), or the
  position is what the sync computes from the box, \<open>pos.x = bbox.x + w / 2\<close> and
  \<open>pos.y = bbox.y + h / 2\<close> (the box is not recomputed after the sync). In exact arithmetic
  both say that the box is \<open>(pos.x - w/2, pos.y - h/2, w, h)\<close>.
\<close>

theorem bbox_invariant:
  assumes "system_physics_r r dt w = Some w'"
    and "group_get (c_body w') i = Some b" and "group_get (c_pos w') i = Some p"
  shows "\<exists>bb. body_bb b = Some bb \<and> rect_w bb = body_w b \<and> rect_h bb = body_h b \<and>
           ((rect_x bb = r (pos_x p - r (body_w b / 2)) \<and>
             rect_y bb = r (pos_y p - r (body_h b / 2))) \<or>
            (pos_x p = r (rect_x bb + r (body_w b / 2)) \<and>
             pos_y p = r (rect_y bb + r (body_h b / 2)))) \<and>
           (r = (\<lambda>x. x) \<longrightarrow>
              bb = \<lparr> rect_x = pos_x p - body_w b / 2, rect_y = pos_y p - body_h b / 2,
                     rect_w = body_w b, rect_h = body_h b \<rparr>)"
proof -
  from system_physics_r_agreeing[OF assms(1), of i] assms(2,3) have "agrees r p b"
    by (simp add: agreeing_def)
  then obtain bb where bb: "body_bb b = Some bb"
    and sz: "rect_w bb = body_w b" "rect_h bb = body_h b"
    and d: "(rect_x bb = r (pos_x p - r (body_w b / 2)) \<and>
             rect_y bb = r (pos_y p - r (body_h b / 2))) \<or>
            (pos_x p = r (rect_x bb + r (body_w b / 2)) \<and>
             pos_y p = r (rect_y bb + r (body_h b / 2)))"
    by (auto simp: agrees_def split: option.splits)
  have "bb = \<lparr> rect_x = pos_x p - body_w b / 2, rect_y = pos_y p - body_h b / 2,
               rect_w = body_w b, rect_h = body_h b \<rparr>" if "r = (\<lambda>x. x)"
    using d sz that by (cases bb) auto
  with bb sz d show ?thesis by blast
qed

theorem bbox_invariant_witness:
  "system_physics_r double (double (1 / 10)) nudge_scenario = Some nudge_outcome \<and>
   group_get (c_body nudge_outcome) 1 = Some nudged_body \<and>
   group_get (c_pos nudge_outcome) 1
     = Some \<lparr> pos_x = 3152519739159347 / 2251799813685248, pos_y = 9 / 2, pos_f = 0 \<rparr> \<and>
   body_bb nudged_body = Some nudge_box \<and>
   rect_w nudge_box = body_w nudged_body \<and> rect_h nudge_box = body_h nudged_body \<and>
   3152519739159347 / 2251799813685248
     = double (rect_x nudge_box + double (body_w nudged_body / 2)) \<and>
   9 / 2 = double (rect_y nudge_box + double (body_h nudged_body / 2)) \<and>
   system_physics_r (\<lambda>x. x) (1 / 10) (wall_scenario 0) = Some (wall_outcome 0) \<and>
   group_get (c_body (wall_outcome 0)) 1 = Some (moved_body 0) \<and>
   group_get (c_pos (wall_outcome 0)) 1 = Some \<lparr> pos_x = 7 / 5, pos_y = 24 / 5, pos_f = 0 \<rparr> \<and>
   body_bb (moved_body 0)
     = Some \<lparr> rect_x = 7 / 5 - body_w (moved_body 0) / 2,
              rect_y = 24 / 5 - body_h (moved_body 0) / 2,
              rect_w = body_w (moved_body 0), rect_h = body_h (moved_body 0) \<rparr>"
proof -
  have 1: "system_physics_r double (double (1 / 10)) nudge_scenario = Some nudge_outcome"
    by (simp add: nudge_doubles nudge_physics)
  have 2: "group_get (c_body nudge_outcome) 1 = Some nudged_body"
    by (simp add: nudge_outcome_def group_get_def)
  have 3: "group_get (c_pos nudge_outcome) 1
      = Some \<lparr> pos_x = 3152519739159347 / 2251799813685248, pos_y = 9 / 2, pos_f = 0 \<rparr>"
    by (simp add: nudge_outcome_def group_get_def)
  have 4: "body_bb nudged_body = Some nudge_box"
    by (simp add: nudged_body_def)
  have 5: "body_w nudged_body = 3602879701896397 / 4503599627370496"
    "body_h nudged_body = 3602879701896397 / 4503599627370496"
    "rect_x nudge_box = 1" "rect_y nudge_box = 2308094809027379 / 562949953421312"
    "rect_w nudge_box = 3602879701896397 / 4503599627370496"
    "rect_h nudge_box = 3602879701896397 / 4503599627370496"
    by (simp_all add: nudged_body_def nudge_body_fields nudge_box_def)
  have 6: "rect_x nudge_box \<noteq> double (3152519739159347 / 2251799813685248
      - double (body_w nudged_body / 2))"
    by (simp add: 5 nudge_doubles)
  have 7: "system_physics_r (\<lambda>x. x) (1 / 10) (wall_scenario 0) = Some (wall_outcome 0)"
    by (simp add: system_physics_r_exact wall_scenario_physics)
  have 8: "group_get (c_body (wall_outcome 0)) 1 = Some (moved_body 0)"
    by (simp add: wall_outcome_def group_get_def)
  have 9: "group_get (c_pos (wall_outcome 0)) 1
      = Some \<lparr> pos_x = 7 / 5, pos_y = 24 / 5, pos_f = 0 \<rparr>"
    by (simp add: wall_outcome_def group_get_def)
  from bbox_invariant[OF 1 2 3] 4 6
  have a: "rect_w nudge_box = body_w nudged_body \<and> rect_h nudge_box = body_h nudged_body \<and>
      3152519739159347 / 2251799813685248
        = double (rect_x nudge_box + double (body_w nudged_body / 2)) \<and>
      9 / 2 = double (rect_y nudge_box + double (body_h nudged_body / 2))"
    by auto
  from bbox_invariant[OF 7 8 9]
  have b: "body_bb (moved_body 0)
      = Some \<lparr> rect_x = 7 / 5 - body_w (moved_body 0) / 2,
               rect_y = 24 / 5 - body_h (moved_body 0) / 2,
               rect_w = body_w (moved_body 0), rect_h = body_h (moved_body 0) \<rparr>"
    by auto
  from 1 2 3 4 7 8 9 a b show ?thesis by blast
qed

end
